(* ===== verification/Prelude.thy ===== *)
theory Prelude
  imports Main "HOL-Library.Sublist" "HOL-Library.AList"
begin

text \<open>
  Shared vocabulary of the model of the three generator scripts
  (\<^verbatim>\<open>src/Create2ndGroupVerbs.py\<close>, \<^verbatim>\<open>src/Create3rdGroupVerbs.py\<close>,
  \<^verbatim>\<open>src/CreateIrregularVerbs.py\<close>): the character encoding of Python text,
  the Python string and dictionary operations the scripts use, the Python
  exceptions they can raise, and the lemma collections the component theories
  feed.
\<close>

section \<open>Lemma collections\<close>

named_theorems table_defs
  "rule tables and fixed word lists, unfolded when a generator is evaluated on a concrete verb"
named_theorems py_simps
  "evaluation rules of the modelled Python string and dictionary operations"

section \<open>Text\<close>

text \<open>
  A Python \<open>str\<close> is a sequence of Unicode code points, and the scripts slice
  it by code point (\<open>v[:-3]\<close>, \<open>pp[:-1]\<close>). Every code point that occurs in
  the scripts is one of the printable ASCII characters, a Latin-1 letter with an
  accent (a, e, i, o with a grave accent, e with an acute accent, e and i with
  a circumflex), the em dash U+2014 or the
  right single quotation mark U+2019. Each of them has a single byte in the
  Windows-1252 code page, so Python text is modelled as an Isabelle \<open>string\<close>
  holding that encoding: one \<open>char\<close> per code point, hence \<open>length\<close>,
  \<open>take\<close> and \<open>drop\<close> count as Python does.
\<close>

type_synonym pystr = string

abbreviation a_grave :: char where "a_grave \<equiv> CHR 0xE0"
abbreviation e_grave :: char where "e_grave \<equiv> CHR 0xE8"
abbreviation e_acute :: char where "e_acute \<equiv> CHR 0xE9"
abbreviation e_circ :: char where "e_circ \<equiv> CHR 0xEA"
abbreviation i_grave :: char where "i_grave \<equiv> CHR 0xEC"
abbreviation i_circ :: char where "i_circ \<equiv> CHR 0xEE"
abbreviation o_grave :: char where "o_grave \<equiv> CHR 0xF2"
abbreviation em_dash :: char where "em_dash \<equiv> CHR 0x97"

section \<open>Python exceptions\<close>

datatype py_error =
    KeyError pystr        \<comment> \<open>\<open>d[k]\<close> on a missing key, with the key\<close>
  | JSONDecodeError       \<comment> \<open>\<open>json.load\<close> on a file that is not JSON\<close>
  | AttributeError        \<comment> \<open>\<open>idx.get\<close> on a JSON value that is not an object\<close>
  | TypeError             \<comment> \<open>\<open>list + x\<close> with \<open>x\<close> not a list\<close>
  | IndexError            \<comment> \<open>\<open>xs[0]\<close> on an empty list\<close>

text \<open>Sequencing of statements that may raise: the first exception propagates.\<close>

definition py_bind :: "py_error + 'a \<Rightarrow> ('a \<Rightarrow> py_error + 'b) \<Rightarrow> py_error + 'b" where
  "py_bind r f = (case r of Inl e \<Rightarrow> Inl e | Inr x \<Rightarrow> f x)"

section \<open>String operations\<close>

text \<open>\<open>s[:-n]\<close> for \<open>n \<ge> 1\<close>: everything but the last \<open>n\<close> code points, empty when
  \<open>s\<close> is shorter.\<close>

definition drop_last :: "nat \<Rightarrow> 'a list \<Rightarrow> 'a list" where
  "drop_last n s = take (length s - n) s"

text \<open>\<open>s.endswith(t)\<close>.\<close>

definition ends_with :: "pystr \<Rightarrow> pystr \<Rightarrow> bool" where
  "ends_with s t \<longleftrightarrow> length t \<le> length s \<and> drop (length s - length t) s = t"

text \<open>\<open>k in s\<close> for strings: \<open>k\<close> occurs at some position of \<open>s\<close>. The scan
  follows CPython's left-to-right search.\<close>

fun contains :: "pystr \<Rightarrow> pystr \<Rightarrow> bool" where
  "contains k [] \<longleftrightarrow> k = []"
| "contains k (c # cs) \<longleftrightarrow> take (length k) (c # cs) = k \<or> contains k cs"

text \<open>The f-string \<open>f"{p} {f}"\<close>.\<close>

definition spaced :: "pystr \<Rightarrow> pystr \<Rightarrow> pystr" where
  "spaced p f = p @ '' '' @ f"

section \<open>Dictionaries\<close>

text \<open>
  A dictionary literal of the scripts is an association list in source order;
  its keys are distinct (proved for every table), so \<open>map_of\<close> is the
  dictionary. \<open>d[k]\<close> raises \<open>KeyError\<close>, \<open>d.get(k, x)\<close> falls back to \<open>x\<close>.
\<close>

definition dict_get :: "(pystr \<times> 'v) list \<Rightarrow> pystr \<Rightarrow> py_error + 'v" where
  "dict_get d k = (case map_of d k of None \<Rightarrow> Inl (KeyError k) | Some v \<Rightarrow> Inr v)"

text \<open>\<open>d[k] = v\<close>: an existing key keeps its position, a new one is appended,
  as in a Python dictionary.\<close>

definition dict_set :: "('k \<times> 'v) list \<Rightarrow> 'k \<Rightarrow> 'v \<Rightarrow> ('k \<times> 'v) list" where
  "dict_set d k v = AList.update k v d"

text \<open>\<open>xs[0]\<close>.\<close>

definition py_index0 :: "'a list \<Rightarrow> py_error + 'a" where
  "py_index0 xs = (case xs of [] \<Rightarrow> Inl IndexError | x # _ \<Rightarrow> Inr x)"

definition dict_get_default :: "('k \<times> 'v) list \<Rightarrow> 'k \<Rightarrow> 'v \<Rightarrow> 'v" where
  "dict_get_default d k x = (case map_of d k of None \<Rightarrow> x | Some v \<Rightarrow> v)"

text \<open>Duplicates removed, first occurrences kept in order: what
  \<open>list(dict.fromkeys(xs))\<close> promises.\<close>

definition first_occ :: "'a list \<Rightarrow> 'a list" where
  "first_occ xs = rev (remdups (rev xs))"

text \<open>Two key lists hold the same keys, in any order.\<close>

definition same_keys :: "'a list \<Rightarrow> 'a list \<Rightarrow> bool" where
  "same_keys xs ys \<longleftrightarrow> list_all (\<lambda>x. x \<in> set ys) xs \<and> list_all (\<lambda>y. y \<in> set xs) ys"

section \<open>Lemmas\<close>

lemma first_occ_Nil [simp]: "first_occ [] = []"
  by (simp add: first_occ_def)

lemma remdups_snoc: "remdups (ys @ [x]) = remdups (filter (\<lambda>y. y \<noteq> x) ys) @ [x]"
  by (induction ys) auto

lemma first_occ_Cons: "first_occ (x # xs) = x # first_occ (filter (\<lambda>y. y \<noteq> x) xs)"
  by (simp add: first_occ_def remdups_snoc rev_filter)

lemma distinct_first_occ [simp]: "distinct (first_occ xs)"
  by (simp add: first_occ_def)

lemma set_first_occ [simp]: "set (first_occ xs) = set xs"
  by (simp add: first_occ_def)

lemma first_occ_id: "distinct xs \<Longrightarrow> first_occ xs = xs"
  by (simp add: first_occ_def distinct_remdups_id)

lemma remdups_append_remdups: "remdups (xs @ remdups ys) = remdups (xs @ ys)"
  by (induction xs) auto

lemma first_occ_append_first_occ: "first_occ (first_occ xs @ ys) = first_occ (xs @ ys)"
  by (simp add: first_occ_def remdups_append_remdups)

lemma same_keys_iff: "same_keys xs ys \<longleftrightarrow> set xs = set ys"
  by (auto simp: same_keys_def list_all_iff)


lemma py_bind_Inr [simp]: "py_bind (Inr x) f = f x"
  by (simp add: py_bind_def)

lemma py_bind_Inl [simp]: "py_bind (Inl e) f = Inl e"
  by (simp add: py_bind_def)

lemma py_bind_eq_Inr: "py_bind r f = Inr y \<longleftrightarrow> (\<exists>x. r = Inr x \<and> f x = Inr y)"
  by (cases r) simp_all

lemma ends_with_iff_suffix: "ends_with s t \<longleftrightarrow> suffix t s"
proof
  assume "ends_with s t"
  then have "s = take (length s - length t) s @ t"
    unfolding ends_with_def by (metis append_take_drop_id)
  then show "suffix t s" unfolding suffix_def by blast
next
  assume "suffix t s"
  then obtain zs where "s = zs @ t" unfolding suffix_def by blast
  then show "ends_with s t" by (simp add: ends_with_def)
qed

lemma contains_iff_sublist: "contains k s \<longleftrightarrow> sublist k s"
proof (induction s)
  case Nil
  then show ?case by simp
next
  case (Cons c cs)
  have "take (length k) (c # cs) = k \<longleftrightarrow> prefix k (c # cs)"
  proof
    assume "take (length k) (c # cs) = k"
    then show "prefix k (c # cs)" by (metis take_is_prefix)
  next
    assume "prefix k (c # cs)"
    then show "take (length k) (c # cs) = k" by (auto simp: prefix_def)
  qed
  with Cons show ?case by (simp add: sublist_Cons_right)
qed

lemma drop_last_append_Cons [py_simps]: "drop_last 1 (xs @ [x]) = xs"
  by (simp add: drop_last_def)

lemma ends_with_append [py_simps]: "ends_with (xs @ t) t"
  by (simp add: ends_with_def)

lemma length_drop_last [simp]: "length (drop_last n s) = length s - n"
  by (simp add: drop_last_def)

lemma dict_get_Inr_iff: "dict_get d k = Inr v \<longleftrightarrow> map_of d k = Some v"
  by (simp add: dict_get_def split: option.splits)

lemma dict_get_Inl_iff: "(\<exists>e. dict_get d k = Inl e) \<longleftrightarrow> k \<notin> fst ` set d"
  by (force simp: dict_get_def map_of_eq_None_iff dest: map_of_SomeD split: option.splits)

lemma map_of_key_Some: "k \<in> fst ` set d \<Longrightarrow> \<exists>v. map_of d k = Some v"
  by (auto simp: dom_def simp flip: dom_map_of_conv_image_fst)

lemma map_of_Some_key: "map_of d k = Some v \<Longrightarrow> k \<in> fst ` set d"
  by (auto simp: dom_def simp flip: dom_map_of_conv_image_fst)

lemma map_of_row_length:
  "list_all (\<lambda>(_, fs). length fs = n) d \<Longrightarrow> map_of d k = Some fs \<Longrightarrow> length fs = n"
  by (auto simp: list_all_iff dest: map_of_SomeD)

lemma dict_get_Inr_key: "dict_get d k = Inr v \<Longrightarrow> k \<in> fst ` set d"
  by (auto simp: dict_get_def split: option.splits intro: map_of_Some_key)

lemma dict_get_key_Inr: "k \<in> fst ` set d \<Longrightarrow> \<exists>v. dict_get d k = Inr v"
  using map_of_key_Some [of k d] by (auto simp: dict_get_def)

lemma dict_get_default_Some [py_simps]: "map_of d k = Some v \<Longrightarrow> dict_get_default d k x = v"
  by (simp add: dict_get_default_def)

lemma dict_get_default_None [py_simps]: "map_of d k = None \<Longrightarrow> dict_get_default d k x = x"
  by (simp add: dict_get_default_def)

lemma length_map2 [simp]: "length (map2 f xs ys) = min (length xs) (length ys)"
  by simp

lemma nth_map2 [simp]: "i < length xs \<Longrightarrow> i < length ys \<Longrightarrow> map2 f xs ys ! i = f (xs ! i) (ys ! i)"
  by simp

text \<open>A sequence of writes \<open>m[k(v)] = t(v)\<close>, one per element: the last write
  of a key wins, and writing the same sequence twice is writing it once.\<close>

lemma fold_upd_map_add: "fold (\<lambda>v m. m(k v \<mapsto> t v)) vs ds = ds ++ map_of (rev (map (\<lambda>v. (k v, t v)) vs))"
  by (induction vs arbitrary: ds) (simp_all add: map_add_assoc [symmetric])

lemma fold_upd_idem:
  "fold (\<lambda>v m. m(k v \<mapsto> t v)) vs (fold (\<lambda>v m. m(k v \<mapsto> t v)) vs ds) = fold (\<lambda>v m. m(k v \<mapsto> t v)) vs ds"
proof -
  have idem: "(m :: 'a \<rightharpoonup> 'b) ++ m = m" for m
    by (rule ext) (simp add: map_add_def split: option.splits)
  let ?M = "map_of (rev (map (\<lambda>v. (k v, t v)) vs))"
  have "(ds ++ ?M) ++ ?M = ds ++ (?M ++ ?M)" by (rule map_add_assoc [symmetric])
  then show ?thesis by (simp only: fold_upd_map_add idem)
qed

lemma ends_with_last: "ends_with s t \<Longrightarrow> t \<noteq> [] \<Longrightarrow> last s = last t"
  by (auto simp: ends_with_iff_suffix suffix_def)

lemmas py_eval = drop_last_def ends_with_def spaced_def dict_get_def dict_get_default_def dict_set_def py_index0_def

end
