(* ===== verification/Composer.thy ===== *)
theory Composer
  imports Prelude
begin

text \<open>
  The Compound-Tense Composer, shared by the three scripts: the pronoun lists,
  the conjugated auxiliaries \<open>avere\<close>/\<open>essere\<close> in the five tenses that
  compound tenses use (\<open>aux_pres\<close> \<dots> \<open>aux_cong_impf\<close>), and \<open>compose\<close>, which
  prefixes each person's pronoun and auxiliary to the past participle and, with
  \<open>essere\<close>, makes the participle plural where the auxiliary form "looks
  plural". The definitions follow \<^verbatim>\<open>src/Create2ndGroupVerbs.py\<close>;
  \<^verbatim>\<open>src/Create3rdGroupVerbs.py\<close> holds the same text, and
  \<^verbatim>\<open>src/CreateIrregularVerbs.py\<close> a reformulated \<open>compose\<close>
  (\<open>compose_irr\<close>), proved equal. The lemmas compare the heuristic with the
  agreement rule the specification asks for (plural exactly in the slots 3, 4, 5).
\<close>

section \<open>Persons\<close>

definition FR_PRONOUNS :: "pystr list" where
  "FR_PRONOUNS = [''je'', ''tu'', ''il/elle'', ''nous'', ''vous'', ''ils/elles'']"

definition IT_PRONOUNS :: "pystr list" where
  "IT_PRONOUNS = [''io'', ''tu'', ''lui/lei'', ''noi'', ''voi'', ''loro'']"

section \<open>Auxiliary paradigms\<close>

text \<open>Each table is selected by \<open>it == "avere"\<close>; every other value gets the
  \<open>essere\<close> forms, as in the source.\<close>

definition aux_pres :: "pystr \<Rightarrow> pystr list" where
  "aux_pres it = (if it = ''avere'' then [''ho'', ''hai'', ''ha'', ''abbiamo'', ''avete'', ''hanno'']
     else [''sono'', ''sei'', [e_grave], ''siamo'', ''siete'', ''sono''])"

definition aux_impf :: "pystr \<Rightarrow> pystr list" where
  "aux_impf it = (if it = ''avere''
     then [''avevo'', ''avevi'', ''aveva'', ''avevamo'', ''avevate'', ''avevano'']
     else [''ero'', ''eri'', ''era'', ''eravamo'', ''eravate'', ''erano''])"

definition aux_rem :: "pystr \<Rightarrow> pystr list" where
  "aux_rem it = (if it = ''avere''
     then [''ebbi'', ''avesti'', ''ebbe'', ''avemmo'', ''aveste'', ''ebbero'']
     else [''fui'', ''fosti'', ''fu'', ''fummo'', ''foste'', ''furono''])"

definition aux_fut :: "pystr \<Rightarrow> pystr list" where
  "aux_fut it = (if it = ''avere''
     then [''avr'' @ [o_grave], ''avrai'', ''avr'' @ [a_grave], ''avremo'', ''avrete'', ''avranno'']
     else [''sar'' @ [o_grave], ''sarai'', ''sar'' @ [a_grave], ''saremo'', ''sarete'', ''saranno''])"

definition aux_cond :: "pystr \<Rightarrow> pystr list" where
  "aux_cond it = (if it = ''avere''
     then [''avrei'', ''avresti'', ''avrebbe'', ''avremmo'', ''avreste'', ''avrebbero'']
     else [''sarei'', ''saresti'', ''sarebbe'', ''saremmo'', ''sareste'', ''sarebbero''])"

definition aux_cong_pres :: "pystr \<Rightarrow> pystr list" where
  "aux_cong_pres it = (if it = ''avere''
     then [''che io abbia'', ''che tu abbia'', ''che lui/lei abbia'', ''che noi abbiamo'',
           ''che voi abbiate'', ''che loro abbiano'']
     else [''che io sia'', ''che tu sia'', ''che lui/lei sia'', ''che noi siamo'',
           ''che voi siate'', ''che loro siano''])"

definition aux_cong_impf :: "pystr \<Rightarrow> pystr list" where
  "aux_cong_impf it = (if it = ''avere''
     then [''che io avessi'', ''che tu avessi'', ''che lui/lei avesse'', ''che noi avessimo'',
           ''che voi aveste'', ''che loro avessero'']
     else [''che io fossi'', ''che tu fossi'', ''che lui/lei fosse'', ''che noi fossimo'',
           ''che voi foste'', ''che loro fossero''])"

declare FR_PRONOUNS_def [table_defs] IT_PRONOUNS_def [table_defs]
  aux_pres_def [table_defs] aux_impf_def [table_defs] aux_rem_def [table_defs]
  aux_fut_def [table_defs] aux_cond_def [table_defs] aux_cong_pres_def [table_defs]
  aux_cong_impf_def [table_defs]

section \<open>Person-indexed forms\<close>

text \<open>The list comprehensions the generators share: each zips the six
  pronouns with six computed strings.\<close>

text \<open>\<open>[f"{p} {f}" for p,f in zip(IT_PRONOUNS, forms)]\<close>.\<close>

definition with_pronouns :: "pystr list \<Rightarrow> pystr list" where
  "with_pronouns forms = map2 spaced IT_PRONOUNS forms"

text \<open>\<open>[f"{p} {base}{e}" for p,e in zip(IT_PRONOUNS, ends)]\<close>.\<close>

definition person_forms :: "pystr \<Rightarrow> pystr list \<Rightarrow> pystr list" where
  "person_forms base ends = map2 (\<lambda>p e. spaced p (base @ e)) IT_PRONOUNS ends"

text \<open>\<open>[f"che {p} {base}{e}" for p,e in zip(IT_PRONOUNS, ends)]\<close>.\<close>

definition che_forms :: "pystr \<Rightarrow> pystr list \<Rightarrow> pystr list" where
  "che_forms base ends = map2 (\<lambda>p e. ''che '' @ spaced p (base @ e)) IT_PRONOUNS ends"

text \<open>\<open>[f"{a} {pp}" for a in aux_forms]\<close>: the subjunctive compound tenses,
  built without \<open>compose\<close>.\<close>

definition with_pp :: "pystr list \<Rightarrow> pystr \<Rightarrow> pystr list" where
  "with_pp aux_forms pp = map (\<lambda>a. spaced a pp) aux_forms"

section \<open>Composition\<close>

text \<open>The plural test of \<open>compose\<close>: the auxiliary form contains one of the
  listed plural forms, or ends in \<open>mo\<close>, \<open>te\<close> or \<open>no\<close>.\<close>

definition plural_markers :: "pystr list" where
  "plural_markers = [''siamo'', ''siete'', ''eravamo'', ''eravate'', ''saremo'', ''sarete'',
     ''fummo'', ''foste'']"

definition looks_plural :: "pystr \<Rightarrow> bool" where
  "looks_plural a \<longleftrightarrow> list_ex (\<lambda>k. contains k a) plural_markers
     \<or> ends_with a ''mo'' \<or> ends_with a ''te'' \<or> ends_with a ''no''"

text \<open>\<open>pp[:-1] + 'i' if pp.endswith('o') else pp\<close>: masculine plural of a
  participle.\<close>

definition plural_pp :: "pystr \<Rightarrow> pystr" where
  "plural_pp pp = (if ends_with pp ''o'' then drop_last 1 pp @ ''i'' else pp)"

definition compose :: "pystr list \<Rightarrow> pystr \<Rightarrow> bool \<Rightarrow> pystr list" where
  "compose aux_forms pp essere =
     map2 (\<lambda>p a. if essere then
                   (if looks_plural a then spaced (spaced p a) (plural_pp pp)
                    else spaced (spaced p a) pp)
                 else spaced (spaced p a) pp)
       IT_PRONOUNS aux_forms"

text \<open>The same loop as written in \<^verbatim>\<open>src/CreateIrregularVerbs.py\<close>: the
  plural test is named and the participle chosen before the string is built.\<close>

definition compose_irr :: "pystr list \<Rightarrow> pystr \<Rightarrow> bool \<Rightarrow> pystr list" where
  "compose_irr aux_forms pp essere =
     map2 (\<lambda>p a. if essere then
                   (let plural = looks_plural a;
                        adj = (if plural \<and> ends_with pp ''o'' then drop_last 1 pp @ ''i'' else pp)
                    in spaced (spaced p a) adj)
                 else spaced (spaced p a) pp)
       IT_PRONOUNS aux_forms"

section \<open>The agreement rule of the specification\<close>

text \<open>The specification keys agreement on the person slot: slots 3, 4, 5 are
  plural in the canonical order \<open>IT_PRONOUNS\<close>.\<close>

definition compose_by_slot :: "pystr list \<Rightarrow> pystr \<Rightarrow> bool \<Rightarrow> pystr list" where
  "compose_by_slot aux_forms pp essere =
     map (\<lambda>(i, p, a). spaced (spaced p a) (if essere \<and> 3 \<le> i then plural_pp pp else pp))
       (enumerate 0 (zip IT_PRONOUNS aux_forms))"

section \<open>Lemmas\<close>

lemmas compose_eval = compose_def compose_by_slot_def looks_plural_def plural_markers_def
  plural_pp_def ends_with_def drop_last_def spaced_def

lemma length_IT_PRONOUNS [simp]: "length IT_PRONOUNS = 6"
  by (simp add: IT_PRONOUNS_def)

lemma length_compose [simp]: "length (compose fs pp e) = min 6 (length fs)"
  by (simp add: compose_def)

lemma length_compose_by_slot [simp]: "length (compose_by_slot fs pp e) = min 6 (length fs)"
  by (simp add: compose_by_slot_def)

lemma length_with_pronouns [simp]: "length (with_pronouns fs) = min 6 (length fs)"
  by (simp add: with_pronouns_def)

lemma length_person_forms [simp]: "length (person_forms b es) = min 6 (length es)"
  by (simp add: person_forms_def)

lemma length_che_forms [simp]: "length (che_forms b es) = min 6 (length es)"
  by (simp add: che_forms_def)

lemma length_with_pp [simp]: "length (with_pp fs pp) = length fs"
  by (simp add: with_pp_def)

lemma aux_lengths [simp]:
  "length (aux_pres a) = 6" "length (aux_impf a) = 6" "length (aux_rem a) = 6"
  "length (aux_fut a) = 6" "length (aux_cond a) = 6" "length (aux_cong_pres a) = 6"
  "length (aux_cong_impf a) = 6" "length FR_PRONOUNS = 6"
  by (simp_all add: table_defs)

lemmas forms_defs = with_pronouns_def person_forms_def che_forms_def with_pp_def

lemma plural_pp_o: "plural_pp (stem @ ''o'') = stem @ ''i''"
  by (simp add: plural_pp_def ends_with_def drop_last_def)

lemma nth_compose_by_slot:
  "i < 6 \<Longrightarrow> i < length fs \<Longrightarrow>
   compose_by_slot fs pp e ! i = spaced (spaced (IT_PRONOUNS ! i) (fs ! i)) (if e \<and> 3 \<le> i then plural_pp pp else pp)"
  by (simp add: compose_by_slot_def nth_enumerate_eq)

lemma nth_compose:
  "i < 6 \<Longrightarrow> i < length fs \<Longrightarrow>
   compose fs pp e ! i = spaced (spaced (IT_PRONOUNS ! i) (fs ! i)) (if e \<and> looks_plural (fs ! i) then plural_pp pp else pp)"
  by (simp add: compose_def)

lemma compose_avere_by_slot: "compose fs pp False = compose_by_slot fs pp False"
  by (rule nth_equalityI) (simp_all add: nth_compose nth_compose_by_slot)

lemma compose_eq_by_slot_iff:
  "compose fs pp True = compose_by_slot fs pp True \<longleftrightarrow>
   (\<forall>i < min 6 (length fs). plural_pp pp \<noteq> pp \<longrightarrow> looks_plural (fs ! i) = (3 \<le> i))"
proof -
  have small: "\<not> 3 \<le> i \<Longrightarrow> i < (6::nat)" for i by simp
  show ?thesis
    by (subst list_eq_iff_nth_eq) (auto simp: nth_compose nth_compose_by_slot spaced_def dest: small)
qed

lemma compose_irr_compose: "compose_irr fs pp e = compose fs pp e"
  unfolding compose_irr_def compose_def plural_pp_def Let_def
  by (rule map_cong) auto

text \<open>Claim C1. For the imperfect, remote past and future auxiliaries (the
  \<open>Trapassato prossimo\<close>, \<open>Trapassato remoto\<close> and \<open>Futuro anteriore\<close>),
  the substring heuristic of \<open>compose\<close> computes exactly the agreement the
  specification asks for: plural participle in slots 3, 4, 5 with \<open>essere\<close>,
  the participle unchanged otherwise, for every auxiliary and participle.\<close>

theorem compose_agrees_by_slot:
  "compose (aux_impf it) pp (it = ''essere'') = compose_by_slot (aux_impf it) pp (it = ''essere'') \<and>
   compose (aux_rem it) pp (it = ''essere'') = compose_by_slot (aux_rem it) pp (it = ''essere'') \<and>
   compose (aux_fut it) pp (it = ''essere'') = compose_by_slot (aux_fut it) pp (it = ''essere'')"
  by (simp add: compose_eval table_defs)

text \<open>Claim C2. With \<open>essere\<close>, \<open>compose\<close> differs from the slot rule in
  two tenses. In the \<open>Passato prossimo\<close> exactly in slot 0: \<open>sono\<close> ends in
  \<open>no\<close>, so the first person singular gets the plural participle. In the
  \<open>Condizionale Passato\<close> exactly in slot 5: \<open>sarebbero\<close> passes none of
  the plural tests, so the third person plural keeps the singular participle.\<close>

theorem compose_essere_divergence:
  "compose (aux_pres ''essere'') pp True =
   (compose_by_slot (aux_pres ''essere'') pp True)[0 := ''io sono '' @ plural_pp pp] \<and>
   compose (aux_cond ''essere'') pp True =
   (compose_by_slot (aux_cond ''essere'') pp True)[5 := ''loro sarebbero '' @ pp]"
  by (simp add: compose_eval table_defs)

end
