(* ===== verification/Verb_Record.thy ===== *)
theory Verb_Record
  imports Composer
begin

text \<open>
  The persisted document of one verb (the dictionary \<open>data\<close> that every
  \<open>build_json\<close> writes with \<open>json.dump\<close>), as a record whose fields are the
  top-level keys of the JSON object. A mood is an association list from tense
  name to the list of forms, in the order the dictionary literal lists them,
  since \<open>json.dump\<close> keeps that order. The shape predicate states what the
  specification promises of every document: the moods and tenses present, six
  forms per personal tense and one per non-personal tense.
\<close>

record verb_doc =
  source_lang :: pystr
  target_lang :: pystr
  source_lemma :: pystr
  target_lemma :: pystr
  meta_regularity :: "pystr \<times> pystr"   \<comment> \<open>\<open>{"fr": _, "it": _}\<close>\<close>
  meta_auxiliary :: "pystr \<times> pystr"    \<comment> \<open>\<open>{"fr": _, "it": _}\<close>\<close>
  pronouns :: "pystr list \<times> pystr list" \<comment> \<open>\<open>{"fr": _, "it": _}\<close>\<close>
  Indicativo :: "(pystr \<times> pystr list) list"
  Condizionale :: "(pystr \<times> pystr list) list"
  Congiuntivo :: "(pystr \<times> pystr list) list"
  Imperativo :: "(pystr \<times> pystr list) list"
  Infinito :: "(pystr \<times> pystr list) list"
  Participio :: "(pystr \<times> pystr list) list"
  Gerundio :: "(pystr \<times> pystr list) list"

section \<open>Reading a document\<close>

text \<open>\<open>doc[mood][tense]\<close>, empty when the key is absent.\<close>

definition tense_row :: "(pystr \<times> pystr list) list \<Rightarrow> pystr \<Rightarrow> pystr list" where
  "tense_row m t = (case map_of m t of None \<Rightarrow> [] | Some fs \<Rightarrow> fs)"

definition compound_rows :: "'a verb_doc_scheme \<Rightarrow> pystr list list" where
  "compound_rows d =
     [tense_row (Indicativo d) ''Passato prossimo'', tense_row (Indicativo d) ''Trapassato prossimo'',
      tense_row (Indicativo d) ''Trapassato remoto'', tense_row (Indicativo d) ''Futuro anteriore'',
      tense_row (Condizionale d) ''Passato'',
      tense_row (Congiuntivo d) ''Passato'', tense_row (Congiuntivo d) ''Trapassato'']"

section \<open>Shape\<close>

definition indicativo_tenses :: "pystr list" where
  "indicativo_tenses = [''Presente'', ''Passato prossimo'', ''Imperfetto'', ''Trapassato prossimo'',
     ''Passato remoto'', ''Trapassato remoto'', ''Futuro semplice'', ''Futuro anteriore'']"

definition congiuntivo_tenses :: "pystr list" where
  "congiuntivo_tenses = [''Presente'', ''Passato'', ''Imperfetto'', ''Trapassato'']"

definition mood_shape :: "pystr list \<Rightarrow> nat \<Rightarrow> (pystr \<times> pystr list) list \<Rightarrow> bool" where
  "mood_shape ts n m \<longleftrightarrow> map fst m = ts \<and> list_all (\<lambda>(_, fs). length fs = n) m"

definition well_shaped :: "'a verb_doc_scheme \<Rightarrow> bool" where
  "well_shaped d \<longleftrightarrow>
     mood_shape indicativo_tenses 6 (Indicativo d) \<and>
     mood_shape [''Presente'', ''Passato''] 6 (Condizionale d) \<and>
     mood_shape congiuntivo_tenses 6 (Congiuntivo d) \<and>
     mood_shape [''Presente''] 6 (Imperativo d) \<and>
     mood_shape [''Presente'', ''Passato''] 1 (Infinito d) \<and>
     mood_shape [''Presente'', ''Passato''] 1 (Participio d) \<and>
     mood_shape [''Presente'', ''Passato''] 1 (Gerundio d) \<and>
     length (fst (pronouns d)) = 6 \<and> length (snd (pronouns d)) = 6"

section \<open>Participle agreement, as the specification states it\<close>

text \<open>With \<open>avere\<close>, every slot of every compound tense ends in the participle
  unmodified. With \<open>essere\<close>, slots 3, 4, 5 end in the plural participle and
  slots 0, 1, 2 in the singular one.\<close>

definition have_participle_ok :: "'a verb_doc_scheme \<Rightarrow> pystr \<Rightarrow> bool" where
  "have_participle_ok d pp \<longleftrightarrow>
     list_all (\<lambda>row. length row = 6 \<and> list_all (\<lambda>s. ends_with s ('' '' @ pp)) row) (compound_rows d)"

definition slot_agrees :: "pystr \<Rightarrow> pystr list \<Rightarrow> bool" where
  "slot_agrees pp row \<longleftrightarrow> length row = 6 \<and>
     list_all (\<lambda>(i, s). ends_with s ('' '' @ (if 3 \<le> i then plural_pp pp else pp))) (enumerate 0 row)"

definition be_agreement_ok :: "'a verb_doc_scheme \<Rightarrow> pystr \<Rightarrow> bool" where
  "be_agreement_ok d pp \<longleftrightarrow> list_all (slot_agrees pp) (compound_rows d)"

lemma slot_agrees_nth:
  "slot_agrees pp row \<Longrightarrow> i < 6 \<Longrightarrow> ends_with (row ! i) ('' '' @ (if 3 \<le> i then plural_pp pp else pp))"
proof -
  assume a: "slot_agrees pp row" and i: "i < 6"
  then have "(i, row ! i) \<in> set (enumerate 0 row)"
    by (simp add: slot_agrees_def in_set_enumerate_eq)
  with a show ?thesis by (auto simp: slot_agrees_def list_all_iff)
qed

lemmas shape_defs = well_shaped_def mood_shape_def indicativo_tenses_def congiuntivo_tenses_def

end
