(* ===== verification/Ere_Verbs.thy ===== *)
theory Ere_Verbs
  imports Verb_Record
begin

text \<open>
  \<^verbatim>\<open>src/Create2ndGroupVerbs.py\<close>: the rule tables of the 25 verbs in
  \<open>-ere\<close> (\<open>SPEC\<close>, \<open>PP\<close>, \<open>FUT_STEM\<close>, \<open>REMOTO\<close>), the stem rule \<open>st\<close>
  (drop the last three code points), one generator per simple tense, and
  \<open>build_json\<close>, which assembles the document of one verb and returns its file
  name. Names carry the suffix \<open>_ere\<close> where the other scripts define the same
  name. The lookup \<open>PP[verb_it]\<close> is the only one that can raise; it is a
  \<open>KeyError\<close> value here.
\<close>

section \<open>Rule tables\<close>

text \<open>\<open>it_verb -> (fr_display, fr_ascii_filename, aux_it)\<close>.\<close>

definition SPEC_ere :: "(pystr \<times> pystr \<times> pystr \<times> pystr) list" where
  "SPEC_ere = [
    (''scrivere'', e_acute # ''crire'', ''ecrire'', ''avere''),
    (''prendere'', ''prendre'', ''prendre'', ''avere''),
    (''chiedere'', ''demander'', ''demander'', ''avere''),
    (''chiudere'', ''fermer'', ''fermer'', ''avere''),
    (''conoscere'', ''conna'' @ i_circ # ''tre'', ''connaitre'', ''avere''),
    (''correre'', ''courir'', ''courir'', ''avere''),
    (''decidere'', ''d'' @ e_acute # ''cider'', ''decider'', ''avere''),
    (''leggere'', ''lire'', ''lire'', ''avere''),
    (''mettere'', ''mettre'', ''mettre'', ''avere''),
    (''perdere'', ''perdre'', ''perdre'', ''avere''),
    (''piangere'', ''pleurer'', ''pleurer'', ''avere''),
    (''ridere'', ''rire'', ''rire'', ''avere''),
    (''sorridere'', ''sourire'', ''sourire'', ''avere''),
    (''vedere'', ''voir'', ''voir'', ''avere''),
    (''vendere'', ''vendre'', ''vendre'', ''avere''),
    (''rispondere'', ''r'' @ e_acute # ''pondre'', ''repondre'', ''avere''),
    (''vincere'', ''gagner'', ''gagner'', ''avere''),
    (''vivere'', ''vivre'', ''vivre'', ''avere''),
    (''crescere'', ''grandir'', ''grandir'', ''essere''),
    (''spendere'', ''d'' @ e_acute # ''penser'', ''depenser'', ''avere''),
    (''ricevere'', ''recevoir'', ''recevoir'', ''avere''),
    (''dividere'', ''diviser'', ''diviser'', ''avere''),
    (''offendere'', ''offenser'', ''offenser'', ''avere''),
    (''temere'', ''craindre'', ''craindre'', ''avere''),
    (''scendere'', ''descendre'', ''descendre'', ''essere'')]"

definition PP_ere :: "(pystr \<times> pystr) list" where
  "PP_ere = [
    (''scrivere'', ''scritto''), (''prendere'', ''preso''), (''chiedere'', ''chiesto''),
    (''chiudere'', ''chiuso''), (''conoscere'', ''conosciuto''), (''correre'', ''corso''),
    (''decidere'', ''deciso''), (''leggere'', ''letto''), (''mettere'', ''messo''),
    (''perdere'', ''perso''), (''piangere'', ''pianto''), (''ridere'', ''riso''),
    (''sorridere'', ''sorriso''), (''vedere'', ''visto''), (''vendere'', ''venduto''),
    (''rispondere'', ''risposto''), (''vincere'', ''vinto''), (''vivere'', ''vissuto''),
    (''crescere'', ''cresciuto''), (''spendere'', ''speso''), (''ricevere'', ''ricevuto''),
    (''dividere'', ''diviso''), (''offendere'', ''offeso''), (''temere'', ''temuto''),
    (''scendere'', ''sceso'')]"

definition FUT_STEM_ere :: "(pystr \<times> pystr) list" where
  "FUT_STEM_ere = [(''vedere'', ''vedr''), (''vivere'', ''vivr'')]"

text \<open>The row of \<open>crescere\<close> is written \<open>"crescEmmo".lower()\<close> in the source;
  its value is \<open>crescemmo\<close>.\<close>

definition REMOTO_ere :: "(pystr \<times> pystr list) list" where
  "REMOTO_ere = [
    (''scrivere'', [''scrissi'', ''scrivesti'', ''scrisse'', ''scrivemmo'', ''scriveste'', ''scrissero'']),
    (''prendere'', [''presi'', ''prendesti'', ''prese'', ''prendemmo'', ''prendeste'', ''presero'']),
    (''chiedere'', [''chiesi'', ''chiedesti'', ''chiese'', ''chiedemmo'', ''chiedeste'', ''chiesero'']),
    (''chiudere'', [''chiusi'', ''chiudesti'', ''chiuse'', ''chiudemmo'', ''chiudeste'', ''chiusero'']),
    (''conoscere'', [''conobbi'', ''conoscesti'', ''conobbe'', ''conoscemmo'', ''conosceste'', ''conobbero'']),
    (''correre'', [''corsi'', ''corresti'', ''corse'', ''corremmo'', ''correste'', ''corsero'']),
    (''decidere'', [''decisi'', ''decidesti'', ''decise'', ''decidemmo'', ''decideste'', ''decisero'']),
    (''leggere'', [''lessi'', ''leggesti'', ''lesse'', ''leggemmo'', ''leggeste'', ''lessero'']),
    (''mettere'', [''misi'', ''mettesti'', ''mise'', ''mettemmo'', ''metteste'', ''misero'']),
    (''perdere'', [''persi'', ''perdesti'', ''perse'', ''perdemmo'', ''perdeste'', ''persero'']),
    (''piangere'', [''piansi'', ''piangesti'', ''pianse'', ''piangemmo'', ''piangeste'', ''piansero'']),
    (''ridere'', [''risi'', ''ridesti'', ''rise'', ''ridemmo'', ''rideste'', ''risero'']),
    (''sorridere'', [''sorrisi'', ''sorridesti'', ''sorrise'', ''sorridemmo'', ''sorrideste'', ''sorrisero'']),
    (''vedere'', [''vidi'', ''vedesti'', ''vide'', ''vedemmo'', ''vedeste'', ''videro'']),
    (''vendere'', [''vendetti'', ''vendesti'', ''vendette'', ''vendemmo'', ''vendeste'', ''vendettero'']),
    (''rispondere'', [''risposi'', ''rispondesti'', ''rispose'', ''rispondemmo'', ''rispondeste'', ''risposero'']),
    (''vincere'', [''vinsi'', ''vincesti'', ''vinse'', ''vincemmo'', ''vinceste'', ''vinsero'']),
    (''vivere'', [''vissi'', ''vivesti'', ''visse'', ''vivemmo'', ''viveste'', ''vissero'']),
    (''crescere'', [''crebbi'', ''crescesti'', ''crebbe'', ''crescemmo'', ''cresceste'', ''crebbero'']),
    (''spendere'', [''spesi'', ''spendesti'', ''spese'', ''spendemmo'', ''spendeste'', ''spesero'']),
    (''ricevere'', [''ricevetti'', ''ricevesti'', ''ricevette'', ''ricevemmo'', ''riceveste'', ''ricevettero'']),
    (''dividere'', [''divisi'', ''dividesti'', ''divise'', ''dividemmo'', ''divideste'', ''divisero'']),
    (''offendere'', [''offesi'', ''offendesti'', ''offese'', ''offendemmo'', ''offendeste'', ''offesero'']),
    (''temere'', [''temetti'', ''temesti'', ''temette'', ''tememmo'', ''temeste'', ''temettero'']),
    (''scendere'', [''scesi'', ''scendesti'', ''scese'', ''scendemmo'', ''scendeste'', ''scesero''])]"

declare SPEC_ere_def [table_defs] PP_ere_def [table_defs] FUT_STEM_ere_def [table_defs]
  REMOTO_ere_def [table_defs]

section \<open>Generators\<close>

definition st :: "pystr \<Rightarrow> pystr" where
  "st verb_it = drop_last 3 verb_it"

definition indicativo_presente_ere :: "pystr \<Rightarrow> pystr list" where
  "indicativo_presente_ere verb_it = person_forms (st verb_it) [''o'', ''i'', ''e'', ''iamo'', ''ete'', ''ono'']"

definition imperfetto_ere :: "pystr \<Rightarrow> pystr list" where
  "imperfetto_ere verb_it = person_forms (st verb_it) [''evo'', ''evi'', ''eva'', ''evamo'', ''evate'', ''evano'']"

definition passato_remoto_ere :: "pystr \<Rightarrow> pystr list" where
  "passato_remoto_ere verb_it =
     (let forms = dict_get_default REMOTO_ere verb_it
                    [st verb_it @ ''etti'', st verb_it @ ''esti'', st verb_it @ ''ette'',
                     st verb_it @ ''emmo'', st verb_it @ ''este'', st verb_it @ ''ettero'']
      in map2 spaced IT_PRONOUNS forms)"

definition futuro_root_ere :: "pystr \<Rightarrow> pystr" where
  "futuro_root_ere verb_it = dict_get_default FUT_STEM_ere verb_it (drop_last 1 verb_it)"

definition futuro_semplice_ere :: "pystr \<Rightarrow> pystr list" where
  "futuro_semplice_ere verb_it =
     person_forms (futuro_root_ere verb_it) [[o_grave], ''ai'', [a_grave], ''emo'', ''ete'', ''anno'']"

definition condizionale_presente_ere :: "pystr \<Rightarrow> pystr list" where
  "condizionale_presente_ere verb_it =
     person_forms (futuro_root_ere verb_it) [''ei'', ''esti'', ''ebbe'', ''emmo'', ''este'', ''ebbero'']"

definition congiuntivo_presente_ere :: "pystr \<Rightarrow> pystr list" where
  "congiuntivo_presente_ere verb_it = che_forms (st verb_it) [''a'', ''a'', ''a'', ''iamo'', ''iate'', ''ano'']"

definition congiuntivo_imperfetto_ere :: "pystr \<Rightarrow> pystr list" where
  "congiuntivo_imperfetto_ere verb_it =
     che_forms (st verb_it) [''essi'', ''essi'', ''esse'', ''essimo'', ''este'', ''essero'']"

definition imperativo_ere :: "pystr \<Rightarrow> pystr list" where
  "imperativo_ere verb_it =
     (let base = st verb_it
      in [[em_dash], base @ ''i'', base @ ''a'', base @ ''iamo'', base @ ''ete'', base @ ''ano''])"

section \<open>Record builder\<close>

text \<open>The dictionary \<open>data\<close> of \<open>build_json\<close>, for a participle \<open>pp\<close>
  already looked up.\<close>

definition data_ere :: "pystr \<Rightarrow> pystr \<Rightarrow> pystr \<Rightarrow> pystr \<Rightarrow> verb_doc" where
  "data_ere verb_it fr_disp aux_it pp =
     (let base = st verb_it; essere = (aux_it = ''essere'') in
          \<lparr>source_lang = ''fr'', target_lang = ''it'', source_lemma = fr_disp, target_lemma = verb_it,
           meta_regularity = (''2e groupe (-ere) avec irr'' @ e_acute # ''gularit'' @ e_acute # ''s'',
                              ''seconda coniugazione (-ere)''),
           meta_auxiliary = (if essere then e_circ # ''tre'' else ''avoir'', aux_it),
           pronouns = (FR_PRONOUNS, IT_PRONOUNS),
           Indicativo = [
             (''Presente'', indicativo_presente_ere verb_it),
             (''Passato prossimo'', compose (aux_pres aux_it) pp essere),
             (''Imperfetto'', imperfetto_ere verb_it),
             (''Trapassato prossimo'', compose (aux_impf aux_it) pp essere),
             (''Passato remoto'', passato_remoto_ere verb_it),
             (''Trapassato remoto'', compose (aux_rem aux_it) pp essere),
             (''Futuro semplice'', futuro_semplice_ere verb_it),
             (''Futuro anteriore'', compose (aux_fut aux_it) pp essere)],
           Condizionale = [
             (''Presente'', condizionale_presente_ere verb_it),
             (''Passato'', compose (aux_cond aux_it) pp essere)],
           Congiuntivo = [
             (''Presente'', congiuntivo_presente_ere verb_it),
             (''Passato'', with_pp (aux_cong_pres aux_it) pp),
             (''Imperfetto'', congiuntivo_imperfetto_ere verb_it),
             (''Trapassato'', with_pp (aux_cong_impf aux_it) pp)],
           Imperativo = [(''Presente'', imperativo_ere verb_it)],
           Infinito = [(''Presente'', [verb_it]),
                       (''Passato'', [spaced (if essere then ''essere'' else ''avere'') pp])],
           Participio = [(''Presente'', [base @ ''ente'']), (''Passato'', [pp])],
           Gerundio = [(''Presente'', [base @ ''endo'']),
                       (''Passato'', [spaced (if essere then ''essendo'' else ''avendo'') pp])]\<rparr>)"

text \<open>\<open>pp = PP[verb_it]\<close> raises before the dictionary is built; the file is
  \<open>decks/fr-it/<fr_ascii>.json\<close> and its base name is returned.\<close>

definition build_json_ere :: "pystr \<Rightarrow> pystr \<Rightarrow> pystr \<Rightarrow> pystr \<Rightarrow> py_error + (pystr \<times> verb_doc)" where
  "build_json_ere verb_it fr_disp fr_ascii aux_it =
     (case dict_get PP_ere verb_it of
        Inl e \<Rightarrow> Inl e
      | Inr pp \<Rightarrow> Inr (fr_ascii @ ''.json'', data_ere verb_it fr_disp aux_it pp))"

lemmas ere_gen_defs = st_def person_forms_def che_forms_def indicativo_presente_ere_def
  imperfetto_ere_def passato_remoto_ere_def futuro_root_ere_def futuro_semplice_ere_def
  condizionale_presente_ere_def congiuntivo_presente_ere_def congiuntivo_imperfetto_ere_def
  imperativo_ere_def with_pp_def

section \<open>Lemmas\<close>

text \<open>Well-formedness of the rule tables: keys are unique (so each literal is a
  dictionary), \<open>PP\<close> and \<open>REMOTO\<close> have a row for every verb of \<open>SPEC\<close> in the
  same order, every \<open>REMOTO\<close> row has six forms, every auxiliary is
  \<open>avere\<close> or \<open>essere\<close>.\<close>

lemma ere_tables_wf:
  "distinct (map fst SPEC_ere) \<and> map fst PP_ere = map fst SPEC_ere \<and>
   map fst REMOTO_ere = map fst SPEC_ere \<and> distinct (map fst FUT_STEM_ere) \<and>
   list_all (\<lambda>(_, fs). length fs = 6) REMOTO_ere \<and>
   list_all (\<lambda>(_, _, _, a). a = ''avere'' \<or> a = ''essere'') SPEC_ere"
  by (simp add: table_defs)

lemma REMOTO_ere_rows: "map_of REMOTO_ere v = Some fs \<Longrightarrow> length fs = 6"
proof -
  assume "map_of REMOTO_ere v = Some fs"
  then have "(v, fs) \<in> set REMOTO_ere" by (rule map_of_SomeD)
  moreover have "list_all (\<lambda>(_, fs). length fs = 6) REMOTO_ere"
    using ere_tables_wf by blast
  ultimately show ?thesis by (auto simp: list_all_iff)
qed

lemma ere_lengths [simp]:
  "length (indicativo_presente_ere v) = 6" "length (imperfetto_ere v) = 6"
  "length (passato_remoto_ere v) = 6"
  "length (futuro_semplice_ere v) = 6" "length (condizionale_presente_ere v) = 6"
  "length (congiuntivo_presente_ere v) = 6" "length (congiuntivo_imperfetto_ere v) = 6"
  "length (imperativo_ere v) = 6"
  by (auto simp: ere_gen_defs Let_def dict_get_default_def dest: REMOTO_ere_rows split: option.splits)

lemma build_json_ere_Inr:
  "build_json_ere v d f a = Inr (n, doc) \<longleftrightarrow>
   (\<exists>pp. map_of PP_ere v = Some pp \<and> n = f @ ''.json'' \<and> doc = data_ere v d a pp)"
  by (auto simp: build_json_ere_def dict_get_def split: option.splits)

lemma build_json_ere_Inr_iff:
  "(\<exists>doc. build_json_ere v d f a = Inr (f @ ''.json'', doc)) \<longleftrightarrow> v \<in> fst ` set PP_ere"
  by (auto simp: build_json_ere_Inr dom_def simp flip: dom_map_of_conv_image_fst)

lemma data_ere_shape: "well_shaped (data_ere v d a pp)"
  by (simp add: data_ere_def Let_def shape_defs)

lemmas data_ere_eval = data_ere_def Let_def tense_row_def table_defs compose_eval with_pp_def

text \<open>Claim C4. Every document the second-conjugation script produces has the
  shape the specification promises (all moods and tenses, six forms per personal
  tense, one per non-personal tense), whatever the verb.\<close>

theorem build_json_ere_shape:
  "build_json_ere v d f a = Inr (n, doc) \<Longrightarrow> well_shaped doc"
  by (auto simp: build_json_ere_Inr data_ere_shape)

theorem build_json_ere_shape_witness:
  "build_json_ere ''vedere'' ''voir'' ''voir'' ''avere'' = Inr (''voir.json'', data_ere ''vedere'' ''voir'' ''avere'' ''visto'') \<and>
   well_shaped (data_ere ''vedere'' ''voir'' ''avere'' ''visto'')"
proof -
  have b: "build_json_ere ''vedere'' ''voir'' ''voir'' ''avere'' = Inr (''voir.json'', data_ere ''vedere'' ''voir'' ''avere'' ''visto'')"
    by (simp add: build_json_ere_def dict_get_def table_defs)
  show ?thesis using b build_json_ere_shape [OF b] by simp
qed

text \<open>Claim C5. A verb without a participle in \<open>PP\<close> makes \<open>build_json\<close> raise
  \<open>KeyError\<close> before any file is written.\<close>

theorem build_json_ere_key_error:
  "v \<notin> fst ` set PP_ere \<Longrightarrow> build_json_ere v d f a = Inl (KeyError v)"
  by (simp add: build_json_ere_def dict_get_def map_of_eq_None_iff [symmetric])

theorem build_json_ere_key_error_witness:
  "''cadere'' \<notin> fst ` set PP_ere \<and>
   build_json_ere ''cadere'' ''tomber'' ''tomber'' ''essere'' = Inl (KeyError ''cadere'')"
proof -
  have h: "''cadere'' \<notin> fst ` set PP_ere" by (simp add: table_defs)
  show ?thesis using h build_json_ere_key_error [OF h] by simp
qed

text \<open>Claim C6. With \<open>avere\<close>, every slot of the seven compound tenses ends in
  the participle, unmodified; on the example of the specification,
  \<open>scrivere\<close> with participle \<open>scritto\<close>, the \<open>Passato prossimo\<close> is the
  listed one.\<close>

theorem ere_avere_participle:
  "build_json_ere v d f ''avere'' = Inr (n, doc) \<Longrightarrow> map_of PP_ere v = Some pp \<Longrightarrow>
   have_participle_ok doc pp \<and>
   (v = ''scrivere'' \<longrightarrow> tense_row (Indicativo doc) ''Passato prossimo'' =
     [''io ho scritto'', ''tu hai scritto'', ''lui/lei ha scritto'', ''noi abbiamo scritto'',
      ''voi avete scritto'', ''loro hanno scritto''])"
proof -
  assume b: "build_json_ere v d f ''avere'' = Inr (n, doc)" and p: "map_of PP_ere v = Some pp"
  from b p have doc: "doc = data_ere v d ''avere'' pp" by (auto simp: build_json_ere_Inr)
  have "have_participle_ok doc pp" unfolding doc
    by (simp add: data_ere_def Let_def have_participle_ok_def compound_rows_def
      tense_row_def with_pp_def compose_def table_defs spaced_def ends_with_def)
  moreover have "v = ''scrivere'' \<Longrightarrow> tense_row (Indicativo doc) ''Passato prossimo'' =
     [''io ho scritto'', ''tu hai scritto'', ''lui/lei ha scritto'', ''noi abbiamo scritto'',
      ''voi avete scritto'', ''loro hanno scritto'']"
    using b by (auto simp: build_json_ere_Inr data_ere_eval)
  ultimately show ?thesis by blast
qed

theorem ere_avere_participle_witness:
  "have_participle_ok (data_ere ''scrivere'' (e_acute # ''crire'') ''avere'' ''scritto'') ''scritto'' \<and>
   tense_row (Indicativo (data_ere ''scrivere'' (e_acute # ''crire'') ''avere'' ''scritto'')) ''Passato prossimo'' =
     [''io ho scritto'', ''tu hai scritto'', ''lui/lei ha scritto'', ''noi abbiamo scritto'',
      ''voi avete scritto'', ''loro hanno scritto'']"
proof -
  have b: "build_json_ere ''scrivere'' (e_acute # ''crire'') ''ecrire'' ''avere'' =
      Inr (''ecrire.json'', data_ere ''scrivere'' (e_acute # ''crire'') ''avere'' ''scritto'')"
    by (simp add: build_json_ere_def dict_get_def table_defs)
  have p: "map_of PP_ere ''scrivere'' = Some ''scritto''" by (simp add: table_defs)
  show ?thesis using ere_avere_participle [OF b p] by simp
qed



end
