(* ===== verification/Ire_Verbs.thy ===== *)
theory Ire_Verbs
  imports Verb_Record
begin

text \<open>
  \<^verbatim>\<open>src/Create3rdGroupVerbs.py\<close>: the 20 verbs in \<open>-ire\<close>, their French
  lemmas, auxiliaries (\<open>essere\<close> only for \<open>partire\<close>) and participles, the
  set \<open>ISC\<close> of verbs that take the \<open>-isc-\<close> augment, the generators (the
  augment is inserted in the present indicative, present subjunctive and
  imperative only) and \<open>build_json\<close>, whose three dictionary lookups
  \<open>FR_MAP[v]\<close>, \<open>AUX[v]\<close>, \<open>PP[v]\<close> can raise \<open>KeyError\<close>. The script carries
  its own copy of the auxiliary tables and of \<open>compose\<close> (\<open>aux_pres_ire\<close>
  \<dots> \<open>compose_ire\<close>), which \<open>data_ire\<close> calls; \<open>ire_copies\<close> proves
  them equal to those of theory \<open>Composer\<close>.
\<close>

section \<open>Rule tables\<close>

definition VERBS_ire :: "pystr list" where
  "VERBS_ire = [
    ''aprire'', ''partire'', ''coprire'', ''offrire'', ''scoprire'', ''seguire'', ''sentire'', ''servire'',
    ''finire'', ''capire'', ''pulire'', ''preferire'', ''costruire'', ''bollire'', ''nutrire'', ''proibire'',
    ''spedire'', ''unire'', ''vestire'', ''tossire'']"

text \<open>\<open>it_verb -> (fr_display, fr_ascii_filename)\<close>.\<close>

definition FR_MAP_ire :: "(pystr \<times> pystr \<times> pystr) list" where
  "FR_MAP_ire = [
    (''aprire'', ''ouvrir'', ''ouvrir''), (''partire'', ''partir'', ''partir''),
    (''coprire'', ''couvrir'', ''couvrir''), (''offrire'', ''offrir'', ''offrir''),
    (''scoprire'', ''d'' @ e_acute # ''couvrir'', ''decouvrir''), (''seguire'', ''suivre'', ''suivre''),
    (''sentire'', ''entendre'', ''entendre''), (''servire'', ''servir'', ''servir''),
    (''finire'', ''finir'', ''finir''), (''capire'', ''comprendre'', ''comprendre''),
    (''pulire'', ''nettoyer'', ''nettoyer''),
    (''preferire'', ''pr'' @ e_acute # ''f'' @ e_acute # ''rer'', ''preferer''),
    (''costruire'', ''construire'', ''construire''), (''bollire'', ''bouillir'', ''bouillir''),
    (''nutrire'', ''nourrir'', ''nourrir''), (''proibire'', ''interdire'', ''interdire''),
    (''spedire'', ''envoyer'', ''envoyer''), (''unire'', ''unir'', ''unir''),
    (''vestire'', ''habiller'', ''habiller''), (''tossire'', ''tousser'', ''tousser'')]"

text \<open>\<open>AUX = {v: ("essere" if v=="partire" else "avere") for v in VERBS}\<close>.\<close>

definition AUX_ire :: "(pystr \<times> pystr) list" where
  "AUX_ire = map (\<lambda>v. (v, if v = ''partire'' then ''essere'' else ''avere'')) VERBS_ire"

definition PP_ire :: "(pystr \<times> pystr) list" where
  "PP_ire = [
    (''aprire'', ''aperto''), (''partire'', ''partito''), (''coprire'', ''coperto''),
    (''offrire'', ''offerto''), (''scoprire'', ''scoperto''), (''seguire'', ''seguito''),
    (''sentire'', ''sentito''), (''servire'', ''servito''), (''finire'', ''finito''),
    (''capire'', ''capito''), (''pulire'', ''pulito''), (''preferire'', ''preferito''),
    (''costruire'', ''costruito''), (''bollire'', ''bollito''), (''nutrire'', ''nutrito''),
    (''proibire'', ''proibito''), (''spedire'', ''spedito''), (''unire'', ''unito''),
    (''vestire'', ''vestito''), (''tossire'', ''tossito'')]"

definition ISC :: "pystr set" where
  "ISC = {''finire'', ''capire'', ''pulire'', ''preferire'', ''costruire'', ''proibire'', ''spedire'',
          ''unire'', ''tossire''}"

declare VERBS_ire_def [table_defs] FR_MAP_ire_def [table_defs] AUX_ire_def [table_defs]
  PP_ire_def [table_defs] ISC_def [table_defs]

section \<open>Generators\<close>

definition stem :: "pystr \<Rightarrow> pystr" where
  "stem v = drop_last 3 v"

definition indicativo_presente_ire :: "pystr \<Rightarrow> pystr list" where
  "indicativo_presente_ire v =
     (let b = stem v;
          forms = (if v \<in> ISC then [b @ ''isco'', b @ ''isci'', b @ ''isce'', b @ ''iamo'', b @ ''ite'', b @ ''iscono'']
                   else [b @ ''o'', b @ ''i'', b @ ''e'', b @ ''iamo'', b @ ''ite'', b @ ''ono''])
      in with_pronouns forms)"

definition imperfetto_ire :: "pystr \<Rightarrow> pystr list" where
  "imperfetto_ire v = person_forms (stem v) [''ivo'', ''ivi'', ''iva'', ''ivamo'', ''ivate'', ''ivano'']"

definition passato_remoto_ire :: "pystr \<Rightarrow> pystr list" where
  "passato_remoto_ire v =
     (let b = stem v
      in with_pronouns [b @ ''ii'', b @ ''isti'', b @ [i_grave], b @ ''immo'', b @ ''iste'', b @ ''irono''])"

definition futuro_root_ire :: "pystr \<Rightarrow> pystr" where
  "futuro_root_ire v = drop_last 1 v"

definition futuro_semplice_ire :: "pystr \<Rightarrow> pystr list" where
  "futuro_semplice_ire v =
     person_forms (futuro_root_ire v) [[o_grave], ''ai'', [a_grave], ''emo'', ''ete'', ''anno'']"

definition condizionale_presente_ire :: "pystr \<Rightarrow> pystr list" where
  "condizionale_presente_ire v =
     person_forms (futuro_root_ire v) [''ei'', ''esti'', ''ebbe'', ''emmo'', ''este'', ''ebbero'']"

definition congiuntivo_presente_ire :: "pystr \<Rightarrow> pystr list" where
  "congiuntivo_presente_ire v =
     (let b = stem v;
          forms = (if v \<in> ISC then [b @ ''isca'', b @ ''isca'', b @ ''isca'', b @ ''iamo'', b @ ''iate'', b @ ''iscano'']
                   else [b @ ''a'', b @ ''a'', b @ ''a'', b @ ''iamo'', b @ ''iate'', b @ ''ano''])
      in map2 (\<lambda>p f. ''che '' @ spaced p f) IT_PRONOUNS forms)"

definition congiuntivo_imperfetto_ire :: "pystr \<Rightarrow> pystr list" where
  "congiuntivo_imperfetto_ire v =
     che_forms (stem v) [''issi'', ''issi'', ''isse'', ''issimo'', ''iste'', ''issero'']"

definition participio_presente_ire :: "pystr \<Rightarrow> pystr" where
  "participio_presente_ire v = stem v @ ''ente''"

definition gerundio_presente_ire :: "pystr \<Rightarrow> pystr" where
  "gerundio_presente_ire v = stem v @ ''endo''"

definition imperativo_ire :: "pystr \<Rightarrow> pystr list" where
  "imperativo_ire v =
     (let b = stem v
      in if v \<in> ISC then [[em_dash], b @ ''isci'', b @ ''isca'', b @ ''iamo'', b @ ''ite'', b @ ''iscano'']
         else [[em_dash], b @ ''i'', b @ ''a'', b @ ''iamo'', b @ ''ite'', b @ ''ano''])"

section \<open>The script's copy of the composer\<close>

text \<open>Lines 118-137 of the script: the auxiliary tables, selected by
  \<open>a == "avere"\<close>, and \<open>compose\<close> with its plural test written inline.\<close>

definition aux_pres_ire :: "pystr \<Rightarrow> pystr list" where
  "aux_pres_ire a = (if a = ''avere'' then [''ho'', ''hai'', ''ha'', ''abbiamo'', ''avete'', ''hanno'']
     else [''sono'', ''sei'', [e_grave], ''siamo'', ''siete'', ''sono''])"

definition aux_impf_ire :: "pystr \<Rightarrow> pystr list" where
  "aux_impf_ire a = (if a = ''avere''
     then [''avevo'', ''avevi'', ''aveva'', ''avevamo'', ''avevate'', ''avevano'']
     else [''ero'', ''eri'', ''era'', ''eravamo'', ''eravate'', ''erano''])"

definition aux_rem_ire :: "pystr \<Rightarrow> pystr list" where
  "aux_rem_ire a = (if a = ''avere''
     then [''ebbi'', ''avesti'', ''ebbe'', ''avemmo'', ''aveste'', ''ebbero'']
     else [''fui'', ''fosti'', ''fu'', ''fummo'', ''foste'', ''furono''])"

definition aux_fut_ire :: "pystr \<Rightarrow> pystr list" where
  "aux_fut_ire a = (if a = ''avere''
     then [''avr'' @ [o_grave], ''avrai'', ''avr'' @ [a_grave], ''avremo'', ''avrete'', ''avranno'']
     else [''sar'' @ [o_grave], ''sarai'', ''sar'' @ [a_grave], ''saremo'', ''sarete'', ''saranno''])"

definition aux_cond_ire :: "pystr \<Rightarrow> pystr list" where
  "aux_cond_ire a = (if a = ''avere''
     then [''avrei'', ''avresti'', ''avrebbe'', ''avremmo'', ''avreste'', ''avrebbero'']
     else [''sarei'', ''saresti'', ''sarebbe'', ''saremmo'', ''sareste'', ''sarebbero''])"

definition aux_cong_pres_ire :: "pystr \<Rightarrow> pystr list" where
  "aux_cong_pres_ire a = (if a = ''avere''
     then [''che io abbia'', ''che tu abbia'', ''che lui/lei abbia'', ''che noi abbiamo'',
           ''che voi abbiate'', ''che loro abbiano'']
     else [''che io sia'', ''che tu sia'', ''che lui/lei sia'', ''che noi siamo'',
           ''che voi siate'', ''che loro siano''])"

definition aux_cong_impf_ire :: "pystr \<Rightarrow> pystr list" where
  "aux_cong_impf_ire a = (if a = ''avere''
     then [''che io avessi'', ''che tu avessi'', ''che lui/lei avesse'', ''che noi avessimo'',
           ''che voi aveste'', ''che loro avessero'']
     else [''che io fossi'', ''che tu fossi'', ''che lui/lei fosse'', ''che noi fossimo'',
           ''che voi foste'', ''che loro fossero''])"

definition compose_ire :: "pystr list \<Rightarrow> pystr \<Rightarrow> bool \<Rightarrow> pystr list" where
  "compose_ire aux_forms pp essere =
     map2 (\<lambda>p a. if essere then
                   (if list_ex (\<lambda>k. contains k a) [''siamo'', ''siete'', ''eravamo'', ''eravate'', ''saremo'',
                         ''sarete'', ''fummo'', ''foste''] \<or> ends_with a ''mo'' \<or> ends_with a ''te'' \<or> ends_with a ''no''
                    then spaced (spaced p a) (if ends_with pp ''o'' then drop_last 1 pp @ ''i'' else pp)
                    else spaced (spaced p a) pp)
                 else spaced (spaced p a) pp)
       IT_PRONOUNS aux_forms"

section \<open>Record builder\<close>

definition data_ire :: "pystr \<Rightarrow> pystr \<Rightarrow> pystr \<Rightarrow> pystr \<Rightarrow> verb_doc" where
  "data_ire v fr_disp aux pp =
     (let essere = (aux = ''essere'') in
          \<lparr>source_lang = ''fr'', target_lang = ''it'', source_lemma = fr_disp, target_lemma = v,
           meta_regularity = (''3e groupe (-ire)'',
                              ''terza coniugazione (-ire)'' @ (if v \<in> ISC then '' con -isc-'' else '''')),
           meta_auxiliary = (if essere then e_circ # ''tre'' else ''avoir'', aux),
           pronouns = (FR_PRONOUNS, IT_PRONOUNS),
           Indicativo = [
             (''Presente'', indicativo_presente_ire v),
             (''Passato prossimo'', compose_ire (aux_pres_ire aux) pp essere),
             (''Imperfetto'', imperfetto_ire v),
             (''Trapassato prossimo'', compose_ire (aux_impf_ire aux) pp essere),
             (''Passato remoto'', passato_remoto_ire v),
             (''Trapassato remoto'', compose_ire (aux_rem_ire aux) pp essere),
             (''Futuro semplice'', futuro_semplice_ire v),
             (''Futuro anteriore'', compose_ire (aux_fut_ire aux) pp essere)],
           Condizionale = [
             (''Presente'', condizionale_presente_ire v),
             (''Passato'', compose_ire (aux_cond_ire aux) pp essere)],
           Congiuntivo = [
             (''Presente'', congiuntivo_presente_ire v),
             (''Passato'', with_pp (aux_cong_pres_ire aux) pp),
             (''Imperfetto'', congiuntivo_imperfetto_ire v),
             (''Trapassato'', with_pp (aux_cong_impf_ire aux) pp)],
           Imperativo = [(''Presente'', imperativo_ire v)],
           Infinito = [(''Presente'', [v]),
                       (''Passato'', [spaced (if essere then ''essere'' else ''avere'') pp])],
           Participio = [(''Presente'', [participio_presente_ire v]), (''Passato'', [pp])],
           Gerundio = [(''Presente'', [gerundio_presente_ire v]),
                       (''Passato'', [spaced (if essere then ''essendo'' else ''avendo'') pp])]\<rparr>)"

text \<open>\<open>fr_disp, fr_ascii = FR_MAP[v]; aux = AUX[v]; pp = PP[v]\<close>: the first
  missing key raises.\<close>

definition build_json_ire :: "pystr \<Rightarrow> py_error + (pystr \<times> verb_doc)" where
  "build_json_ire v =
     (case dict_get FR_MAP_ire v of
        Inl e \<Rightarrow> Inl e
      | Inr (fr_disp, fr_ascii) \<Rightarrow>
          (case dict_get AUX_ire v of
             Inl e \<Rightarrow> Inl e
           | Inr aux \<Rightarrow>
               (case dict_get PP_ire v of
                  Inl e \<Rightarrow> Inl e
                | Inr pp \<Rightarrow> Inr (fr_ascii @ ''.json'', data_ire v fr_disp aux pp))))"

lemmas ire_gen_defs = stem_def indicativo_presente_ire_def imperfetto_ire_def passato_remoto_ire_def
  futuro_root_ire_def futuro_semplice_ire_def condizionale_presente_ire_def
  congiuntivo_presente_ire_def congiuntivo_imperfetto_ire_def participio_presente_ire_def
  gerundio_presente_ire_def imperativo_ire_def

section \<open>Lemmas\<close>

lemma ire_copies [simp]:
  "aux_pres_ire = aux_pres" "aux_impf_ire = aux_impf" "aux_rem_ire = aux_rem" "aux_fut_ire = aux_fut"
  "aux_cond_ire = aux_cond" "aux_cong_pres_ire = aux_cong_pres" "aux_cong_impf_ire = aux_cong_impf"
  by (simp_all add: fun_eq_iff aux_pres_ire_def aux_pres_def aux_impf_ire_def aux_impf_def aux_rem_ire_def aux_rem_def
      aux_fut_ire_def aux_fut_def aux_cond_ire_def aux_cond_def aux_cong_pres_ire_def aux_cong_pres_def
      aux_cong_impf_ire_def aux_cong_impf_def)

lemma compose_ire_compose [simp]: "compose_ire = compose"
  unfolding compose_ire_def compose_def looks_plural_def plural_markers_def plural_pp_def
  by (intro ext) (rule refl)

lemma ire_lengths [simp]:
  "length (indicativo_presente_ire v) = 6" "length (imperfetto_ire v) = 6"
  "length (passato_remoto_ire v) = 6"
  "length (futuro_semplice_ire v) = 6" "length (condizionale_presente_ire v) = 6"
  "length (congiuntivo_presente_ire v) = 6" "length (congiuntivo_imperfetto_ire v) = 6"
  "length (imperativo_ire v) = 6"
  by (simp_all add: ire_gen_defs Let_def)

text \<open>Well-formedness of the tables: \<open>VERBS\<close> has no duplicate, \<open>FR_MAP\<close> and
  \<open>PP\<close> list exactly \<open>VERBS\<close> in its order, \<open>ISC\<close> is a subset of it.\<close>

lemma ire_tables_wf:
  "distinct VERBS_ire \<and> map fst FR_MAP_ire = VERBS_ire \<and> map fst PP_ire = VERBS_ire \<and>
   ISC \<subseteq> set VERBS_ire"
  by (simp add: table_defs)

lemma ire_keys:
  "fst ` set FR_MAP_ire = set VERBS_ire" "fst ` set AUX_ire = set VERBS_ire"
  "fst ` set PP_ire = set VERBS_ire"
  using ire_tables_wf by (metis set_map, simp add: AUX_ire_def image_image, metis set_map)

lemma build_json_ire_Inr:
  "build_json_ire v = Inr (n, doc) \<longleftrightarrow>
   (\<exists>d f a pp. map_of FR_MAP_ire v = Some (d, f) \<and> map_of AUX_ire v = Some a \<and>
      map_of PP_ire v = Some pp \<and> n = f @ ''.json'' \<and> doc = data_ire v d a pp)"
  by (auto simp: build_json_ire_def dict_get_def split: option.splits sum.splits)

lemma build_json_ire_succeeds:
  assumes v: "v \<in> set VERBS_ire" and df: "map_of FR_MAP_ire v = Some (d, f)"
  shows "\<exists>a pp. build_json_ire v = Inr (f @ ''.json'', data_ire v d a pp)"
proof -
  have k2: "v \<in> fst ` set AUX_ire" and k3: "v \<in> fst ` set PP_ire"
    using v by (simp_all only: ire_keys)
  from map_of_key_Some [OF k2] obtain a where a: "map_of AUX_ire v = Some a" ..
  from map_of_key_Some [OF k3] obtain pp where pp: "map_of PP_ire v = Some pp" ..
  have "build_json_ire v = Inr (f @ ''.json'', data_ire v d a pp)"
    using df a pp by (simp add: build_json_ire_def dict_get_def)
  then show ?thesis by blast
qed

lemma data_ire_shape: "well_shaped (data_ire v d a pp)"
  by (simp add: data_ire_def Let_def shape_defs)

lemmas data_ire_eval = data_ire_def Let_def tense_row_def table_defs compose_eval forms_defs

text \<open>Claim C8. For every verb of \<open>ISC\<close> the augment \<open>isc\<close> occurs in the
  present indicative and present subjunctive exactly in persons 1, 2, 3 and 6
  (slots 0, 1, 2, 5), and in the imperative exactly for \<open>tu\<close>, \<open>lui/lei\<close>
  and \<open>loro\<close>; on the example of the specification, \<open>finire\<close> (stem
  \<open>fin\<close>), the present indicative is the listed one.\<close>

theorem isc_augment_slots:
  "v \<in> ISC \<Longrightarrow>
   map (contains ''isc'') (indicativo_presente_ire v) = [True, True, True, False, False, True] \<and>
   map (contains ''isc'') (congiuntivo_presente_ire v) = [True, True, True, False, False, True] \<and>
   map (contains ''isc'') (imperativo_ire v) = [False, True, True, False, False, True] \<and>
   (v = ''finire'' \<longrightarrow> indicativo_presente_ire v =
     [''io finisco'', ''tu finisci'', ''lui/lei finisce'', ''noi finiamo'', ''voi finite'', ''loro finiscono''])"
  unfolding ISC_def
  by (auto simp: ire_gen_defs Let_def table_defs forms_defs drop_last_def spaced_def)

theorem isc_augment_slots_witness:
  "map (contains ''isc'') (imperativo_ire ''finire'') = [False, True, True, False, False, True] \<and>
   indicativo_presente_ire ''finire'' =
     [''io finisco'', ''tu finisci'', ''lui/lei finisce'', ''noi finiamo'', ''voi finite'', ''loro finiscono'']"
proof -
  have h: "''finire'' \<in> ISC" by (simp add: ISC_def)
  show ?thesis using isc_augment_slots [OF h] by blast
qed

text \<open>Claim C9. Every document built by the \<open>-ire\<close> script has the shape the
  specification promises.\<close>

theorem build_json_ire_shape: "build_json_ire v = Inr (n, doc) \<Longrightarrow> well_shaped doc"
  by (auto simp: build_json_ire_Inr data_ire_shape)

theorem build_json_ire_shape_witness:
  "build_json_ire ''aprire'' = Inr (''ouvrir.json'', data_ire ''aprire'' ''ouvrir'' ''avere'' ''aperto'') \<and>
   well_shaped (data_ire ''aprire'' ''ouvrir'' ''avere'' ''aperto'')"
proof -
  have b: "build_json_ire ''aprire'' = Inr (''ouvrir.json'', data_ire ''aprire'' ''ouvrir'' ''avere'' ''aperto'')"
    by (simp add: build_json_ire_def dict_get_def table_defs)
  show ?thesis using b build_json_ire_shape [OF b] by simp
qed

text \<open>Claim C10. \<open>build_json\<close> of the \<open>-ire\<close> script succeeds exactly on the
  verbs of \<open>VERBS\<close>: none of its three lookups fails there.\<close>

theorem build_json_ire_domain: "(\<exists>n doc. build_json_ire v = Inr (n, doc)) \<longleftrightarrow> v \<in> set VERBS_ire"
proof
  assume "\<exists>n doc. build_json_ire v = Inr (n, doc)"
  then obtain d f where "map_of FR_MAP_ire v = Some (d, f)"
    by (auto simp: build_json_ire_Inr)
  then have "v \<in> fst ` set FR_MAP_ire" by (rule map_of_Some_key)
  then show "v \<in> set VERBS_ire" by (simp only: ire_keys)
next
  assume v: "v \<in> set VERBS_ire"
  then have "v \<in> fst ` set FR_MAP_ire" by (simp only: ire_keys)
  from map_of_key_Some [OF this] obtain d f where "map_of FR_MAP_ire v = Some (d, f)" by auto
  from build_json_ire_succeeds [OF v this] show "\<exists>n doc. build_json_ire v = Inr (n, doc)" by blast
qed

text \<open>Claim C11. Any other verb makes \<open>build_json\<close> raise
  \<open>KeyError(v)\<close>: its three lookups \<open>FR_MAP[v]\<close>, \<open>AUX[v]\<close>,
  \<open>PP[v]\<close> are all keyed by the verb, so the exception is the same whichever
  of them fails first.\<close>

theorem build_json_ire_key_error: "v \<notin> set VERBS_ire \<Longrightarrow> build_json_ire v = Inl (KeyError v)"
proof -
  assume "v \<notin> set VERBS_ire"
  then have "map_of FR_MAP_ire v = None" using ire_keys(1) by (simp add: map_of_eq_None_iff)
  then show ?thesis by (simp add: build_json_ire_def dict_get_def)
qed

theorem build_json_ire_key_error_witness:
  "''dormire'' \<notin> set VERBS_ire \<and> build_json_ire ''dormire'' = Inl (KeyError ''dormire'')"
proof -
  have h: "''dormire'' \<notin> set VERBS_ire" by (simp add: table_defs)
  show ?thesis using h build_json_ire_key_error [OF h] by simp
qed

end
