(* ===== verification/Irregular_Verbs.thy ===== *)
theory Irregular_Verbs
  imports Verb_Record
begin

text \<open>
  \<^verbatim>\<open>src/CreateIrregularVerbs.py\<close>: 37 irregular verbs whose forms come
  mostly from literal override tables. A generator uses its override when the
  verb has one and a generic rule otherwise (\<open>REMOTO\<close>, \<open>IMPF_STEM\<close>, the
  local tables of \<open>cong_pres\<close>, \<open>congiuntivo_imperfetto\<close> and \<open>imperativo\<close>,
  \<open>GERUND_EX\<close>). Lookups written \<open>d[v]\<close> (\<open>AUX\<close>, \<open>PP\<close>, \<open>FR_MAP\<close>,
  \<open>PRES_IND\<close>, \<open>FUT_STEM\<close>) raise \<open>KeyError\<close>; the generators that make
  them return \<open>py_error + _\<close>, and \<open>build_json\<close> evaluates the document's
  entries in the dictionary literal's order, so the first failing lookup is the
  exception raised. The script carries its own auxiliary tables
  (\<open>aux_present\<close>, \<open>aux_imperf\<close>, \<open>aux_rem_irr\<close> \<dots>), which
  \<open>data_irr\<close> calls and \<open>irr_copies\<close> proves equal to those of theory
  \<open>Composer\<close>; its \<open>compose\<close> is \<open>compose_irr\<close>.
\<close>

section \<open>Rule tables\<close>

definition VERBS_irr :: "pystr list" where
  "VERBS_irr = [
    ''andare'', ''fare'', ''dare'', ''stare'', ''bere'', ''sapere'', ''tenere'', ''ottenere'',
    ''mantenere'', ''ritenere'', ''sostenere'', ''trattenere'', ''rimanere'', ''scegliere'', ''togliere'', ''cogliere'',
    ''raccogliere'', ''volere'', ''condurre'', ''tradurre'', ''produrre'', ''introdurre'', ''proporre'', ''porre'',
    ''esporre'', ''opporre'', ''uscire'', ''dire'', ''predire'', ''disdire'', ''venire'', ''salire'',
    ''apparire'', ''scomparire'', ''finire'', ''avere'', ''essere'']"

text \<open>\<open>AUX = {v: "avere" for v in VERBS}\<close>, then \<open>AUX[v] = "essere"\<close> for
  eight verbs: the assignments keep each key's position.\<close>

definition AUX_irr :: "(pystr \<times> pystr) list" where
  "AUX_irr = fold (\<lambda>v d. dict_set d v ''essere'')
     [''andare'', ''stare'', ''rimanere'', ''uscire'', ''venire'', ''salire'', ''apparire'', ''scomparire'']
     (map (\<lambda>v. (v, ''avere'')) VERBS_irr)"


text \<open>\<open>it_verb -> (fr_display, fr_ascii_filename)\<close>.\<close>

definition FR_MAP_irr :: "(pystr \<times> pystr \<times> pystr) list" where
  "FR_MAP_irr =
   [(''andare'', (''aller'', ''aller'')),
   (''fare'', (''faire'', ''faire'')),
   (''dare'', (''donner'', ''donner'')),
   (''stare'', (''rester'', ''rester'')),
   (''bere'', (''boire'', ''boire'')),
   (''sapere'', (''savoir'', ''savoir'')),
   (''tenere'', (''tenir'', ''tenir'')),
   (''ottenere'', (''obtenir'', ''obtenir'')),
   (''mantenere'', (''maintenir'', ''maintenir'')),
   (''ritenere'', (''retenir'', ''retenir'')),
   (''sostenere'', (''soutenir'', ''soutenir'')),
   (''trattenere'', (''retenir (trattenere)'', ''retenir_trattenere'')),
   (''rimanere'', (''rester (rimanere)'', ''rester_rimanere'')),
   (''scegliere'', (''choisir'', ''choisir'')),
   (''togliere'', (''enlever'', ''enlever'')),
   (''cogliere'', (''cueillir'', ''cueillir'')),
   (''raccogliere'', (''recueillir'', ''recueillir'')),
   (''volere'', (''vouloir'', ''vouloir'')),
   (''condurre'', (''conduire'', ''conduire'')),
   (''tradurre'', (''traduire'', ''traduire'')),
   (''produrre'', (''produire'', ''produire'')),
   (''introdurre'', (''introduire'', ''introduire'')),
   (''porre'', (''poser'', ''poser'')),
   (''proporre'', (''proposer'', ''proposer'')),
   (''esporre'', (''exposer'', ''exposer'')),
   (''opporre'', (''opposer'', ''opposer'')),
   (''uscire'', (''sortir'', ''sortir'')),
   (''dire'', (''dire'', ''dire'')),
   (''predire'', (''pr'' @ e_acute # ''dire'', ''predire'')),
   (''disdire'', (''d'' @ e_acute # ''commander'', ''decommander'')),
   (''venire'', (''venir'', ''venir'')),
   (''salire'', (''monter'', ''monter'')),
   (''apparire'', (''appara'' @ i_circ # ''tre'', ''apparaitre'')),
   (''scomparire'', (''dispara'' @ i_circ # ''tre'', ''disparaitre'')),
   (''finire'', (''finir'', ''finir'')),
   (''avere'', (''avoir'', ''avoir'')),
   (''essere'', (e_circ # ''tre'', ''etre''))]"

text \<open>Present indicative rows, \<open>io\<close> to \<open>loro\<close>, without pronouns.\<close>

definition PRES_IND :: "(pystr \<times> pystr list) list" where
  "PRES_IND =
   [(''andare'', [''vado'', ''vai'', ''va'', ''andiamo'', ''andate'', ''vanno'']),
   (''fare'', [''faccio'', ''fai'', ''fa'', ''facciamo'', ''fate'', ''fanno'']),
   (''dare'', [''do'', ''dai'', ''d'' @ [a_grave], ''diamo'', ''date'', ''danno'']),
   (''stare'', [''sto'', ''stai'', ''sta'', ''stiamo'', ''state'', ''stanno'']),
   (''bere'', [''bevo'', ''bevi'', ''beve'', ''beviamo'', ''bevete'', ''bevono'']),
   (''sapere'', [''so'', ''sai'', ''sa'', ''sappiamo'', ''sapete'', ''sanno'']),
   (''tenere'', [''tengo'', ''tieni'', ''tiene'', ''teniamo'', ''tenete'', ''tengono'']),
   (''ottenere'', [''ottengo'', ''ottieni'', ''ottiene'', ''otteniamo'', ''ottenete'', ''ottengono'']),
   (''mantenere'', [''mantengo'', ''mantieni'', ''mantiene'', ''manteniamo'', ''mantenete'', ''mantengono'']),
   (''ritenere'', [''ritengo'', ''ritieni'', ''ritiene'', ''riteniamo'', ''ritenete'', ''ritengono'']),
   (''sostenere'', [''sostengo'', ''sostieni'', ''sostiene'', ''sosteniamo'', ''sostenete'', ''sostengono'']),
   (''trattenere'', [''trattengo'', ''trattieni'', ''trattiene'', ''tratteniamo'', ''trattenete'', ''trattengono'']),
   (''rimanere'', [''rimango'', ''rimani'', ''rimane'', ''rimaniamo'', ''rimanete'', ''rimangono'']),
   (''scegliere'', [''scelgo'', ''scegli'', ''sceglie'', ''scegliamo'', ''scegliete'', ''scelgono'']),
   (''togliere'', [''tolgo'', ''togli'', ''toglie'', ''togliamo'', ''togliete'', ''tolgono'']),
   (''cogliere'', [''colgo'', ''cogli'', ''coglie'', ''cogliamo'', ''cogliete'', ''colgono'']),
   (''raccogliere'', [''raccolgo'', ''raccogli'', ''raccoglie'', ''raccogliamo'', ''raccogliete'', ''raccolgono'']),
   (''volere'', [''voglio'', ''vuoi'', ''vuole'', ''vogliamo'', ''volete'', ''vogliono'']),
   (''condurre'', [''conduco'', ''conduci'', ''conduce'', ''conduciamo'', ''conducete'', ''conducono'']),
   (''tradurre'', [''traduco'', ''traduci'', ''traduce'', ''traduciamo'', ''traducete'', ''traducono'']),
   (''produrre'', [''produco'', ''produci'', ''produce'', ''produciamo'', ''producete'', ''producono'']),
   (''introdurre'', [''introduco'', ''introduci'', ''introduce'', ''introduciamo'', ''introducete'', ''introducono'']),
   (''porre'', [''pongo'', ''poni'', ''pone'', ''poniamo'', ''ponete'', ''pongono'']),
   (''proporre'', [''propongo'', ''proponi'', ''propone'', ''proponiamo'', ''proponete'', ''propongono'']),
   (''esporre'', [''espongo'', ''esponi'', ''espone'', ''esponiamo'', ''esponete'', ''espongono'']),
   (''opporre'', [''oppongo'', ''opponi'', ''oppone'', ''opponiamo'', ''opponete'', ''oppongono'']),
   (''uscire'', [''esco'', ''esci'', ''esce'', ''usciamo'', ''uscite'', ''escono'']),
   (''dire'', [''dico'', ''dici'', ''dice'', ''diciamo'', ''dite'', ''dicono'']),
   (''predire'', [''predico'', ''predici'', ''predice'', ''prediciamo'', ''predite'', ''predicono'']),
   (''disdire'', [''disdico'', ''disdici'', ''disdice'', ''disdiciamo'', ''disdite'', ''disdicono'']),
   (''venire'', [''vengo'', ''vieni'', ''viene'', ''veniamo'', ''venite'', ''vengono'']),
   (''salire'', [''salgo'', ''sali'', ''sale'', ''saliamo'', ''salite'', ''salgono'']),
   (''apparire'', [''appaio'', ''appari'', ''appare'', ''appariamo'', ''apparite'', ''appaiono'']),
   (''scomparire'', [''scompaio'', ''scompari'', ''scompare'', ''scompariamo'', ''scomparite'', ''scompaiono'']),
   (''finire'', [''finisco'', ''finisci'', ''finisce'', ''finiamo'', ''finite'', ''finiscono'']),
   (''avere'', [''ho'', ''hai'', ''ha'', ''abbiamo'', ''avete'', ''hanno'']),
   (''essere'', [''sono'', ''sei'', [e_grave], ''siamo'', ''siete'', ''sono''])]"

text \<open>Future and conditional stems.\<close>

definition FUT_STEM_irr :: "(pystr \<times> pystr) list" where
  "FUT_STEM_irr =
   [(''andare'', ''andr''),
   (''fare'', ''far''),
   (''dare'', ''dar''),
   (''stare'', ''star''),
   (''bere'', ''berr''),
   (''sapere'', ''sapr''),
   (''tenere'', ''terr''),
   (''ottenere'', ''otterr''),
   (''mantenere'', ''manterr''),
   (''ritenere'', ''riterr''),
   (''sostenere'', ''sosterr''),
   (''trattenere'', ''tratterr''),
   (''rimanere'', ''rimarr''),
   (''scegliere'', ''sceglier''),
   (''togliere'', ''toglier''),
   (''cogliere'', ''coglier''),
   (''raccogliere'', ''raccoglier''),
   (''volere'', ''vorr''),
   (''condurre'', ''condurr''),
   (''tradurre'', ''tradurr''),
   (''produrre'', ''produrr''),
   (''introdurre'', ''introdurr''),
   (''porre'', ''porr''),
   (''proporre'', ''proporr''),
   (''esporre'', ''esporr''),
   (''opporre'', ''opporr''),
   (''uscire'', ''uscir''),
   (''dire'', ''dir''),
   (''predire'', ''predir''),
   (''disdire'', ''disdir''),
   (''venire'', ''verr''),
   (''salire'', ''salir''),
   (''apparire'', ''apparir''),
   (''scomparire'', ''scomparir''),
   (''finire'', ''finir''),
   (''avere'', ''avr''),
   (''essere'', ''sar'')]"

text \<open>Remote-past rows, without pronouns; \<open>andare\<close> has none.\<close>

definition REMOTO_irr :: "(pystr \<times> pystr list) list" where
  "REMOTO_irr =
   [(''fare'', [''feci'', ''facesti'', ''fece'', ''facemmo'', ''faceste'', ''fecero'']),
   (''dare'', [''diedi'', ''desti'', ''diede'', ''demmo'', ''deste'', ''diedero'']),
   (''stare'', [''stetti'', ''stesti'', ''stette'', ''stemmo'', ''steste'', ''stettero'']),
   (''bere'', [''bevvi'', ''bevesti'', ''bevve'', ''bevemmo'', ''beveste'', ''bevvero'']),
   (''sapere'', [''seppi'', ''sapesti'', ''seppe'', ''sapemmo'', ''sapeste'', ''seppero'']),
   (''tenere'', [''tenni'', ''tenesti'', ''tenne'', ''tenemmo'', ''teneste'', ''tennero'']),
   (''ottenere'', [''ottenni'', ''ottenesti'', ''ottenne'', ''ottenemmo'', ''otteneste'', ''ottennero'']),
   (''mantenere'', [''mantenni'', ''mantenesti'', ''mantenne'', ''mantenemmo'', ''manteneste'', ''mantennero'']),
   (''ritenere'', [''ritenni'', ''ritenesti'', ''ritenne'', ''ritenemmo'', ''riteneste'', ''ritennero'']),
   (''sostenere'', [''sostenni'', ''sostenesti'', ''sostenne'', ''sostenemmo'', ''sosteneste'', ''sostennero'']),
   (''trattenere'', [''trattenni'', ''trattenesti'', ''trattenne'', ''trattenemmo'', ''tratteneste'', ''trattennero'']),
   (''rimanere'', [''rimasi'', ''rimanesti'', ''rimase'', ''rimanemmo'', ''rimaneste'', ''rimasero'']),
   (''scegliere'', [''scelsi'', ''scegliesti'', ''scelse'', ''scegliemmo'', ''sceglieste'', ''scelsero'']),
   (''togliere'', [''tolsi'', ''togliesti'', ''tolse'', ''togliemmo'', ''toglieste'', ''tolsero'']),
   (''cogliere'', [''colsi'', ''cogliesti'', ''colse'', ''cogliemmo'', ''coglieste'', ''colsero'']),
   (''raccogliere'', [''raccolsi'', ''raccogliesti'', ''raccolse'', ''raccogliemmo'', ''raccoglieste'', ''raccolsero'']),
   (''volere'', [''volli'', ''volesti'', ''volle'', ''volemmo'', ''voleste'', ''vollero'']),
   (''condurre'', [''condussi'', ''conducesti'', ''condusse'', ''conducemmo'', ''conduceste'', ''condussero'']),
   (''tradurre'', [''tradussi'', ''traducesti'', ''tradusse'', ''traducemmo'', ''traduceste'', ''tradussero'']),
   (''produrre'', [''produssi'', ''producesti'', ''produsse'', ''producemmo'', ''produceste'', ''produssero'']),
   (''introdurre'', [''introdussi'', ''introducesti'', ''introdusse'', ''introducemmo'', ''introduceste'', ''introdussero'']),
   (''porre'', [''posi'', ''ponesti'', ''pose'', ''ponemmo'', ''poneste'', ''posero'']),
   (''proporre'', [''proposi'', ''proponesti'', ''propose'', ''proponemmo'', ''proponeste'', ''proposero'']),
   (''esporre'', [''esposi'', ''esponesti'', ''espose'', ''esponemmo'', ''esponeste'', ''esposero'']),
   (''opporre'', [''opposi'', ''opponesti'', ''oppose'', ''opponemmo'', ''opponeste'', ''opposero'']),
   (''dire'', [''dissi'', ''dicesti'', ''disse'', ''dicemmo'', ''diceste'', ''dissero'']),
   (''predire'', [''predissi'', ''predicesti'', ''predisse'', ''predicemmo'', ''prediceste'', ''predissero'']),
   (''disdire'', [''disdissi'', ''disdicesti'', ''disdisse'', ''disdicemmo'', ''disdiceste'', ''disdissero'']),
   (''venire'', [''venni'', ''venisti'', ''venne'', ''venimmo'', ''veniste'', ''vennero'']),
   (''essere'', [''fui'', ''fosti'', ''fu'', ''fummo'', ''foste'', ''furono'']),
   (''avere'', [''ebbi'', ''avesti'', ''ebbe'', ''avemmo'', ''aveste'', ''ebbero'']),
   (''uscire'', [''uscii'', ''uscisti'', ''usc'' @ [i_grave], ''uscimmo'', ''usciste'', ''uscirono'']),
   (''salire'', [''salii'', ''salisti'', ''sal'' @ [i_grave], ''salimmo'', ''saliste'', ''salirono'']),
   (''apparire'', [''apparvi'', ''apparisti'', ''apparve'', ''apparimmo'', ''appariste'', ''apparvero'']),
   (''scomparire'', [''scomparvi'', ''scomparisti'', ''scomparve'', ''scomparimmo'', ''scompariste'', ''scomparvero'']),
   (''finire'', [''finii'', ''finisti'', ''fin'' @ [i_grave], ''finimmo'', ''finiste'', ''finirono''])]"

definition PP_irr :: "(pystr \<times> pystr) list" where
  "PP_irr =
   [(''andare'', ''andato''),
   (''fare'', ''fatto''),
   (''dare'', ''dato''),
   (''stare'', ''stato''),
   (''bere'', ''bevuto''),
   (''sapere'', ''saputo''),
   (''tenere'', ''tenuto''),
   (''ottenere'', ''ottenuto''),
   (''mantenere'', ''mantenuto''),
   (''ritenere'', ''ritenuto''),
   (''sostenere'', ''sostenuto''),
   (''trattenere'', ''trattenuto''),
   (''rimanere'', ''rimasto''),
   (''scegliere'', ''scelto''),
   (''togliere'', ''tolto''),
   (''cogliere'', ''colto''),
   (''raccogliere'', ''raccolto''),
   (''volere'', ''voluto''),
   (''condurre'', ''condotto''),
   (''tradurre'', ''tradotto''),
   (''produrre'', ''prodotto''),
   (''introdurre'', ''introdotto''),
   (''porre'', ''posto''),
   (''proporre'', ''proposto''),
   (''esporre'', ''esposto''),
   (''opporre'', ''opposto''),
   (''uscire'', ''uscito''),
   (''dire'', ''detto''),
   (''predire'', ''predetto''),
   (''disdire'', ''disdetto''),
   (''venire'', ''venuto''),
   (''salire'', ''salito''),
   (''apparire'', ''apparso''),
   (''scomparire'', ''scomparso''),
   (''finire'', ''finito''),
   (''avere'', ''avuto''),
   (''essere'', ''stato'')]"

text \<open>Special imperfect stems; the default is \<open>verb[:-3]\<close>.\<close>

definition IMPF_STEM :: "(pystr \<times> pystr) list" where
  "IMPF_STEM =
   [(''fare'', ''face''),
   (''dire'', ''dice''),
   (''bere'', ''beve''),
   (''porre'', ''pone''),
   (''proporre'', ''propone''),
   (''esporre'', ''espone''),
   (''opporre'', ''oppone''),
   (''condurre'', ''conduce''),
   (''tradurre'', ''traduce''),
   (''produrre'', ''produce''),
   (''introdurre'', ''introduce'')]"

text \<open>The local dictionary \<open>mapping\<close> of \<open>cong_pres\<close>. The row of \<open>fare\<close> writes its fifth form \<open>"facc iate".replace(" ","")\<close>, whose value is \<open>facciate\<close>.\<close>

definition cong_pres_map :: "(pystr \<times> pystr list) list" where
  "cong_pres_map =
   [(''andare'', [''vada'', ''vada'', ''vada'', ''andiamo'', ''andiate'', ''vadano'']),
   (''dare'', [''dia'', ''dia'', ''dia'', ''diamo'', ''diate'', ''diano'']),
   (''stare'', [''stia'', ''stia'', ''stia'', ''stiamo'', ''stiate'', ''stiano'']),
   (''fare'', [''faccia'', ''faccia'', ''faccia'', ''facciamo'', ''facciate'', ''facciano'']),
   (''bere'', [''beva'', ''beva'', ''beva'', ''beviamo'', ''beviate'', ''bevano'']),
   (''sapere'', [''sappia'', ''sappia'', ''sappia'', ''sappiamo'', ''sappiate'', ''sappiano'']),
   (''tenere'', [''tenga'', ''tenga'', ''tenga'', ''teniamo'', ''teniate'', ''tengano'']),
   (''ottenere'', [''ottenga'', ''ottenga'', ''ottenga'', ''otteniamo'', ''otteniate'', ''ottengano'']),
   (''mantenere'', [''mantenga'', ''mantenga'', ''mantenga'', ''manteniamo'', ''manteniate'', ''mantengano'']),
   (''ritenere'', [''ritenga'', ''ritenga'', ''ritenga'', ''riteniamo'', ''riteniate'', ''ritengano'']),
   (''sostenere'', [''sostenga'', ''sostenga'', ''sostenga'', ''sosteniamo'', ''sosteniate'', ''sostengano'']),
   (''trattenere'', [''trattenga'', ''trattenga'', ''trattenga'', ''tratteniamo'', ''tratteniate'', ''trattengano'']),
   (''rimanere'', [''rimanga'', ''rimanga'', ''rimanga'', ''rimaniamo'', ''rimaniate'', ''rimangano'']),
   (''scegliere'', [''scelga'', ''scelga'', ''scelga'', ''scegliamo'', ''scegliate'', ''scelgano'']),
   (''togliere'', [''tolga'', ''tolga'', ''tolga'', ''togliamo'', ''togliate'', ''tolgano'']),
   (''cogliere'', [''colga'', ''colga'', ''colga'', ''cogliamo'', ''cogliate'', ''colgano'']),
   (''raccogliere'', [''raccolga'', ''raccolga'', ''raccolga'', ''raccogliamo'', ''raccogliate'', ''raccolgano'']),
   (''volere'', [''voglia'', ''voglia'', ''voglia'', ''vogliamo'', ''vogliate'', ''vogliano'']),
   (''condurre'', [''conduca'', ''conduca'', ''conduca'', ''conduciamo'', ''conduciate'', ''conducano'']),
   (''tradurre'', [''traduca'', ''traduca'', ''traduca'', ''traduciamo'', ''traduciate'', ''traducano'']),
   (''produrre'', [''produca'', ''produca'', ''produca'', ''produciamo'', ''produciate'', ''producano'']),
   (''introdurre'', [''introduca'', ''introduca'', ''introduca'', ''introduciamo'', ''introduciate'', ''introducano'']),
   (''porre'', [''ponga'', ''ponga'', ''ponga'', ''poniamo'', ''poniate'', ''pongano'']),
   (''proporre'', [''proponga'', ''proponga'', ''proponga'', ''proponiamo'', ''proponiate'', ''propongano'']),
   (''esporre'', [''esponga'', ''esponga'', ''esponga'', ''esponiamo'', ''esponiate'', ''espongano'']),
   (''opporre'', [''opponga'', ''opponga'', ''opponga'', ''opponiamo'', ''opponiate'', ''oppongano'']),
   (''uscire'', [''esca'', ''esca'', ''esca'', ''usciamo'', ''usciate'', ''escano'']),
   (''dire'', [''dica'', ''dica'', ''dica'', ''diciamo'', ''diciate'', ''dicano'']),
   (''predire'', [''predica'', ''predica'', ''predica'', ''prediciamo'', ''prediciate'', ''predicano'']),
   (''disdire'', [''disdica'', ''disdica'', ''disdica'', ''disdiciamo'', ''disdiciate'', ''disdicano'']),
   (''venire'', [''venga'', ''venga'', ''venga'', ''veniamo'', ''veniate'', ''vengano'']),
   (''salire'', [''salga'', ''salga'', ''salga'', ''saliamo'', ''salite'', ''salgano'']),
   (''apparire'', [''appaia'', ''appaia'', ''appaia'', ''appariamo'', ''appariate'', ''appaiano'']),
   (''scomparire'', [''scompaia'', ''scompaia'', ''scompaia'', ''scompariamo'', ''scompariate'', ''scompaiano'']),
   (''finire'', [''finisca'', ''finisca'', ''finisca'', ''finiamo'', ''finiate'', ''finiscano''])]"

text \<open>The local dictionary \<open>base_map\<close> of \<open>congiuntivo_imperfetto\<close>.\<close>

definition cong_impf_base :: "(pystr \<times> pystr) list" where
  "cong_impf_base =
   [(''andare'', ''andass''),
   (''dare'', ''dess''),
   (''stare'', ''stess''),
   (''fare'', ''facess''),
   (''dire'', ''dicess''),
   (''bere'', ''bevess''),
   (''sapere'', ''sapess''),
   (''tenere'', ''teness''),
   (''ottenere'', ''otteness''),
   (''mantenere'', ''manteness''),
   (''ritenere'', ''riteness''),
   (''sostenere'', ''sosteness''),
   (''trattenere'', ''tratteness''),
   (''rimanere'', ''rimaness''),
   (''volere'', ''voless''),
   (''porre'', ''poness''),
   (''proporre'', ''proponess''),
   (''esporre'', ''esponess''),
   (''opporre'', ''opponess''),
   (''condurre'', ''conducess''),
   (''tradurre'', ''traducess''),
   (''produrre'', ''producess''),
   (''introdurre'', ''introducess''),
   (''scegliere'', ''scegliess''),
   (''togliere'', ''togliess''),
   (''cogliere'', ''cogliess''),
   (''raccogliere'', ''raccogliess''),
   (''uscire'', ''usciss''),
   (''venire'', ''veniss''),
   (''salire'', ''saliss''),
   (''apparire'', ''appariss''),
   (''scomparire'', ''scompariss''),
   (''finire'', ''finiss''),
   (''avere'', ''avess''),
   (''essere'', ''foss''),
   (''predire'', ''predicess''),
   (''disdire'', ''disdicess'')]"

text \<open>The local dictionary \<open>mp\<close> of \<open>imperativo\<close>.\<close>

definition imperativo_map :: "(pystr \<times> pystr list) list" where
  "imperativo_map =
   [(''andare'', [[em_dash], ''vai'', ''vada'', ''andiamo'', ''andate'', ''vadano'']),
   (''dare'', [[em_dash], ''dai'', ''dia'', ''diamo'', ''date'', ''diano'']),
   (''stare'', [[em_dash], ''stai'', ''stia'', ''stiamo'', ''state'', ''stiano'']),
   (''fare'', [[em_dash], ''fai'', ''faccia'', ''facciamo'', ''fate'', ''facciano'']),
   (''bere'', [[em_dash], ''bevi'', ''beva'', ''beviamo'', ''bevete'', ''bevano'']),
   (''sapere'', [[em_dash], ''sappi'', ''sappia'', ''sappiamo'', ''sappiate'', ''sappiano'']),
   (''tenere'', [[em_dash], ''tieni'', ''tenga'', ''teniamo'', ''tenete'', ''tengano'']),
   (''ottenere'', [[em_dash], ''ottieni'', ''ottenga'', ''otteniamo'', ''ottenete'', ''ottengano'']),
   (''mantenere'', [[em_dash], ''mantieni'', ''mantenga'', ''manteniamo'', ''mantenete'', ''mantengano'']),
   (''ritenere'', [[em_dash], ''ritieni'', ''ritenga'', ''riteniamo'', ''ritenete'', ''ritengano'']),
   (''sostenere'', [[em_dash], ''sostieni'', ''sostenga'', ''sosteniamo'', ''sostenete'', ''sostengano'']),
   (''trattenere'', [[em_dash], ''trattieni'', ''trattenga'', ''tratteniamo'', ''trattenete'', ''trattengano'']),
   (''rimanere'', [[em_dash], ''rimani'', ''rimanga'', ''rimaniamo'', ''rimanete'', ''rimangano'']),
   (''scegliere'', [[em_dash], ''scegli'', ''scelga'', ''scegliamo'', ''scegliete'', ''scelgano'']),
   (''togliere'', [[em_dash], ''togli'', ''tolga'', ''togliamo'', ''togliete'', ''tolgano'']),
   (''cogliere'', [[em_dash], ''cogli'', ''colga'', ''cogliamo'', ''cogliete'', ''colgano'']),
   (''raccogliere'', [[em_dash], ''raccogli'', ''raccolga'', ''raccogliamo'', ''raccogliete'', ''raccolgano'']),
   (''volere'', [[em_dash], ''vuoi'', ''voglia'', ''vogliamo'', ''volete'', ''vogliano'']),
   (''condurre'', [[em_dash], ''conduci'', ''conduca'', ''conduciamo'', ''conducete'', ''conducano'']),
   (''tradurre'', [[em_dash], ''traduci'', ''traduca'', ''traduciamo'', ''traducete'', ''traducano'']),
   (''produrre'', [[em_dash], ''produci'', ''produca'', ''produciamo'', ''producete'', ''producano'']),
   (''introdurre'', [[em_dash], ''introduci'', ''introduca'', ''introduciamo'', ''introducete'', ''introducano'']),
   (''porre'', [[em_dash], ''poni'', ''ponga'', ''poniamo'', ''ponete'', ''pongano'']),
   (''proporre'', [[em_dash], ''proponi'', ''proponga'', ''proponiamo'', ''proponete'', ''propongano'']),
   (''esporre'', [[em_dash], ''esponi'', ''esponga'', ''esponiamo'', ''esponete'', ''espongano'']),
   (''opporre'', [[em_dash], ''opponi'', ''opponga'', ''opponiamo'', ''opponete'', ''oppongano'']),
   (''uscire'', [[em_dash], ''esci'', ''esca'', ''usciamo'', ''uscite'', ''escano'']),
   (''dire'', [[em_dash], ''di'' @ [CHR 0x27], ''dica'', ''diciamo'', ''dite'', ''dicano'']),
   (''predire'', [[em_dash], ''predici'', ''predica'', ''prediciamo'', ''predite'', ''predicano'']),
   (''disdire'', [[em_dash], ''disdici'', ''disdica'', ''disdiciamo'', ''disdite'', ''disdicano'']),
   (''venire'', [[em_dash], ''vieni'', ''venga'', ''veniamo'', ''venite'', ''vengano'']),
   (''salire'', [[em_dash], ''sali'', ''salga'', ''saliamo'', ''salite'', ''salgano'']),
   (''apparire'', [[em_dash], ''appari'', ''appaia'', ''appariamo'', ''apparite'', ''appaiano'']),
   (''scomparire'', [[em_dash], ''scompari'', ''scompaia'', ''scompariamo'', ''scomparite'', ''scompaiano'']),
   (''finire'', [[em_dash], ''finisci'', ''finisca'', ''finiamo'', ''finite'', ''finiscano'']),
   (''avere'', [[em_dash], ''abbi'', ''abbia'', ''abbiamo'', ''abbiate'', ''abbiano'']),
   (''essere'', [[em_dash], ''sii'', ''sia'', ''siamo'', ''siate'', ''siano''])]"

definition GERUND_EX :: "(pystr \<times> pystr) list" where
  "GERUND_EX =
   [(''fare'', ''facendo''),
   (''dire'', ''dicendo''),
   (''porre'', ''ponendo''),
   (''proporre'', ''proponendo''),
   (''esporre'', ''esponendo''),
   (''opporre'', ''opponendo''),
   (''condurre'', ''conducendo''),
   (''tradurre'', ''traducendo''),
   (''produrre'', ''producendo''),
   (''introdurre'', ''introducendo''),
   (''bere'', ''bevendo'')]"

declare VERBS_irr_def [table_defs] AUX_irr_def [table_defs] FR_MAP_irr_def [table_defs]
  PRES_IND_def [table_defs] FUT_STEM_irr_def [table_defs] REMOTO_irr_def [table_defs]
  PP_irr_def [table_defs] IMPF_STEM_def [table_defs] cong_pres_map_def [table_defs]
  cong_impf_base_def [table_defs] imperativo_map_def [table_defs] GERUND_EX_def [table_defs]

section \<open>Generators\<close>

definition futuro_semplice_irr :: "pystr \<Rightarrow> py_error + pystr list" where
  "futuro_semplice_irr v =
     py_bind (dict_get FUT_STEM_irr v)
       (\<lambda>r. Inr (with_pronouns (map (\<lambda>e. r @ e) [[o_grave], ''ai'', [a_grave], ''emo'', ''ete'', ''anno''])))"

definition condizionale_presente_irr :: "pystr \<Rightarrow> py_error + pystr list" where
  "condizionale_presente_irr v =
     py_bind (dict_get FUT_STEM_irr v)
       (\<lambda>r. Inr (with_pronouns (map (\<lambda>e. r @ e) [''ei'', ''esti'', ''ebbe'', ''emmo'', ''este'', ''ebbero''])))"

text \<open>The override row if there is one; otherwise the regular endings of the
  infinitive's class, chosen by its last three letters.\<close>

definition passato_remoto_irr :: "pystr \<Rightarrow> pystr list" where
  "passato_remoto_irr v =
     (case map_of REMOTO_irr v of
        Some forms \<Rightarrow> with_pronouns forms
      | None \<Rightarrow>
          (let forms = (if ends_with v ''are'' then [''ai'', ''asti'', [o_grave], ''ammo'', ''aste'', ''arono'']
                        else if ends_with v ''ere'' then [''ei'', ''esti'', [e_acute], ''emmo'', ''este'', ''erono'']
                        else [''ii'', ''isti'', [i_grave], ''immo'', ''iste'', ''irono'']);
               base = drop_last 3 v
           in with_pronouns (map (\<lambda>e. base @ e) forms)))"

definition imperfetto_irr :: "pystr \<Rightarrow> pystr list" where
  "imperfetto_irr v =
     (if v = ''essere'' then with_pronouns [''ero'', ''eri'', ''era'', ''eravamo'', ''eravate'', ''erano'']
      else (let base = dict_get_default IMPF_STEM v (drop_last 3 v)
            in with_pronouns (map (\<lambda>e. base @ e) [''vo'', ''vi'', ''va'', ''vamo'', ''vate'', ''vano''])))"

text \<open>\<open>cong_pres\<close>: the two auxiliaries, then the local table, then a rule on
  the first person of the present indicative (\<open>PRES_IND[v][0]\<close>).\<close>

definition cong_pres :: "pystr \<Rightarrow> py_error + pystr list" where
  "cong_pres v =
     (if v = ''avere'' then Inr [''abbia'', ''abbia'', ''abbia'', ''abbiamo'', ''abbiate'', ''abbiano'']
      else if v = ''essere'' then Inr [''sia'', ''sia'', ''sia'', ''siamo'', ''siate'', ''siano'']
      else case map_of cong_pres_map v of
        Some forms \<Rightarrow> Inr forms
      | None \<Rightarrow>
          py_bind (dict_get PRES_IND v) (\<lambda>row. py_bind (py_index0 row) (\<lambda>pres1.
            let base = (if ends_with pres1 ''go'' then drop_last 2 pres1 else drop_last 1 pres1)
            in Inr [base @ ''a'', base @ ''a'', base @ ''a'', base @ ''iamo'', base @ ''iate'', base @ ''ano''])))"

text \<open>The script defines the present subjunctive twice with the same body:
  \<open>congiuntivo_presente\<close> (never called) and \<open>congiuntivo_presente_full\<close>,
  the one \<open>build_json\<close> calls.\<close>

definition congiuntivo_presente_irr :: "pystr \<Rightarrow> py_error + pystr list" where
  "congiuntivo_presente_irr v =
     py_bind (cong_pres v) (\<lambda>forms. Inr (map2 (\<lambda>p f. ''che '' @ spaced p f) IT_PRONOUNS forms))"

definition congiuntivo_presente_full :: "pystr \<Rightarrow> py_error + pystr list" where
  "congiuntivo_presente_full v =
     py_bind (cong_pres v) (\<lambda>forms. Inr (map2 (\<lambda>p f. ''che '' @ spaced p f) IT_PRONOUNS forms))"

definition congiuntivo_imperfetto_irr :: "pystr \<Rightarrow> pystr list" where
  "congiuntivo_imperfetto_irr v =
     (let base = dict_get_default cong_impf_base v (drop_last 3 v @ ''ss'')
      in che_forms base [''i'', ''i'', ''e'', ''imo'', ''te'', ''ero''])"

definition congiuntivo_imperfetto_full :: "pystr \<Rightarrow> pystr list" where
  "congiuntivo_imperfetto_full v = congiuntivo_imperfetto_irr v"

text \<open>The table row if there is one; otherwise persons 2 to 6 of
  \<open>PRES_IND[v]\<close>, which raises \<open>IndexError\<close> on a row shorter than six.\<close>

definition imperativo_irr :: "pystr \<Rightarrow> py_error + pystr list" where
  "imperativo_irr v =
     (case map_of imperativo_map v of
        Some forms \<Rightarrow> Inr forms
      | None \<Rightarrow> py_bind (dict_get PRES_IND v) (\<lambda>pres.
          if length pres < 6 then Inl IndexError
          else Inr [[em_dash], pres ! 1, pres ! 2, pres ! 3, pres ! 4, pres ! 5]))"

definition gerundio_presente_irr :: "pystr \<Rightarrow> pystr" where
  "gerundio_presente_irr v =
     (case map_of GERUND_EX v of
        Some g \<Rightarrow> g
      | None \<Rightarrow> if ends_with v ''are'' then drop_last 3 v @ ''ando'' else drop_last 3 v @ ''endo'')"

definition participio_presente_irr :: "pystr \<Rightarrow> pystr" where
  "participio_presente_irr v = drop_last 3 v @ ''ente''"

text \<open>Lines 343-350 of the script: its own auxiliary tables, selected by
  \<open>aux == "avere"\<close>, two of them under other names.\<close>

definition aux_present :: "pystr \<Rightarrow> pystr list" where
  "aux_present aux = (if aux = ''avere'' then [''ho'', ''hai'', ''ha'', ''abbiamo'', ''avete'', ''hanno'']
     else [''sono'', ''sei'', [e_grave], ''siamo'', ''siete'', ''sono''])"

definition aux_imperf :: "pystr \<Rightarrow> pystr list" where
  "aux_imperf aux = (if aux = ''avere''
     then [''avevo'', ''avevi'', ''aveva'', ''avevamo'', ''avevate'', ''avevano'']
     else [''ero'', ''eri'', ''era'', ''eravamo'', ''eravate'', ''erano''])"

definition aux_rem_irr :: "pystr \<Rightarrow> pystr list" where
  "aux_rem_irr aux = (if aux = ''avere''
     then [''ebbi'', ''avesti'', ''ebbe'', ''avemmo'', ''aveste'', ''ebbero'']
     else [''fui'', ''fosti'', ''fu'', ''fummo'', ''foste'', ''furono''])"

definition aux_fut_irr :: "pystr \<Rightarrow> pystr list" where
  "aux_fut_irr aux = (if aux = ''avere''
     then [''avr'' @ [o_grave], ''avrai'', ''avr'' @ [a_grave], ''avremo'', ''avrete'', ''avranno'']
     else [''sar'' @ [o_grave], ''sarai'', ''sar'' @ [a_grave], ''saremo'', ''sarete'', ''saranno''])"

definition aux_cond_irr :: "pystr \<Rightarrow> pystr list" where
  "aux_cond_irr aux = (if aux = ''avere''
     then [''avrei'', ''avresti'', ''avrebbe'', ''avremmo'', ''avreste'', ''avrebbero'']
     else [''sarei'', ''saresti'', ''sarebbe'', ''saremmo'', ''sareste'', ''sarebbero''])"

definition aux_cong_pres_irr :: "pystr \<Rightarrow> pystr list" where
  "aux_cong_pres_irr aux = (if aux = ''avere''
     then [''che io abbia'', ''che tu abbia'', ''che lui/lei abbia'', ''che noi abbiamo'',
           ''che voi abbiate'', ''che loro abbiano'']
     else [''che io sia'', ''che tu sia'', ''che lui/lei sia'', ''che noi siamo'',
           ''che voi siate'', ''che loro siano''])"

definition aux_cong_impf_irr :: "pystr \<Rightarrow> pystr list" where
  "aux_cong_impf_irr aux = (if aux = ''avere''
     then [''che io avessi'', ''che tu avessi'', ''che lui/lei avesse'', ''che noi avessimo'',
           ''che voi aveste'', ''che loro avessero'']
     else [''che io fossi'', ''che tu fossi'', ''che lui/lei fosse'', ''che noi fossimo'',
           ''che voi foste'', ''che loro fossero''])"

section \<open>Record builder\<close>

text \<open>The dictionary \<open>data\<close>; its entries that can raise are evaluated in
  the literal's order.\<close>

definition data_irr :: "pystr \<Rightarrow> pystr \<Rightarrow> pystr \<Rightarrow> pystr \<Rightarrow> py_error + verb_doc" where
  "data_irr v fr_disp aux pp =
     (let essere = (aux = ''essere'') in
      py_bind (dict_get PRES_IND v) (\<lambda>pres.
      py_bind (futuro_semplice_irr v) (\<lambda>fut.
      py_bind (condizionale_presente_irr v) (\<lambda>cond.
      py_bind (congiuntivo_presente_full v) (\<lambda>cp.
      py_bind (imperativo_irr v) (\<lambda>imp.
      Inr \<lparr>source_lang = ''fr'', target_lang = ''it'', source_lemma = fr_disp, target_lemma = v,
           meta_regularity = (''irr'' @ e_acute # ''gulier'', ''verbo irregolare''),
           meta_auxiliary = (if essere then e_circ # ''tre'' else ''avoir'', aux),
           pronouns = (FR_PRONOUNS, IT_PRONOUNS),
           Indicativo = [
             (''Presente'', with_pronouns pres),
             (''Passato prossimo'', compose_irr (aux_present aux) pp essere),
             (''Imperfetto'', imperfetto_irr v),
             (''Trapassato prossimo'', compose_irr (aux_imperf aux) pp essere),
             (''Passato remoto'', passato_remoto_irr v),
             (''Trapassato remoto'', compose_irr (aux_rem_irr aux) pp essere),
             (''Futuro semplice'', fut),
             (''Futuro anteriore'', compose_irr (aux_fut_irr aux) pp essere)],
           Condizionale = [
             (''Presente'', cond),
             (''Passato'', compose_irr (aux_cond_irr aux) pp essere)],
           Congiuntivo = [
             (''Presente'', cp),
             (''Passato'', with_pp (aux_cong_pres_irr aux) pp),
             (''Imperfetto'', congiuntivo_imperfetto_full v),
             (''Trapassato'', with_pp (aux_cong_impf_irr aux) pp)],
           Imperativo = [(''Presente'', imp)],
           Infinito = [(''Presente'', [v]),
                       (''Passato'', [spaced (if essere then ''essere'' else ''avere'') pp])],
           Participio = [(''Presente'', [participio_presente_irr v]), (''Passato'', [pp])],
           Gerundio = [(''Presente'', [gerundio_presente_irr v]),
                       (''Passato'', [spaced (if essere then ''essendo'' else ''avendo'') pp])]\<rparr>))))))"

text \<open>\<open>aux = AUX[v]; pp = PP[v]; fr_disp, fr_ascii = FR_MAP[v]\<close>, then the
  dictionary, then the file \<open><fr_ascii>.json\<close>.\<close>

definition build_json_irr :: "pystr \<Rightarrow> py_error + (pystr \<times> verb_doc)" where
  "build_json_irr v =
     py_bind (dict_get AUX_irr v) (\<lambda>aux.
     py_bind (dict_get PP_irr v) (\<lambda>pp.
     py_bind (dict_get FR_MAP_irr v) (\<lambda>(fr_disp, fr_ascii).
     py_bind (data_irr v fr_disp aux pp) (\<lambda>data. Inr (fr_ascii @ ''.json'', data)))))"

lemmas irr_gen_defs = futuro_semplice_irr_def condizionale_presente_irr_def passato_remoto_irr_def
  imperfetto_irr_def cong_pres_def congiuntivo_presente_full_def congiuntivo_imperfetto_irr_def
  congiuntivo_imperfetto_full_def imperativo_irr_def gerundio_presente_irr_def
  participio_presente_irr_def

section \<open>Lemmas\<close>

lemma irr_copies [simp]:
  "aux_present = aux_pres" "aux_imperf = aux_impf" "aux_rem_irr = aux_rem" "aux_fut_irr = aux_fut"
  "aux_cond_irr = aux_cond" "aux_cong_pres_irr = aux_cong_pres" "aux_cong_impf_irr = aux_cong_impf"
  "congiuntivo_presente_irr = congiuntivo_presente_full"
  by (simp_all add: fun_eq_iff aux_present_def aux_pres_def aux_imperf_def aux_impf_def aux_rem_irr_def aux_rem_def
      aux_fut_irr_def aux_fut_def aux_cond_irr_def aux_cond_def aux_cong_pres_irr_def aux_cong_pres_def
      aux_cong_impf_irr_def aux_cong_impf_def congiuntivo_presente_irr_def congiuntivo_presente_full_def)

text \<open>Well-formedness of the tables: \<open>AUX\<close>, \<open>FR_MAP\<close>, \<open>PRES_IND\<close>,
  \<open>FUT_STEM\<close> and \<open>PP\<close> have a key for exactly the verbs of \<open>VERBS\<close>
  (\<open>FR_MAP\<close>, \<open>PRES_IND\<close>, \<open>FUT_STEM\<close> and \<open>PP\<close> list \<open>porre\<close> before
  \<open>proporre\<close>, so only the key sets agree), every table's keys are distinct,
  and the person rows have six forms.\<close>

lemma irr_keys_wf:
  "same_keys (map fst AUX_irr) VERBS_irr \<and> same_keys (map fst FR_MAP_irr) VERBS_irr \<and>
   same_keys (map fst PRES_IND) VERBS_irr \<and> same_keys (map fst FUT_STEM_irr) VERBS_irr \<and>
   same_keys (map fst PP_irr) VERBS_irr"
  by (simp add: table_defs same_keys_def dict_set_def)

lemma irr_distinct_wf:
  "distinct VERBS_irr \<and> distinct (map fst AUX_irr) \<and> distinct (map fst FR_MAP_irr) \<and>
   distinct (map fst PRES_IND) \<and> distinct (map fst FUT_STEM_irr) \<and> distinct (map fst PP_irr) \<and>
   distinct (map fst REMOTO_irr) \<and> distinct (map fst IMPF_STEM) \<and> distinct (map fst cong_pres_map) \<and>
   distinct (map fst cong_impf_base) \<and> distinct (map fst imperativo_map) \<and> distinct (map fst GERUND_EX)"
  by (simp add: table_defs dict_set_def)

lemma irr_rows_wf:
  "list_all (\<lambda>(_, fs). length fs = 6) PRES_IND \<and> list_all (\<lambda>(_, fs). length fs = 6) REMOTO_irr \<and>
   list_all (\<lambda>(_, fs). length fs = 6) cong_pres_map \<and> list_all (\<lambda>(_, fs). length fs = 6) imperativo_map"
  by (simp add: table_defs)

lemma irr_aux_wf: "list_all (\<lambda>(_, a). a = ''avere'' \<or> a = ''essere'') AUX_irr"
  by (simp add: table_defs dict_set_def)

lemma irr_keys:
  "fst ` set AUX_irr = set VERBS_irr" "fst ` set FR_MAP_irr = set VERBS_irr"
  "fst ` set PRES_IND = set VERBS_irr" "fst ` set FUT_STEM_irr = set VERBS_irr"
  "fst ` set PP_irr = set VERBS_irr"
  using irr_keys_wf by (simp_all add: same_keys_iff)

lemmas irr_rows = irr_rows_wf [THEN conjunct1, THEN map_of_row_length]
  irr_rows_wf [THEN conjunct2, THEN conjunct1, THEN map_of_row_length]
  irr_rows_wf [THEN conjunct2, THEN conjunct2, THEN conjunct1, THEN map_of_row_length]
  irr_rows_wf [THEN conjunct2, THEN conjunct2, THEN conjunct2, THEN map_of_row_length]

lemma irr_lengths [simp]:
  "length (passato_remoto_irr v) = 6" "length (imperfetto_irr v) = 6"
  "length (congiuntivo_imperfetto_full v) = 6"
  by (auto simp: irr_gen_defs Let_def forms_defs dest: irr_rows split: option.splits)

lemma irr_fallible_lengths:
  "dict_get PRES_IND v = Inr pres \<Longrightarrow> length pres = 6"
  "futuro_semplice_irr v = Inr fs \<Longrightarrow> length fs = 6"
  "condizionale_presente_irr v = Inr fs \<Longrightarrow> length fs = 6"
  "congiuntivo_presente_full v = Inr fs \<Longrightarrow> length fs = 6"
  "imperativo_irr v = Inr fs \<Longrightarrow> length fs = 6"
  by (auto simp: irr_gen_defs dict_get_def py_bind_eq_Inr py_index0_def Let_def
      dest: irr_rows split: option.splits if_splits list.splits)

lemma data_irr_shape:
  assumes dat: "data_irr v d a pp = Inr doc"
  shows "well_shaped doc"
proof -
  from dat obtain pres fut cond cp imp where
    r: "dict_get PRES_IND v = Inr pres" "futuro_semplice_irr v = Inr fut"
       "condizionale_presente_irr v = Inr cond" "congiuntivo_presente_full v = Inr cp"
       "imperativo_irr v = Inr imp"
    by (auto simp: data_irr_def Let_def py_bind_eq_Inr)
  have l: "length pres = 6" "length fut = 6" "length cond = 6" "length cp = 6" "length imp = 6"
    using r by (simp_all add: irr_fallible_lengths)
  show ?thesis
    using dat r l by (auto simp: data_irr_def Let_def shape_defs compose_irr_compose)
qed

lemma build_json_irr_Inr:
  "build_json_irr v = Inr (n, doc) \<longleftrightarrow>
   (\<exists>a pp d f. dict_get AUX_irr v = Inr a \<and> dict_get PP_irr v = Inr pp \<and>
      dict_get FR_MAP_irr v = Inr (d, f) \<and> n = f @ ''.json'' \<and> data_irr v d a pp = Inr doc)"
  by (auto simp: build_json_irr_def py_bind_eq_Inr split: prod.splits)

lemma irr_generators_succeed:
  assumes v: "v \<in> set VERBS_irr"
  shows "\<exists>r. dict_get PRES_IND v = Inr r" "\<exists>r. futuro_semplice_irr v = Inr r"
    "\<exists>r. condizionale_presente_irr v = Inr r" "\<exists>r. congiuntivo_presente_full v = Inr r"
    "\<exists>r. imperativo_irr v = Inr r"
proof -
  have p: "v \<in> fst ` set PRES_IND" and f: "v \<in> fst ` set FUT_STEM_irr"
    using v by (simp_all only: irr_keys)
  obtain pres where pres: "dict_get PRES_IND v = Inr pres" using dict_get_key_Inr [OF p] ..
  then have l: "length pres = 6" by (rule irr_fallible_lengths)
  obtain r where r: "dict_get FUT_STEM_irr v = Inr r" using dict_get_key_Inr [OF f] ..
  show "\<exists>r. dict_get PRES_IND v = Inr r" using pres ..
  show "\<exists>r. futuro_semplice_irr v = Inr r" "\<exists>r. condizionale_presente_irr v = Inr r"
    using r by (simp_all add: futuro_semplice_irr_def condizionale_presente_irr_def)
  show "\<exists>r. imperativo_irr v = Inr r"
    using pres l by (simp add: imperativo_irr_def split: option.splits)
  have "\<exists>r. cong_pres v = Inr r"
    using pres l by (auto simp: cong_pres_def py_index0_def Let_def split: option.splits list.splits)
  then show "\<exists>r. congiuntivo_presente_full v = Inr r"
    by (auto simp: congiuntivo_presente_full_def)
qed

lemma build_json_irr_succeeds:
  assumes v: "v \<in> set VERBS_irr" and df: "map_of FR_MAP_irr v = Some (d, f)"
  shows "\<exists>doc. build_json_irr v = Inr (f @ ''.json'', doc) \<and> well_shaped doc"
proof -
  have k: "v \<in> fst ` set AUX_irr" "v \<in> fst ` set PP_irr"
    using v by (simp_all only: irr_keys)
  obtain a where a: "dict_get AUX_irr v = Inr a" using dict_get_key_Inr [OF k(1)] ..
  obtain pp where pp: "dict_get PP_irr v = Inr pp" using dict_get_key_Inr [OF k(2)] ..
  obtain doc where doc: "data_irr v d a pp = Inr doc"
    using irr_generators_succeed [OF v] by (fastforce simp: data_irr_def Let_def)
  have "dict_get FR_MAP_irr v = Inr (d, f)" using df by (simp add: dict_get_def)
  then show ?thesis using a pp doc data_irr_shape [OF doc] by (auto simp: build_json_irr_Inr)
qed

lemma data_irr_imperfetto:
  "data_irr v d a pp = Inr doc \<Longrightarrow> tense_row (Indicativo doc) ''Imperfetto'' = imperfetto_irr v"
  by (auto simp: data_irr_def Let_def py_bind_eq_Inr tense_row_def)

lemma cong_impf_base_ss: "list_all (\<lambda>(_, b). ends_with b ''ss'') cong_impf_base"
  by (simp add: table_defs ends_with_def)

lemma cong_impf_stem_ss: "suffix ''ss'' (dict_get_default cong_impf_base v (drop_last 3 v @ ''ss''))"
proof (cases "map_of cong_impf_base v")
  case None
  then show ?thesis
    unfolding ends_with_iff_suffix [symmetric] by (simp add: dict_get_default_def ends_with_append)
next
  case (Some b)
  then have "(v, b) \<in> set cong_impf_base" by (rule map_of_SomeD)
  with cong_impf_base_ss have "ends_with b ''ss''" by (auto simp: list_all_iff)
  with Some show ?thesis by (simp add: dict_get_default_def ends_with_iff_suffix)
qed

text \<open>Claim C12. Every document the irregular script produces has the shape the
  specification promises.\<close>

theorem build_json_irr_shape: "build_json_irr v = Inr (n, doc) \<Longrightarrow> well_shaped doc"
  by (auto simp: build_json_irr_Inr dest: data_irr_shape)

theorem build_json_irr_shape_witness:
  "\<exists>doc. build_json_irr ''dare'' = Inr (''donner.json'', doc) \<and> well_shaped doc"
proof -
  have v: "''dare'' \<in> set VERBS_irr" by (simp add: table_defs)
  obtain doc where d: "data_irr ''dare'' ''donner'' ''avere'' ''dato'' = Inr doc"
    using irr_generators_succeed [OF v] by (fastforce simp: data_irr_def Let_def)
  then have b: "build_json_irr ''dare'' = Inr (''donner.json'', doc)"
    by (simp add: build_json_irr_def dict_get_def table_defs dict_set_def)
  show ?thesis using b build_json_irr_shape [OF b] by blast
qed

text \<open>Claim C13. \<open>build_json\<close> of the irregular script returns a document
  exactly for the verbs of \<open>VERBS\<close>: every lookup it makes succeeds there
  (\<open>AUX\<close>, \<open>PP\<close>, \<open>FR_MAP\<close>, \<open>PRES_IND\<close>, \<open>FUT_STEM\<close>, and the
  \<open>PRES_IND\<close> fallbacks of the subjunctive and imperative).\<close>

theorem build_json_irr_domain: "(\<exists>n doc. build_json_irr v = Inr (n, doc)) \<longleftrightarrow> v \<in> set VERBS_irr"
proof
  assume "\<exists>n doc. build_json_irr v = Inr (n, doc)"
  then obtain a where "dict_get AUX_irr v = Inr a" by (auto simp: build_json_irr_Inr)
  then have "v \<in> fst ` set AUX_irr" by (rule dict_get_Inr_key)
  then show "v \<in> set VERBS_irr" by (simp only: irr_keys)
next
  assume v: "v \<in> set VERBS_irr"
  then have "v \<in> fst ` set FR_MAP_irr" by (simp only: irr_keys)
  from map_of_key_Some [OF this] obtain d f where "map_of FR_MAP_irr v = Some (d, f)" by auto
  from build_json_irr_succeeds [OF v this] show "\<exists>n doc. build_json_irr v = Inr (n, doc)" by blast
qed

text \<open>Claim C14. Any other verb makes \<open>build_json\<close> raise
  \<open>KeyError(v)\<close>: its lookups \<open>AUX[v]\<close>, \<open>PP[v]\<close>, \<open>FR_MAP[v]\<close>
  are all keyed by the verb, so the exception is the same whichever of them
  fails first.\<close>

theorem build_json_irr_key_error: "v \<notin> set VERBS_irr \<Longrightarrow> build_json_irr v = Inl (KeyError v)"
proof -
  assume "v \<notin> set VERBS_irr"
  then have "map_of AUX_irr v = None" using irr_keys(1) by (simp add: map_of_eq_None_iff)
  then show ?thesis by (simp add: build_json_irr_def dict_get_def)
qed

theorem build_json_irr_key_error_witness:
  "''cadere'' \<notin> set VERBS_irr \<and> build_json_irr ''cadere'' = Inl (KeyError ''cadere'')"
proof -
  have h: "''cadere'' \<notin> set VERBS_irr" by (simp add: table_defs)
  show ?thesis using h build_json_irr_key_error [OF h] by simp
qed

text \<open>Claim C15. The imperfect subjunctive appends \<open>te\<close> to a stem ending in
  \<open>ss\<close>, so the \<open>voi\<close> form of every verb ends in \<open>sste\<close>
  (\<open>che voi andasste\<close>, \<open>che voi fosste\<close>), where the comment of the source
  expects \<open>andaste\<close>.\<close>

theorem congiuntivo_imperfetto_voi: "ends_with (congiuntivo_imperfetto_full v ! 4) ''sste''"
proof -
  let ?b = "dict_get_default cong_impf_base v (drop_last 3 v @ ''ss'')"
  have "congiuntivo_imperfetto_full v ! 4 = ''che voi '' @ ?b @ ''te''"
    by (simp add: congiuntivo_imperfetto_full_def congiuntivo_imperfetto_irr_def Let_def che_forms_def
        IT_PRONOUNS_def spaced_def)
  moreover obtain c where "?b = c @ ''ss''" using cong_impf_stem_ss unfolding suffix_def by blast
  ultimately have "congiuntivo_imperfetto_full v ! 4 = (''che voi '' @ c) @ ''sste''" by simp
  then show ?thesis using ends_with_append by metis
qed

end
