(* ===== verification/Deck_Writer.thy ===== *)
theory Deck_Writer
  imports Verb_Record
begin

text \<open>
  The Dataset Writer, the tail of each script: every \<open>build_json\<close> writes
  \<open>decks/fr-it/<name>.json\<close> as soon as its document is built, and after the
  loop the index \<open>decks/fr-it/index.json\<close> is read, merged and written back:
  \<^verbatim>\<open>
    try:
        with open(index_path) as f: idx = json.load(f)
        files = list(dict.fromkeys((idx.get("files") or []) + new_files))
    except FileNotFoundError:
        files = new_files
    json.dump({"files": files}, ...)
  \<close>
  The index file is modelled by what \<open>json.load\<close> makes of it: missing, not
  JSON, or a JSON value. JSON numbers are integers here. Python semantics that
  matter on a hand-edited index are kept: \<open>or\<close> tests truthiness, \<open>+\<close> on a
  non-list raises \<open>TypeError\<close>, \<open>.get\<close> on a non-object raises
  \<open>AttributeError\<close>, a list or object element is unhashable in
  \<open>dict.fromkeys\<close>, \<open>true\<close> and \<open>1\<close> are the same key, and a duplicated
  object key keeps its last value. The deck directory is a map from file name
  to document; a script run is \<open>run_script\<close> over the script's builder and
  verb list, and an exception stops it with the documents written so far.
\<close>

section \<open>JSON values\<close>

datatype json = JNull | JBool bool | JNum int | JStr pystr | JList "json list"
  | JObj "(pystr \<times> json) list"

text \<open>Python truthiness of a decoded value.\<close>

fun truthy :: "json \<Rightarrow> bool" where
  "truthy JNull = False"
| "truthy (JBool b) = b"
| "truthy (JNum n) = (n \<noteq> 0)"
| "truthy (JStr s) = (s \<noteq> [])"
| "truthy (JList xs) = (xs \<noteq> [])"
| "truthy (JObj kvs) = (kvs \<noteq> [])"

fun hashable :: "json \<Rightarrow> bool" where
  "hashable (JList _) = False"
| "hashable (JObj _) = False"
| "hashable _ = True"

text \<open>Dictionary keys are compared by Python equality, under which
  \<open>True == 1\<close> and \<open>False == 0\<close>.\<close>

fun py_norm :: "json \<Rightarrow> json" where
  "py_norm (JBool b) = JNum (if b then 1 else 0)"
| "py_norm j = j"

section \<open>Index merge\<close>

text \<open>\<open>dict.fromkeys(xs)\<close>, read back as its key list: a key already present
  keeps its first position.\<close>

fun fromkeys_loop :: "json list \<Rightarrow> json list \<Rightarrow> py_error + json list" where
  "fromkeys_loop d [] = Inr d"
| "fromkeys_loop d (x # xs) =
     (if \<not> hashable x then Inl TypeError
      else if py_norm x \<in> set (map py_norm d) then fromkeys_loop d xs
      else fromkeys_loop (d @ [x]) xs)"

definition dict_fromkeys :: "json list \<Rightarrow> py_error + json list" where
  "dict_fromkeys xs = fromkeys_loop [] xs"

text \<open>\<open>(idx.get("files") or [])\<close>, as the left operand of \<open>+ new_files\<close>.\<close>

definition files_field :: "json \<Rightarrow> py_error + json list" where
  "files_field idx =
     (case idx of
        JObj kvs \<Rightarrow>
          (let v = (case map_of (rev kvs) ''files'' of None \<Rightarrow> JNull | Some x \<Rightarrow> x) in
           if \<not> truthy v then Inr []
           else (case v of JList xs \<Rightarrow> Inr xs | _ \<Rightarrow> Inl TypeError))
      | _ \<Rightarrow> Inl AttributeError)"

datatype index_file = Missing | Unparsable | Parsed json

definition merge_index :: "index_file \<Rightarrow> pystr list \<Rightarrow> py_error + json list" where
  "merge_index idx new_files =
     (case idx of
        Missing \<Rightarrow> Inr (map JStr new_files)
      | Unparsable \<Rightarrow> Inl JSONDecodeError
      | Parsed j \<Rightarrow> py_bind (files_field j) (\<lambda>old. dict_fromkeys (old @ map JStr new_files)))"

text \<open>\<open>{"files": files}\<close>.\<close>

definition index_doc :: "json list \<Rightarrow> json" where
  "index_doc files = JObj [(''files'', JList files)]"

section \<open>Script run\<close>

record deck =
  docs :: "pystr \<rightharpoonup> verb_doc"
  index :: index_file

text \<open>\<open>new_files = [build_json(v) for v in VERBS]\<close>: each document is written
  before the next verb is built; the first exception ends the loop.\<close>

fun build_all :: "('v \<Rightarrow> py_error + (pystr \<times> verb_doc)) \<Rightarrow> 'v list \<Rightarrow> (pystr \<rightharpoonup> verb_doc) \<Rightarrow>
    (pystr \<rightharpoonup> verb_doc) \<times> (py_error + pystr list)" where
  "build_all b [] ds = (ds, Inr [])"
| "build_all b (v # vs) ds =
     (case b v of
        Inl e \<Rightarrow> (ds, Inl e)
      | Inr (n, d) \<Rightarrow>
          (let (ds', r) = build_all b vs (ds(n \<mapsto> d)) in (ds', map_sum id (Cons n) r)))"

definition run_script :: "('v \<Rightarrow> py_error + (pystr \<times> verb_doc)) \<Rightarrow> 'v list \<Rightarrow> deck \<Rightarrow> deck \<times> py_error option" where
  "run_script b vs s =
     (let (ds', r) = build_all b vs (docs s) in
      case r of
        Inl e \<Rightarrow> (s\<lparr>docs := ds'\<rparr>, Some e)
      | Inr new_files \<Rightarrow>
          (case merge_index (index s) new_files of
             Inl e \<Rightarrow> (s\<lparr>docs := ds'\<rparr>, Some e)
           | Inr files \<Rightarrow> (s\<lparr>docs := ds', index := Parsed (index_doc files)\<rparr>, None)))"

text \<open>The documents a run writes, in order; a later write of a name wins.\<close>

abbreviation write_docs :: "('v \<Rightarrow> pystr) \<Rightarrow> ('v \<Rightarrow> verb_doc) \<Rightarrow> 'v list \<Rightarrow> (pystr \<rightharpoonup> verb_doc) \<Rightarrow> (pystr \<rightharpoonup> verb_doc)" where
  "write_docs nm dc vs ds \<equiv> fold (\<lambda>v m. m(nm v \<mapsto> dc v)) vs ds"

text \<open>A document with empty moods, to run the writer on.\<close>

abbreviation sample_doc :: verb_doc where
  "sample_doc \<equiv> \<lparr>source_lang = ''fr'', target_lang = ''it'', source_lemma = ''x'', target_lemma = ''y'',
     meta_regularity = ([], []), meta_auxiliary = ([], []), pronouns = ([], []),
     Indicativo = [], Condizionale = [], Congiuntivo = [], Imperativo = [], Infinito = [],
     Participio = [], Gerundio = []\<rparr>"

section \<open>Index invariant\<close>

text \<open>What a well-formed deck promises to its reader: the index file lists
  distinct file names, and each of them names a document of the directory.\<close>

definition str_files :: "(pystr \<rightharpoonup> verb_doc) \<Rightarrow> json list \<Rightarrow> bool" where
  "str_files ds fs \<longleftrightarrow> distinct fs \<and> list_all (\<lambda>f. case f of JStr n \<Rightarrow> ds n \<noteq> None | _ \<Rightarrow> False) fs"

definition index_ok :: "deck \<Rightarrow> bool" where
  "index_ok s \<longleftrightarrow>
     (case index s of
        Missing \<Rightarrow> True
      | Unparsable \<Rightarrow> False
      | Parsed j \<Rightarrow> (case files_field j of Inl _ \<Rightarrow> False | Inr fs \<Rightarrow> j = index_doc fs \<and> str_files (docs s) fs))"

text \<open>The file names a reader of the index file finds: \<open>idx.get("files") or []\<close>
  on a decoded index, nothing when there is no readable index.\<close>

definition index_files :: "index_file \<Rightarrow> json list" where
  "index_files i = (case i of Parsed j \<Rightarrow> (case files_field j of Inr fs \<Rightarrow> fs | Inl _ \<Rightarrow> []) | _ \<Rightarrow> [])"

section \<open>Lemmas\<close>

lemma norm_JStr [simp]: "map py_norm (map JStr xs) = map JStr xs"
  by (induction xs) auto
lemma fromkeys_loop_strings:
  "fromkeys_loop (map JStr d) (map JStr xs) = Inr (map JStr (d @ first_occ (filter (\<lambda>x. x \<notin> set d) xs)))"
proof (induction xs arbitrary: d)
  case Nil
  then show ?case by simp
next
  case (Cons x xs)
  show ?case
  proof (cases "x \<in> set d")
    case True
    then show ?thesis using Cons.IH [of d] by auto
  next
    case False
    have e1: "fromkeys_loop (map JStr d) (map JStr (x # xs)) = fromkeys_loop (map JStr (d @ [x])) (map JStr xs)"
      using False by auto
    have e2: "filter (\<lambda>y. y \<notin> set (d @ [x])) xs = filter (\<lambda>y. y \<noteq> x) (filter (\<lambda>y. y \<notin> set d) xs)"
      by (induction xs) auto
    have e3: "filter (\<lambda>y. y \<notin> set d) (x # xs) = x # filter (\<lambda>y. y \<notin> set d) xs"
      using False by simp
    show ?thesis unfolding e1 Cons.IH [of "d @ [x]"] e2 e3 first_occ_Cons by simp
  qed
qed

lemma fromkeys_loop_append:
  "fromkeys_loop acc (xs @ ys) = py_bind (fromkeys_loop acc xs) (\<lambda>r. fromkeys_loop r ys)"
  by (induction acc xs rule: fromkeys_loop.induct) auto

lemma fromkeys_loop_distinct_id:
  "distinct (map py_norm (acc @ d)) \<Longrightarrow> list_all hashable d \<Longrightarrow> fromkeys_loop acc d = Inr (acc @ d)"
  by (induction d arbitrary: acc) auto
lemma fromkeys_loop_known:
  "set (map py_norm xs) \<subseteq> set (map py_norm acc) \<Longrightarrow> list_all hashable xs \<Longrightarrow> fromkeys_loop acc xs = Inr acc"
  by (induction xs) auto

lemma fromkeys_loop_distinct:
  "fromkeys_loop acc xs = Inr r \<Longrightarrow> distinct (map py_norm acc) \<Longrightarrow> distinct (map py_norm r)"
proof (induction acc xs rule: fromkeys_loop.induct)
  case (1 d)
  then show ?case by simp
next
  case (2 d x xs)
  show ?case
  proof (cases "hashable x")
    case False
    with "2.prems" show ?thesis by simp
  next
    case h: True
    show ?thesis
    proof (cases "py_norm x \<in> set (map py_norm d)")
      case True
      with h "2.prems" show ?thesis by (intro "2.IH"(1)) simp_all
    next
      case False
      with h "2.prems" show ?thesis by (intro "2.IH"(2)) simp_all
    qed
  qed
qed
lemma fromkeys_loop_hashable:
  "fromkeys_loop acc xs = Inr r \<Longrightarrow> list_all hashable acc \<Longrightarrow> list_all hashable r \<and> list_all hashable xs"
proof (induction acc xs rule: fromkeys_loop.induct)
  case (1 d)
  then show ?case by simp
next
  case (2 d x xs)
  show ?case
  proof (cases "hashable x")
    case False
    with "2.prems" show ?thesis by simp
  next
    case h: True
    show ?thesis
    proof (cases "py_norm x \<in> set (map py_norm d)")
      case True
      with h "2.prems" "2.IH"(1) show ?thesis by simp
    next
      case False
      with h "2.prems" "2.IH"(2) show ?thesis by simp
    qed
  qed
qed
lemma fromkeys_loop_covers:
  "fromkeys_loop acc xs = Inr r \<Longrightarrow> set (map py_norm acc) \<union> set (map py_norm xs) \<subseteq> set (map py_norm r)"
proof (induction acc xs rule: fromkeys_loop.induct)
  case (1 d)
  then show ?case by simp
next
  case (2 d x xs)
  show ?case
  proof (cases "hashable x")
    case False
    with "2.prems" show ?thesis by simp
  next
    case h: True
    show ?thesis
    proof (cases "py_norm x \<in> set (map py_norm d)")
      case True
      with h "2.prems" "2.IH"(1) show ?thesis by auto
    next
      case False
      with h "2.prems" "2.IH"(2) show ?thesis by auto
    qed
  qed
qed

lemma files_field_index_doc [simp]: "files_field (index_doc fs) = Inr fs"
  by (simp add: files_field_def index_doc_def)

lemma hashable_JStr [simp]: "list_all hashable (map JStr xs)"
  by (induction xs) auto

lemma merge_index_result:
  assumes m: "merge_index idx ns = Inr fs" and d: "idx = Missing \<Longrightarrow> distinct ns"
  shows "distinct (map py_norm fs) \<and> list_all hashable fs \<and> set (map JStr ns) \<subseteq> set (map py_norm fs)"
proof (cases idx)
  case Missing
  with m have "fs = map JStr ns" by (simp add: merge_index_def)
  with d Missing show ?thesis by (simp add: distinct_map inj_on_def)
next
  case Unparsable
  with m show ?thesis by (simp add: merge_index_def)
next
  case (Parsed j)
  with m obtain old where old: "files_field j = Inr old"
    and r: "fromkeys_loop [] (old @ map JStr ns) = Inr fs"
    by (auto simp: merge_index_def py_bind_eq_Inr dict_fromkeys_def)
  show ?thesis
    using fromkeys_loop_distinct [OF r] fromkeys_loop_hashable [OF r] fromkeys_loop_covers [OF r]
    by auto
qed

lemma build_all_ok:
  "list_all (\<lambda>v. b v = Inr (nm v, dc v)) vs \<Longrightarrow> build_all b vs ds = (write_docs nm dc vs ds, Inr (map nm vs))"
  by (induction vs arbitrary: ds) auto
lemma build_all_stops:
  "list_all (\<lambda>v. b v = Inr (nm v, dc v)) vs \<Longrightarrow> b w = Inl e \<Longrightarrow>
   build_all b (vs @ w # ws) ds = (write_docs nm dc vs ds, Inl e)"
  by (induction vs arbitrary: ds) auto
lemma write_docs_map_add: "write_docs nm dc vs ds = ds ++ map_of (rev (map (\<lambda>v. (nm v, dc v)) vs))"
  by (rule fold_upd_map_add)
lemma write_docs_idem: "write_docs nm dc vs (write_docs nm dc vs ds) = write_docs nm dc vs ds"
  by (rule fold_upd_idem)
lemma run_script_ok:
  "list_all (\<lambda>v. b v = Inr (nm v, dc v)) vs \<Longrightarrow> merge_index (index s) (map nm vs) = Inr fs \<Longrightarrow>
   run_script b vs s = (s\<lparr>docs := write_docs nm dc vs (docs s), index := Parsed (index_doc fs)\<rparr>, None)"
  by (simp add: run_script_def build_all_ok)
lemma run_script_None:
  "list_all (\<lambda>v. b v = Inr (nm v, dc v)) vs \<Longrightarrow> run_script b vs s = (s', None) \<Longrightarrow>
   \<exists>fs. merge_index (index s) (map nm vs) = Inr fs \<and>
        s' = s\<lparr>docs := write_docs nm dc vs (docs s), index := Parsed (index_doc fs)\<rparr>"
  by (auto simp: run_script_def build_all_ok split: sum.splits)

lemma py_norm_JStr_eq: "JStr n = py_norm x \<longleftrightarrow> x = JStr n"
  by (cases x) auto

lemma py_norm_JStr_mem: "JStr n \<in> set (map py_norm xs) \<longleftrightarrow> JStr n \<in> set xs"
  by (induction xs) (simp_all add: py_norm_JStr_eq eq_commute [of "JStr n"])

lemma merge_index_reread:
  assumes m: "merge_index idx ns = Inr fs" and d: "idx = Missing \<Longrightarrow> distinct ns"
  shows "merge_index (Parsed (index_doc fs)) (ns @ ms) = fromkeys_loop fs (map JStr ms)"
proof -
  from merge_index_result [OF m d] have
    dist: "distinct (map py_norm fs)" and h: "list_all hashable fs"
    and sub: "set (map JStr ns) \<subseteq> set (map py_norm fs)" by auto
  have "fromkeys_loop [] fs = Inr fs" using fromkeys_loop_distinct_id [of "[]" fs] dist h by simp
  moreover have "fromkeys_loop fs (map JStr ns) = Inr fs"
    using fromkeys_loop_known [of "map JStr ns" fs] sub by simp
  ultimately show ?thesis
    by (simp add: merge_index_def dict_fromkeys_def fromkeys_loop_append)
qed

lemma dom_write_docs: "dom (write_docs nm dc vs ds) = dom ds \<union> nm ` set vs"
  by (simp add: write_docs_map_add dom_map_of_conv_image_fst image_image Un_commute)

lemma write_docs_dom: "ds n \<noteq> None \<Longrightarrow> write_docs nm dc vs ds n \<noteq> None"
  using dom_write_docs [of nm dc vs ds] by blast

lemma write_docs_names: "v \<in> set vs \<Longrightarrow> write_docs nm dc vs ds (nm v) \<noteq> None"
  using dom_write_docs [of nm dc vs ds] by blast

lemma write_docs_cases:
  "write_docs nm dc vs ds n = Some d \<Longrightarrow> ds n = Some d \<or> (\<exists>v\<in>set vs. n = nm v \<and> d = dc v)"
proof -
  let ?M = "map_of (rev (map (\<lambda>v. (nm v, dc v)) vs))"
  assume "write_docs nm dc vs ds n = Some d"
  then have "?M n = Some d \<or> ds n = Some d" by (auto simp: write_docs_map_add map_add_Some_iff)
  moreover have "?M n = Some d \<Longrightarrow> \<exists>v\<in>set vs. n = nm v \<and> d = dc v"
    by (drule map_of_SomeD) auto
  ultimately show ?thesis by blast
qed

lemma build_all_choice:
  "\<forall>v\<in>set vs. \<exists>d. b v = Inr (nm v, d) \<and> P d \<Longrightarrow> \<exists>dc. list_all (\<lambda>v. b v = Inr (nm v, dc v) \<and> P (dc v)) vs"
  by (drule bchoice) (auto simp: list_all_iff)

lemma fromkeys_loop_Inr: "list_all hashable xs \<Longrightarrow> \<exists>r. fromkeys_loop acc xs = Inr r"
  by (induction xs arbitrary: acc) auto

lemma fromkeys_loop_subset: "fromkeys_loop acc xs = Inr r \<Longrightarrow> set r \<subseteq> set acc \<union> set xs"
  by (induction acc xs rule: fromkeys_loop.induct) (fastforce split: if_splits)+

lemma str_files_JStr:
  "list_all (\<lambda>f. case f of JStr n \<Rightarrow> P n | _ \<Rightarrow> False) fs \<Longrightarrow> list_all hashable fs \<and> map py_norm fs = fs"
  by (induction fs) (auto split: json.splits)

lemma str_files_new:
  "distinct (map nm vs) \<Longrightarrow> str_files (write_docs nm dc vs ds) (map JStr (map nm vs))"
  unfolding str_files_def
proof
  assume "distinct (map nm vs)"
  then show "distinct (map JStr (map nm vs))" by (simp add: distinct_map inj_on_def)
  show "list_all (\<lambda>f. case f of JStr n \<Rightarrow> write_docs nm dc vs ds n \<noteq> None | _ \<Rightarrow> False) (map JStr (map nm vs))"
    by (simp add: list_all_iff write_docs_names)
qed

lemma str_files_merged:
  assumes r: "fromkeys_loop [] (fs0 @ map JStr (map nm vs)) = Inr r" and o: "str_files ds fs0"
  shows "str_files (write_docs nm dc vs ds) r \<and> set r = set fs0 \<union> set (map JStr (map nm vs))"
proof -
  let ?new = "map JStr (map nm vs)"
  have js: "list_all (\<lambda>f. case f of JStr n \<Rightarrow> write_docs nm dc vs ds n \<noteq> None | _ \<Rightarrow> False) r"
  proof (unfold list_all_iff, rule ballI)
    fix x assume "x \<in> set r"
    then have "x \<in> set fs0 \<or> x \<in> set ?new" using fromkeys_loop_subset [OF r] by auto
    then show "case x of JStr n \<Rightarrow> write_docs nm dc vs ds n \<noteq> None | _ \<Rightarrow> False"
    proof
      assume "x \<in> set fs0"
      then have "case x of JStr n \<Rightarrow> ds n \<noteq> None | _ \<Rightarrow> False"
        using o by (auto simp: str_files_def list_all_iff)
      then show ?thesis by (cases x) (simp_all add: write_docs_dom)
    next
      assume "x \<in> set ?new"
      then show ?thesis by (auto simp: write_docs_names)
    qed
  qed
  then have nr: "map py_norm r = r" using str_files_JStr by blast
  have "distinct (map py_norm r)" using fromkeys_loop_distinct [OF r] by simp
  with nr js have "str_files (write_docs nm dc vs ds) r" by (simp add: str_files_def)
  moreover have "map py_norm fs0 = fs0" using o str_files_JStr by (auto simp: str_files_def)
  then have "set fs0 \<union> set ?new \<subseteq> set r"
    using fromkeys_loop_covers [OF r] nr by auto
  then have "set r = set fs0 \<union> set ?new" using fromkeys_loop_subset [OF r] by auto
  ultimately show ?thesis ..
qed

lemma run_script_index_ok:
  assumes ok: "list_all (\<lambda>v. b v = Inr (nm v, dc v)) vs" and d: "distinct (map nm vs)" and i: "index_ok s"
  shows "\<exists>fs. run_script b vs s = (s\<lparr>docs := write_docs nm dc vs (docs s), index := Parsed (index_doc fs)\<rparr>, None) \<and>
    str_files (write_docs nm dc vs (docs s)) fs \<and> set fs = set (index_files (index s)) \<union> set (map JStr (map nm vs))"
proof (cases "index s")
  case Missing
  then have "merge_index (index s) (map nm vs) = Inr (map JStr (map nm vs))"
    by (simp add: merge_index_def)
  then show ?thesis using run_script_ok [OF ok] str_files_new [OF d] Missing by (auto simp: index_files_def)
next
  case Unparsable
  with i show ?thesis by (simp add: index_ok_def)
next
  case (Parsed j)
  with i obtain fs0 where f: "files_field j = Inr fs0" and j: "j = index_doc fs0"
    and o: "str_files (docs s) fs0"
    by (auto simp: index_ok_def split: sum.splits)
  have "list_all hashable fs0" using o str_files_JStr by (auto simp: str_files_def)
  then have "list_all hashable (fs0 @ map JStr (map nm vs))"
    using hashable_JStr [of "map nm vs"] by (simp only: list_all_append)
  then obtain r where r: "fromkeys_loop [] (fs0 @ map JStr (map nm vs)) = Inr r"
    using fromkeys_loop_Inr by blast
  have "merge_index (index s) (map nm vs) = Inr r"
    using Parsed f r by (simp add: merge_index_def dict_fromkeys_def)
  moreover have "index_files (index s) = fs0" using Parsed f by (simp add: index_files_def)
  ultimately show ?thesis using run_script_ok [OF ok] str_files_merged [OF r o] by auto
qed

lemma index_ok_written: "str_files ds fs \<Longrightarrow> index_ok (s\<lparr>docs := ds, index := Parsed (index_doc fs)\<rparr>)"
  by (simp add: index_ok_def)

lemma write_docs_at:
  "distinct (map nm vs) \<Longrightarrow> v \<in> set vs \<Longrightarrow> write_docs nm dc vs ds (nm v) = Some (dc v)"
proof -
  assume d: "distinct (map nm vs)" and v: "v \<in> set vs"
  have "map_of (rev (map (\<lambda>v. (nm v, dc v)) vs)) (nm v) = Some (dc v)"
    using d v by (intro map_of_is_SomeI) (simp_all add: rev_map [symmetric] comp_def)
  then show ?thesis by (simp add: write_docs_map_add)
qed

lemma docs_run_script:
  "list_all (\<lambda>v. b v = Inr (nm v, dc v)) vs \<Longrightarrow> docs (fst (run_script b vs s)) = write_docs nm dc vs (docs s)"
  by (simp add: run_script_def build_all_ok split: sum.splits)

lemma run_script_good:
  assumes ok: "list_all (\<lambda>v. b v = Inr (nm v, dc v) \<and> P (dc v)) vs" and d: "distinct (map nm vs)"
    and i: "index_ok s"
  shows "\<exists>fs. run_script b vs s = (s\<lparr>docs := write_docs nm dc vs (docs s), index := Parsed (index_doc fs)\<rparr>, None) \<and>
    index_ok (fst (run_script b vs s)) \<and> set fs = set (index_files (index s)) \<union> set (map JStr (map nm vs)) \<and>
    (\<forall>n d. write_docs nm dc vs (docs s) n = Some d \<longrightarrow> docs s n = Some d \<or> P d)"
proof -
  have ok': "list_all (\<lambda>v. b v = Inr (nm v, dc v)) vs" using ok by (simp add: list_all_iff)
  obtain fs where r: "run_script b vs s = (s\<lparr>docs := write_docs nm dc vs (docs s), index := Parsed (index_doc fs)\<rparr>, None)"
    and f: "str_files (write_docs nm dc vs (docs s)) fs"
    and n: "set fs = set (index_files (index s)) \<union> set (map JStr (map nm vs))"
    using run_script_index_ok [OF ok' d i] by blast
  have "\<forall>n d. write_docs nm dc vs (docs s) n = Some d \<longrightarrow> docs s n = Some d \<or> P d"
    using ok by (auto simp: list_all_iff dest: write_docs_cases)
  then show ?thesis using r f n index_ok_written [OF f] by auto
qed

lemma run_script_rerun:
  assumes ok: "list_all (\<lambda>v. b v = Inr (nm v, dc v)) vs" and d: "distinct (map nm vs)" and i: "index_ok s"
  shows "run_script b vs (fst (run_script b vs s)) = (fst (run_script b vs s), None)"
proof -
  obtain fs where r: "run_script b vs s = (s\<lparr>docs := write_docs nm dc vs (docs s), index := Parsed (index_doc fs)\<rparr>, None)"
    using run_script_index_ok [OF ok d i] by blast
  from run_script_None [OF ok r] obtain fs' where
    m: "merge_index (index s) (map nm vs) = Inr fs'" and
    e: "s\<lparr>docs := write_docs nm dc vs (docs s), index := Parsed (index_doc fs)\<rparr> =
        s\<lparr>docs := write_docs nm dc vs (docs s), index := Parsed (index_doc fs')\<rparr>"
    by blast
  from arg_cong [OF e, of index] have "fs = fs'" by (simp add: index_doc_def)
  with m have m': "merge_index (index s) (map nm vs) = Inr fs" by simp
  have "merge_index (Parsed (index_doc fs)) (map nm vs) = Inr fs"
    using merge_index_reread [OF m', of "[]"] d by simp
  then show ?thesis using r by (simp add: run_script_ok [OF ok] write_docs_idem)
qed

lemma builds_ok: "list_all (\<lambda>v. b v = Inr (nm v, dc v) \<and> P (dc v)) vs \<Longrightarrow> list_all (\<lambda>v. b v = Inr (nm v, dc v)) vs"
  by (simp add: list_all_iff)

lemma docs_run_at:
  assumes ok: "list_all (\<lambda>v. b v = Inr (nm v, dc v)) vs" and d: "distinct (map nm vs)"
    and v: "v \<in> set vs" and b: "b v = Inr (n, doc)"
  shows "docs (fst (run_script b vs s)) n = Some doc"
proof -
  have "b v = Inr (nm v, dc v)" using ok v by (simp add: list_all_iff)
  with b have "n = nm v" "doc = dc v" by simp_all
  then show ?thesis using docs_run_script [OF ok] write_docs_at [OF d v] by simp
qed

lemma merge_index_strings:
  "merge_index (Parsed (index_doc (map JStr xs))) ys = Inr (map JStr (first_occ (xs @ ys)))"
  using fromkeys_loop_strings [of "[]" "xs @ ys"] by (simp add: merge_index_def dict_fromkeys_def)

text \<open>Claim C16. Merging the same file names into the index that a merge wrote
  leaves it unchanged (when the first merge started from a missing index, the
  names must have been distinct: that branch does not deduplicate).\<close>

theorem merge_index_idempotent:
  "merge_index idx ns = Inr fs \<Longrightarrow> (idx = Missing \<Longrightarrow> distinct ns) \<Longrightarrow>
   merge_index (Parsed (index_doc fs)) ns = Inr fs"
  using merge_index_reread [of idx ns fs "[]"] by simp

theorem merge_index_idempotent_witness:
  "merge_index Missing [''a.json'', ''b.json''] = Inr [JStr ''a.json'', JStr ''b.json''] \<and>
   merge_index (Parsed (index_doc [JStr ''a.json'', JStr ''b.json''])) [''a.json'', ''b.json''] =
     Inr [JStr ''a.json'', JStr ''b.json'']"
proof
  show m: "merge_index Missing [''a.json'', ''b.json''] = Inr [JStr ''a.json'', JStr ''b.json'']"
    by (simp add: merge_index_def)
  have d: "Missing = Missing \<Longrightarrow> distinct [''a.json'', ''b.json'']" by simp
  show "merge_index (Parsed (index_doc [JStr ''a.json'', JStr ''b.json''])) [''a.json'', ''b.json''] =
        Inr [JStr ''a.json'', JStr ''b.json'']"
    by (rule merge_index_idempotent [OF m d])
qed

text \<open>Claim C17. A run with one more verb than the run that wrote the index
  appends exactly that verb's file name, when it is new.\<close>

theorem merge_index_new_verb:
  "merge_index idx ns = Inr fs \<Longrightarrow> (idx = Missing \<Longrightarrow> distinct ns) \<Longrightarrow> JStr n \<notin> set (map py_norm fs) \<Longrightarrow>
   merge_index (Parsed (index_doc fs)) (ns @ [n]) = Inr (fs @ [JStr n])"
  using merge_index_reread [of idx ns fs "[n]"] by simp

theorem merge_index_new_verb_witness:
  "merge_index (Parsed (index_doc [JStr ''a.json''])) [''a.json'', ''c.json''] = Inr [JStr ''a.json'', JStr ''c.json'']"
proof -
  have m: "merge_index Missing [''a.json''] = Inr [JStr ''a.json'']" by (simp add: merge_index_def)
  have d: "Missing = Missing \<Longrightarrow> distinct [''a.json'']" by simp
  have n: "JStr ''c.json'' \<notin> set (map py_norm [JStr ''a.json''])" by simp
  show ?thesis using merge_index_new_verb [OF m d n] by simp
qed

text \<open>Claim C18. A script run that succeeded, run again on the deck it left,
  rewrites the same documents and leaves the index as it was.\<close>

theorem run_script_idempotent:
  assumes ok: "list_all (\<lambda>v. b v = Inr (nm v, dc v)) vs" and run: "run_script b vs s = (s', None)"
    and d: "index s = Missing \<Longrightarrow> distinct (map nm vs)"
  shows "run_script b vs s' = (s', None)"
proof -
  from run_script_None [OF ok run] obtain fs where
    m: "merge_index (index s) (map nm vs) = Inr fs" and
    s': "s' = s\<lparr>docs := write_docs nm dc vs (docs s), index := Parsed (index_doc fs)\<rparr>" by blast
  have "merge_index (index s') (map nm vs) = Inr fs"
    using merge_index_reread [OF m d, of "[]"] s' by simp
  then show ?thesis using s' by (simp add: run_script_ok [OF ok] write_docs_idem)
qed

theorem run_script_idempotent_witness:
  "run_script (\<lambda>v. Inr (v @ ''.json'', sample_doc)) [''a''] \<lparr>docs = [''a.json'' \<mapsto> sample_doc], index = Parsed (index_doc [JStr ''a.json''])\<rparr> =
   (\<lparr>docs = [''a.json'' \<mapsto> sample_doc], index = Parsed (index_doc [JStr ''a.json''])\<rparr>, None)"
proof -
  have run: "run_script (\<lambda>v. Inr (v @ ''.json'', sample_doc)) [''a''] \<lparr>docs = Map.empty, index = Missing\<rparr> =
      (\<lparr>docs = [''a.json'' \<mapsto> sample_doc], index = Parsed (index_doc [JStr ''a.json''])\<rparr>, None)"
    by (simp add: run_script_def merge_index_def)
  show ?thesis
    using run_script_idempotent [where b = "\<lambda>v. Inr (v @ ''.json'', sample_doc)" and nm = "\<lambda>v. v @ ''.json''"
        and dc = "\<lambda>v. sample_doc" and vs = "[''a'']" and s = "\<lparr>docs = Map.empty, index = Missing\<rparr>", OF _ run]
    by simp
qed

text \<open>Claim C19. The specification's test of an added verb, for a whole run:
  after a successful run over a verb list, a run over the same list with one
  more verb, whose file is not yet in the index, rewrites the earlier documents
  unchanged, adds the new verb's document, and appends exactly its identifier
  to the index, after the others in their order.\<close>

theorem run_script_added_verb:
  assumes ok: "list_all (\<lambda>v. b v = Inr (nm v, dc v)) (vs @ [w])" and run: "run_script b vs s = (s', None)"
    and d: "index s = Missing \<Longrightarrow> distinct (map nm vs)" and fresh: "JStr (nm w) \<notin> set (index_files (index s'))"
  shows "run_script b (vs @ [w]) s' =
    (s'\<lparr>docs := (docs s')(nm w \<mapsto> dc w), index := Parsed (index_doc (index_files (index s') @ [JStr (nm w)]))\<rparr>, None)"
proof -
  have okv: "list_all (\<lambda>v. b v = Inr (nm v, dc v)) vs" using ok by simp
  from run_script_None [OF okv run] obtain fs where
    m: "merge_index (index s) (map nm vs) = Inr fs" and
    s': "s' = s\<lparr>docs := write_docs nm dc vs (docs s), index := Parsed (index_doc fs)\<rparr>" by blast
  have f: "index_files (index s') = fs" using s' by (simp add: index_files_def)
  have "merge_index (index s') (map nm (vs @ [w])) = fromkeys_loop fs (map JStr [nm w])"
    using merge_index_reread [OF m d, of "[nm w]"] s' by simp
  also have "\<dots> = Inr (fs @ [JStr (nm w)])" using fresh f py_norm_JStr_mem [of "nm w" fs] by simp
  finally have "merge_index (index s') (map nm (vs @ [w])) = Inr (index_files (index s') @ [JStr (nm w)])"
    using f by simp
  moreover have "write_docs nm dc (vs @ [w]) (docs s') = (docs s')(nm w \<mapsto> dc w)"
    using s' by (simp add: write_docs_idem)
  ultimately show ?thesis by (simp add: run_script_ok [OF ok])
qed

theorem run_script_added_verb_witness:
  "run_script (\<lambda>v. Inr (v @ ''.json'', sample_doc)) [''a'', ''b''] \<lparr>docs = [''a.json'' \<mapsto> sample_doc], index = Parsed (index_doc [JStr ''a.json''])\<rparr> =
   (\<lparr>docs = [''a.json'' \<mapsto> sample_doc, ''b.json'' \<mapsto> sample_doc], index = Parsed (index_doc [JStr ''a.json'', JStr ''b.json''])\<rparr>, None)"
proof -
  let ?b = "\<lambda>v. Inr (v @ ''.json'', sample_doc) :: py_error + (pystr \<times> verb_doc)"
  let ?s = "\<lparr>docs = Map.empty, index = Missing\<rparr>"
  let ?s' = "\<lparr>docs = [''a.json'' \<mapsto> sample_doc], index = Parsed (index_doc [JStr ''a.json''])\<rparr>"
  have run: "run_script ?b [''a''] ?s = (?s', None)"
    by (simp add: run_script_def merge_index_def)
  have ok: "list_all (\<lambda>v. ?b v = Inr (v @ ''.json'', sample_doc)) ([''a''] @ [''b''])" by simp
  have d: "index ?s = Missing \<Longrightarrow> distinct (map (\<lambda>v. v @ ''.json'') [''a''])" by simp
  have fresh: "JStr (''b'' @ ''.json'') \<notin> set (index_files (index ?s'))" by (simp add: index_files_def)
  have "run_script ?b ([''a''] @ [''b'']) ?s' =
      (?s'\<lparr>docs := (docs ?s')(''b'' @ ''.json'' \<mapsto> sample_doc),
            index := Parsed (index_doc (index_files (index ?s') @ [JStr (''b'' @ ''.json'')]))\<rparr>, None)"
    by (rule run_script_added_verb [where b = ?b and nm = "\<lambda>v. v @ ''.json''" and dc = "\<lambda>v. sample_doc"
        and vs = "[''a'']" and w = "''b''" and s = ?s and s' = ?s', OF ok run d fresh])
  then show ?thesis by (simp add: index_files_def)
qed

text \<open>Claim C20. The run's error paths. An exception while building a verb
  ends the run: the documents of the verbs before it stay written, the index is
  not touched. An index file that is not JSON makes the run fail after all
  documents are written, with the index left as it was.\<close>

theorem run_script_errors:
  "list_all (\<lambda>v. b v = Inr (nm v, dc v)) vs \<Longrightarrow>
   (b w = Inl e \<longrightarrow> run_script b (vs @ w # ws) s = (s\<lparr>docs := write_docs nm dc vs (docs s)\<rparr>, Some e)) \<and>
   (index s = Unparsable \<longrightarrow> run_script b vs s = (s\<lparr>docs := write_docs nm dc vs (docs s)\<rparr>, Some JSONDecodeError))"
  by (simp add: run_script_def build_all_stops build_all_ok merge_index_def)

theorem run_script_errors_witness:
  "run_script (\<lambda>v. if v = ''b'' then Inl (KeyError ''b'') else Inr (v @ ''.json'', sample_doc)) [''a'', ''b'', ''c'']
     \<lparr>docs = Map.empty, index = Unparsable\<rparr> =
   (\<lparr>docs = [''a.json'' \<mapsto> sample_doc], index = Unparsable\<rparr>, Some (KeyError ''b'')) \<and>
   run_script (\<lambda>v. if v = ''b'' then Inl (KeyError ''b'') else Inr (v @ ''.json'', sample_doc)) [''a'']
     \<lparr>docs = Map.empty, index = Unparsable\<rparr> =
   (\<lparr>docs = [''a.json'' \<mapsto> sample_doc], index = Unparsable\<rparr>, Some JSONDecodeError)"
  using run_script_errors [where b = "\<lambda>v. if v = ''b'' then Inl (KeyError ''b'') else Inr (v @ ''.json'', sample_doc)"
      and nm = "\<lambda>v. v @ ''.json''" and dc = "\<lambda>v. sample_doc" and vs = "[''a'']" and w = "''b''"
      and e = "KeyError ''b''" and ws = "[''c'']" and s = "\<lparr>docs = Map.empty, index = Unparsable\<rparr>"]
  by simp

end
