(* ===== verification/Json.thy ===== *)
theory Json
  imports Deck_Writer
begin

text \<open>
  The text of \<^verbatim>\<open>decks/fr-it/index.json\<close>: what
  \<^verbatim>\<open>json.dump({"files": files}, f, ensure_ascii=False, indent=2)\<close> writes at
  the end of every script, and what \<^verbatim>\<open>json.load(f)\<close> makes of the file at
  the start of the next merge. \<open>json_dump\<close> follows the encoder of Python's
  \<open>json\<close> module with \<open>indent=2\<close>: items on their own lines, \<open>", "\<close>
  replaced by \<open>","\<close> plus a new line, \<open>": "\<close> between key and value,
  \<open>[]\<close> and \<open>{}\<close> for empty containers, and with \<open>ensure_ascii=False\<close> only
  the quote, the backslash and the control characters escaped.
  \<open>parse_value\<close> follows its decoder: a recursive descent over the text that
  skips the four JSON white-space characters, rejects control characters inside
  strings, trailing commas and extra data. The parser carries fuel; the
  lemmas say how much is enough, so \<open>json_load\<close> never runs out.

  The model departs from Python where the value has no counterpart in
  \<open>json\<close>: a number with a fraction or an exponent, \<open>NaN\<close> and
  \<open>Infinity\<close> (floats in Python) and a \<open>\u\<close> escape for a code point the
  single-byte encoding has no character for (the C1 controls U+0080-U+009F, and
  everything above U+00FF but the 27 characters of \<open>cp1252_high\<close>) are
  decoding errors here.
\<close>

section \<open>Printing\<close>

text \<open>Backslash and double quote.\<close>

abbreviation bslash :: char where "bslash \<equiv> CHR 0x5C"
abbreviation dquote :: char where "dquote \<equiv> CHR 0x22"

definition hex_digit :: "nat \<Rightarrow> char" where
  "hex_digit d = ''0123456789abcdef'' ! d"

text \<open>\<open>ESCAPE_DCT\<close> of the encoder: the two-character escapes, and
  \<open>\u00xx\<close> (lower-case hexadecimal) for the other control characters.\<close>

definition json_escape_char :: "char \<Rightarrow> pystr" where
  "json_escape_char c =
     (if c = bslash then [bslash, bslash]
      else if c = dquote then [bslash, dquote]
      else if c = CHR 0x08 then [bslash, CHR ''b'']
      else if c = CHR 0x0C then [bslash, CHR ''f'']
      else if c = CHR 0x0A then [bslash, CHR ''n'']
      else if c = CHR 0x0D then [bslash, CHR ''r'']
      else if c = CHR 0x09 then [bslash, CHR ''t'']
      else if of_char c < (32::nat)
      then [bslash, CHR ''u'', CHR ''0'', CHR ''0'', hex_digit (of_char c div 16), hex_digit (of_char c mod 16)]
      else [c])"

definition json_str :: "pystr \<Rightarrow> pystr" where
  "json_str s = dquote # concat (map json_escape_char s) @ [dquote]"

definition digit_char :: "nat \<Rightarrow> char" where
  "digit_char d = ''0123456789'' ! d"

fun nat_str :: "nat \<Rightarrow> pystr" where
  "nat_str n = (if n < 10 then [digit_char n] else nat_str (n div 10) @ [digit_char (n mod 10)])"

definition int_str :: "int \<Rightarrow> pystr" where
  "int_str i = (if i < 0 then CHR ''-'' # nat_str (nat (- i)) else nat_str (nat i))"

text \<open>\<open>sep.join(items)\<close>.\<close>

fun join :: "pystr \<Rightarrow> pystr list \<Rightarrow> pystr" where
  "join sep [] = []"
| "join sep [x] = x"
| "join sep (x # y # xs) = x @ sep @ join sep (y # xs)"

text \<open>A new line followed by the indentation of a nesting level (two spaces
  per level).\<close>

definition nl_indent :: "nat \<Rightarrow> pystr" where
  "nl_indent lvl = CHR 0x0A # replicate (2 * lvl) (CHR '' '')"

fun json_dump :: "nat \<Rightarrow> json \<Rightarrow> pystr" where
  "json_dump l JNull = ''null''"
| "json_dump l (JBool b) = (if b then ''true'' else ''false'')"
| "json_dump l (JNum n) = int_str n"
| "json_dump l (JStr s) = json_str s"
| "json_dump l (JList vs) =
     (if vs = [] then ''[]''
      else CHR ''['' # nl_indent (Suc l) @
           join (CHR '','' # nl_indent (Suc l)) (map (json_dump (Suc l)) vs) @ nl_indent l @ '']'')"
| "json_dump l (JObj kvs) =
     (if kvs = [] then ''{}''
      else CHR ''{'' # nl_indent (Suc l) @
           join (CHR '','' # nl_indent (Suc l)) (map (\<lambda>(k, v). json_str k @ '': '' @ json_dump (Suc l) v) kvs) @
           nl_indent l @ ''}'')"

section \<open>Parsing\<close>

definition is_ws :: "char \<Rightarrow> bool" where
  "is_ws c \<longleftrightarrow> c = CHR '' '' \<or> c = CHR 0x09 \<or> c = CHR 0x0A \<or> c = CHR 0x0D"

definition skip_ws :: "pystr \<Rightarrow> pystr" where
  "skip_ws s = dropWhile is_ws s"

definition digit_val :: "char \<Rightarrow> nat option" where
  "digit_val c = map_of (zip ''0123456789'' [0..<10]) c"

definition hex_val :: "char \<Rightarrow> nat option" where
  "hex_val c = map_of (zip ''0123456789abcdef'' [0..<16] @ zip ''ABCDEF'' [10..<16]) c"

definition is_digit :: "char \<Rightarrow> bool" where
  "is_digit c \<longleftrightarrow> digit_val c \<noteq> None"

definition digits_val :: "pystr \<Rightarrow> nat" where
  "digits_val ds = foldl (\<lambda>a c. 10 * a + the (digit_val c)) 0 ds"

text \<open>The characters of the single-byte encoding in the block 0x80-0x9F, by
  Unicode code point (Python's \<open>cp1252\<close> codec): the euro sign, the
  typographic quotes and dashes, and the other 23. The code points U+0080 to
  U+009F themselves, and the five unassigned bytes, have no character of the
  encoding.\<close>

definition cp1252_high :: "(nat \<times> nat) list" where
  "cp1252_high = [
    (0x20AC, 0x80), (0x201A, 0x82), (0x0192, 0x83), (0x201E, 0x84), (0x2026, 0x85),
    (0x2020, 0x86), (0x2021, 0x87), (0x02C6, 0x88), (0x2030, 0x89), (0x0160, 0x8A),
    (0x2039, 0x8B), (0x0152, 0x8C), (0x017D, 0x8E), (0x2018, 0x91), (0x2019, 0x92),
    (0x201C, 0x93), (0x201D, 0x94), (0x2022, 0x95), (0x2013, 0x96), (0x2014, 0x97),
    (0x02DC, 0x98), (0x2122, 0x99), (0x0161, 0x9A), (0x203A, 0x9B), (0x0153, 0x9C),
    (0x017E, 0x9E), (0x0178, 0x9F)]"

text \<open>An escape sequence after its backslash: the character it stands for
  and the rest of the input. \<open>\uXXXX\<close> takes four hexadecimal digits of
  either case; the code point is read back as the character of the encoding
  that stands for it, and a code point the encoding has no character for is a
  decoding error in the model.\<close>

definition escape_char :: "pystr \<Rightarrow> (char \<times> pystr) option" where
  "escape_char s =
     (case s of
        [] \<Rightarrow> None
      | e # cs \<Rightarrow>
          (if e = dquote then Some (dquote, cs)
           else if e = bslash then Some (bslash, cs)
           else if e = CHR ''/'' then Some (CHR ''/'', cs)
           else if e = CHR ''b'' then Some (CHR 0x08, cs)
           else if e = CHR ''f'' then Some (CHR 0x0C, cs)
           else if e = CHR ''n'' then Some (CHR 0x0A, cs)
           else if e = CHR ''r'' then Some (CHR 0x0D, cs)
           else if e = CHR ''t'' then Some (CHR 0x09, cs)
           else if e = CHR ''u'' \<and> length cs \<ge> 4 then
             (case (hex_val (cs ! 0), hex_val (cs ! 1), hex_val (cs ! 2), hex_val (cs ! 3)) of
                (Some a, Some b, Some c, Some d) \<Rightarrow>
                  (let n = 4096 * a + 256 * b + 16 * c + d in
                   if n < 128 \<or> (160 \<le> n \<and> n < 256) then Some (char_of n, drop 4 cs)
                   else case map_of cp1252_high n of
                     Some byte \<Rightarrow> Some (char_of byte, drop 4 cs)
                   | None \<Rightarrow> None)
              | _ \<Rightarrow> None)
           else None))"

text \<open>The body of a string literal after its opening quote, up to the closing
  quote: the decoded text and the rest of the input.\<close>

function lex_string :: "pystr \<Rightarrow> py_error + (pystr \<times> pystr)" where
  "lex_string [] = Inl JSONDecodeError"
| "lex_string (c # cs) =
     (if c = dquote then Inr ([], cs)
      else if c = bslash then
        (case escape_char cs of
           None \<Rightarrow> Inl JSONDecodeError
         | Some (x, rest) \<Rightarrow> map_sum id (\<lambda>(t, r). (x # t, r)) (lex_string rest))
      else if of_char c < (32::nat) then Inl JSONDecodeError
      else map_sum id (\<lambda>(t, r). (c # t, r)) (lex_string cs))"
  by pat_completeness auto
termination
  by (relation "measure length") (auto simp: escape_char_def Let_def split: list.splits if_splits option.splits)

text \<open>\<open>NUMBER_RE\<close>: an optional minus, then \<open>0\<close> or a non-zero digit and
  more digits. A fraction or an exponent after it would make a float.\<close>

definition lex_nat :: "pystr \<Rightarrow> (nat \<times> pystr) option" where
  "lex_nat s =
     (case s of
        [] \<Rightarrow> None
      | d # r \<Rightarrow>
          (if d = CHR ''0'' then Some (0, r)
           else if is_digit d then Some (digits_val (d # takeWhile is_digit r), dropWhile is_digit r)
           else None))"

definition float_tail :: "pystr \<Rightarrow> bool" where
  "float_tail r \<longleftrightarrow>
     (case r of
        c # d # s \<Rightarrow>
          (c = CHR ''.'' \<and> is_digit d) \<or>
          ((c = CHR ''e'' \<or> c = CHR ''E'') \<and>
             (is_digit d \<or> ((d = CHR ''+'' \<or> d = CHR ''-'') \<and> s \<noteq> [] \<and> is_digit (hd s))))
      | _ \<Rightarrow> False)"

definition lex_number :: "pystr \<Rightarrow> py_error + (int \<times> pystr)" where
  "lex_number s =
     (let (neg, t) = (if s \<noteq> [] \<and> hd s = CHR ''-'' then (True, tl s) else (False, s)) in
      case lex_nat t of
        None \<Rightarrow> Inl JSONDecodeError
      | Some (n, r) \<Rightarrow> if float_tail r then Inl JSONDecodeError
                       else Inr (if neg then - int n else int n, r))"

text \<open>The decoder's recursive descent. \<open>parse_value\<close> reads one value after
  white space; \<open>parse_array\<close> reads the elements of a non-empty array, its
  argument the text after \<open>[\<close>; \<open>parse_object\<close> the members of a non-empty
  object, its argument the text at the opening quote of a key. Each call spends
  one unit of fuel; running out is \<open>None\<close>.\<close>

fun parse_value :: "nat \<Rightarrow> pystr \<Rightarrow> (py_error + (json \<times> pystr)) option"
and parse_array :: "nat \<Rightarrow> json list \<Rightarrow> pystr \<Rightarrow> (py_error + (json \<times> pystr)) option"
and parse_object :: "nat \<Rightarrow> (pystr \<times> json) list \<Rightarrow> pystr \<Rightarrow> (py_error + (json \<times> pystr)) option" where
  "parse_value 0 s = None"
| "parse_value (Suc f) s =
     (case skip_ws s of
        [] \<Rightarrow> Some (Inl JSONDecodeError)
      | c # cs \<Rightarrow>
          (if c = CHR ''['' then
             (let r = skip_ws cs in
              if r \<noteq> [] \<and> hd r = CHR '']'' then Some (Inr (JList [], tl r)) else parse_array f [] cs)
           else if c = CHR ''{'' then
             (let r = skip_ws cs in
              if r \<noteq> [] \<and> hd r = CHR ''}'' then Some (Inr (JObj [], tl r)) else parse_object f [] r)
           else if c = dquote then Some (map_sum id (\<lambda>(t, r). (JStr t, r)) (lex_string cs))
           else if take 4 (c # cs) = ''null'' then Some (Inr (JNull, drop 4 (c # cs)))
           else if take 4 (c # cs) = ''true'' then Some (Inr (JBool True, drop 4 (c # cs)))
           else if take 5 (c # cs) = ''false'' then Some (Inr (JBool False, drop 5 (c # cs)))
           else Some (map_sum id (\<lambda>(n, r). (JNum n, r)) (lex_number (c # cs)))))"
| "parse_array 0 acc s = None"
| "parse_array (Suc f) acc s =
     (case parse_value f s of
        None \<Rightarrow> None
      | Some (Inl e) \<Rightarrow> Some (Inl e)
      | Some (Inr (v, r)) \<Rightarrow>
          (let r' = skip_ws r in
           if r' \<noteq> [] \<and> hd r' = CHR '','' then parse_array f (acc @ [v]) (tl r')
           else if r' \<noteq> [] \<and> hd r' = CHR '']'' then Some (Inr (JList (acc @ [v]), tl r'))
           else Some (Inl JSONDecodeError)))"
| "parse_object 0 acc s = None"
| "parse_object (Suc f) acc s =
     (if s = [] \<or> hd s \<noteq> dquote then Some (Inl JSONDecodeError)
      else case lex_string (tl s) of
        Inl e \<Rightarrow> Some (Inl e)
      | Inr (k, r) \<Rightarrow>
          (let r1 = skip_ws r in
           if r1 = [] \<or> hd r1 \<noteq> CHR '':'' then Some (Inl JSONDecodeError)
           else case parse_value f (tl r1) of
             None \<Rightarrow> None
           | Some (Inl e) \<Rightarrow> Some (Inl e)
           | Some (Inr (v, r2)) \<Rightarrow>
               (let r3 = skip_ws r2 in
                if r3 \<noteq> [] \<and> hd r3 = CHR '','' then parse_object f (acc @ [(k, v)]) (skip_ws (tl r3))
                else if r3 \<noteq> [] \<and> hd r3 = CHR ''}'' then Some (Inr (JObj (acc @ [(k, v)]), tl r3))
                else Some (Inl JSONDecodeError))))"

text \<open>\<open>json.loads\<close>: one value, white space around it, nothing else. The fuel
  is enough for every input (\<open>parse_enough\<close>, \<open>parse_mono\<close>).\<close>

definition json_load :: "pystr \<Rightarrow> py_error + json" where
  "json_load s =
     (case parse_value (2 * length s + 2) s of
        None \<Rightarrow> Inl JSONDecodeError
      | Some (Inl e) \<Rightarrow> Inl e
      | Some (Inr (v, r)) \<Rightarrow> if skip_ws r = [] then Inr v else Inl JSONDecodeError)"

text \<open>The index file as the merge sees it: absent (\<open>FileNotFoundError\<close>),
  not decodable, or a decoded value.\<close>

definition read_index :: "pystr option \<Rightarrow> index_file" where
  "read_index txt =
     (case txt of None \<Rightarrow> Missing | Some s \<Rightarrow> (case json_load s of Inl _ \<Rightarrow> Unparsable | Inr j \<Rightarrow> Parsed j))"

definition write_index :: "json list \<Rightarrow> pystr" where
  "write_index files = json_dump 0 (index_doc files)"

section \<open>The verb documents as JSON\<close>

text \<open>The dictionary \<open>data\<close> of every \<open>build_json\<close>, as the JSON value
  \<open>json.dump(data, f, ensure_ascii=False, indent=2)\<close> writes: the keys in
  the order of the dictionary literal, \<open>{"fr": _, "it": _}\<close> for the pairs of
  \<open>meta\<close> and \<open>pronouns\<close>, one object per mood from tense to list of forms.\<close>

definition strs_json :: "pystr list \<Rightarrow> json" where
  "strs_json xs = JList (map JStr xs)"

definition pair_json :: "('a \<Rightarrow> json) \<Rightarrow> 'a \<times> 'a \<Rightarrow> json" where
  "pair_json enc p = JObj [(''fr'', enc (fst p)), (''it'', enc (snd p))]"

definition mood_json :: "(pystr \<times> pystr list) list \<Rightarrow> json" where
  "mood_json m = JObj (map (\<lambda>(t, fs). (t, strs_json fs)) m)"

definition doc_json :: "verb_doc \<Rightarrow> json" where
  "doc_json d = JObj
     [(''source_lang'', JStr (source_lang d)), (''target_lang'', JStr (target_lang d)),
      (''source_lemma'', JStr (source_lemma d)), (''target_lemma'', JStr (target_lemma d)),
      (''meta'', JObj [(''regularity'', pair_json JStr (meta_regularity d)),
                       (''auxiliary'', pair_json JStr (meta_auxiliary d))]),
      (''pronouns'', pair_json strs_json (pronouns d)),
      (''Indicativo'', mood_json (Indicativo d)), (''Condizionale'', mood_json (Condizionale d)),
      (''Congiuntivo'', mood_json (Congiuntivo d)), (''Imperativo'', mood_json (Imperativo d)),
      (''Infinito'', mood_json (Infinito d)), (''Participio'', mood_json (Participio d)),
      (''Gerundio'', mood_json (Gerundio d))]"

text \<open>The text of \<open>decks/fr-it/<name>.json\<close>.\<close>

definition doc_text :: "verb_doc \<Rightarrow> pystr" where
  "doc_text d = json_dump 0 (doc_json d)"

text \<open>Reading a document back from its JSON value, as a client of the deck
  does: \<open>obj[key]\<close> for the fixed keys, every mood read in order.\<close>

definition read_str :: "json \<Rightarrow> pystr option" where
  "read_str j = (case j of JStr s \<Rightarrow> Some s | _ \<Rightarrow> None)"

definition read_strs :: "json \<Rightarrow> pystr list option" where
  "read_strs j = (case j of JList xs \<Rightarrow> those (map read_str xs) | _ \<Rightarrow> None)"

definition get_key :: "json \<Rightarrow> pystr \<Rightarrow> json option" where
  "get_key j k = (case j of JObj kvs \<Rightarrow> map_of kvs k | _ \<Rightarrow> None)"

definition get_field :: "json \<Rightarrow> pystr \<Rightarrow> (json \<Rightarrow> 'a option) \<Rightarrow> 'a option" where
  "get_field j k rd = Option.bind (get_key j k) rd"

definition read_pair :: "(json \<Rightarrow> 'a option) \<Rightarrow> json \<Rightarrow> ('a \<times> 'a) option" where
  "read_pair rd j =
     (case (Option.bind (get_key j ''fr'') rd, Option.bind (get_key j ''it'') rd) of
        (Some a, Some b) \<Rightarrow> Some (a, b)
      | _ \<Rightarrow> None)"

definition read_mood :: "json \<Rightarrow> (pystr \<times> pystr list) list option" where
  "read_mood j = (case j of JObj kvs \<Rightarrow> those (map (\<lambda>(t, v). map_option (Pair t) (read_strs v)) kvs) | _ \<Rightarrow> None)"

definition read_doc :: "json \<Rightarrow> verb_doc option" where
  "read_doc j =
     (let meta = \<lambda>k. get_field j ''meta'' (\<lambda>m. get_field m k (read_pair read_str)) in
      case (get_field j ''source_lang'' read_str, get_field j ''target_lang'' read_str, get_field j ''source_lemma'' read_str,
            get_field j ''target_lemma'' read_str, meta ''regularity'', meta ''auxiliary'',
            get_field j ''pronouns'' (read_pair read_strs)) of
        (Some slang, Some tlang, Some slem, Some tlem, Some reg, Some aux, Some pr) \<Rightarrow>
          (case (get_field j ''Indicativo'' read_mood, get_field j ''Condizionale'' read_mood, get_field j ''Congiuntivo'' read_mood,
                 get_field j ''Imperativo'' read_mood, get_field j ''Infinito'' read_mood, get_field j ''Participio'' read_mood,
                 get_field j ''Gerundio'' read_mood) of
             (Some m_ind, Some m_cnd, Some m_cng, Some m_imp, Some m_inf, Some m_par, Some m_ger) \<Rightarrow>
               Some \<lparr>source_lang = slang, target_lang = tlang, source_lemma = slem, target_lemma = tlem,
                     meta_regularity = reg, meta_auxiliary = aux, pronouns = pr,
                     Indicativo = m_ind, Condizionale = m_cnd, Congiuntivo = m_cng, Imperativo = m_imp,
                     Infinito = m_inf, Participio = m_par, Gerundio = m_ger\<rparr>
           | _ \<Rightarrow> None)
      | _ \<Rightarrow> None)"

text \<open>What may follow a value in the encoder's output: nothing, white space, a
  comma or a closing bracket.\<close>

definition delim :: "pystr \<Rightarrow> bool" where
  "delim r \<longleftrightarrow> r = [] \<or> is_ws (hd r) \<or> hd r = CHR '','' \<or> hd r = CHR '']'' \<or> hd r = CHR ''}''"

section \<open>Lemmas\<close>

subsection \<open>White space\<close>

lemma skip_ws_ws: "list_all is_ws w \<Longrightarrow> skip_ws (w @ s) = skip_ws s"
  by (induction w) (simp_all add: skip_ws_def)

lemma skip_ws_Cons: "\<not> is_ws c \<Longrightarrow> skip_ws (c # s) = c # s"
  by (simp add: skip_ws_def)

lemma skip_ws_Nil [simp]: "skip_ws [] = []"
  by (simp add: skip_ws_def)

lemma length_skip_ws: "length (skip_ws s) \<le> length s"
  by (simp add: skip_ws_def length_dropWhile_le)

lemma skip_ws_suffix: "\<exists>w. s = w @ skip_ws s"
  by (metis skip_ws_def takeWhile_dropWhile_id)

subsection \<open>Every parser consumes input\<close>

lemma map_sum_prepend:
  "map_sum id (\<lambda>(t, r). (x # t, r)) q = Inr p \<longleftrightarrow> (\<exists>t r. q = Inr (t, r) \<and> p = (x # t, r))"
  by (cases q) auto

lemma escape_char_len: "escape_char s = Some (x, r) \<Longrightarrow> length r < length s"
  by (auto simp: escape_char_def Let_def split: list.splits if_splits option.splits)

lemma lex_string_len: "lex_string s = Inr (t, r) \<Longrightarrow> length r < length s"
proof (induction s arbitrary: t rule: lex_string.induct)
  case (2 c cs)
  then show ?case
    by (auto simp: map_sum_prepend split: if_splits option.splits dest!: escape_char_len)
      fastforce+
qed simp

lemma lex_nat_len: "lex_nat s = Some (n, r) \<Longrightarrow> length r < length s"
  by (auto simp: lex_nat_def length_dropWhile_le le_imp_less_Suc split: list.splits if_splits)

lemma lex_number_len: "lex_number s = Inr (n, r) \<Longrightarrow> length r < length s"
  by (cases s) (auto simp: lex_number_def split: if_splits option.splits dest!: lex_nat_len)

lemma map_sum_id_Inr: "map_sum id g q = Inr p \<longleftrightarrow> (\<exists>x. q = Inr x \<and> g x = p)"
  by (cases q) auto

lemma length_tl_skip_ws: "skip_ws s \<noteq> [] \<Longrightarrow> length (tl (skip_ws s)) < length s"
  using length_skip_ws [of s] by (cases "skip_ws s") auto

lemma parse_len:
  "parse_value f s = Some (Inr (v, r)) \<Longrightarrow> length r < length s"
  "parse_array f acc s = Some (Inr (v, r)) \<Longrightarrow> length r < length s"
  "parse_object f acc' s = Some (Inr (v, r)) \<Longrightarrow> length r < length s"
proof (induction f s and f acc s and f acc' s arbitrary: v r and v r and v r
    rule: parse_value_parse_array_parse_object.induct)
  case (2 f s)
  show ?case
  proof (cases "skip_ws s")
    case Nil
    with "2.prems" show ?thesis by simp
  next
    case (Cons c cs)
    have lcs: "length cs < length s" using length_tl_skip_ws [of s] Cons by simp
    have lr: "length (skip_ws cs) \<le> length cs" by (rule length_skip_ws)
    have ltr: "skip_ws cs \<noteq> [] \<Longrightarrow> length (tl (skip_ws cs)) < length cs" by (rule length_tl_skip_ws)
    consider (arr) "c = CHR ''[''" | (obj) "c \<noteq> CHR ''[''" "c = CHR ''{''"
      | (other) "c \<noteq> CHR ''[''" "c \<noteq> CHR ''{''" by blast
    then show ?thesis
    proof cases
      case arr
      show ?thesis
      proof (cases "skip_ws cs \<noteq> [] \<and> hd (skip_ws cs) = CHR '']''")
        case True
        with "2.prems" Cons arr ltr lcs show ?thesis by (auto simp: Let_def)
      next
        case False
        with "2.prems" Cons arr have "parse_array f [] cs = Some (Inr (v, r))" by (simp add: Let_def)
        from "2.IH"(1) [OF Cons arr refl False this] lcs show ?thesis by simp
      qed
    next
      case obj
      show ?thesis
      proof (cases "skip_ws cs \<noteq> [] \<and> hd (skip_ws cs) = CHR ''}''")
        case True
        with "2.prems" Cons obj ltr lcs show ?thesis by (auto simp: Let_def)
      next
        case False
        with "2.prems" Cons obj have "parse_object f [] (skip_ws cs) = Some (Inr (v, r))" by (simp add: Let_def)
        from "2.IH"(2) [OF Cons obj refl False this] lcs lr show ?thesis by simp
      qed
    next
      case other
      with "2.prems" Cons lcs show ?thesis
        by (auto simp: Let_def map_sum_id_Inr split: if_splits dest!: lex_string_len lex_number_len)
    qed
  qed
next
  case (4 f acc s)
  from "4.prems" obtain v0 r0 where p: "parse_value f s = Some (Inr (v0, r0))"
    by (auto split: option.splits sum.splits)
  have l0: "length r0 < length s" by (rule "4.IH"(1) [OF p])
  have lt: "skip_ws r0 \<noteq> [] \<Longrightarrow> length (tl (skip_ws r0)) < length r0" by (rule length_tl_skip_ws)
  show ?case
  proof (cases "skip_ws r0 \<noteq> [] \<and> hd (skip_ws r0) = CHR '',''")
    case True
    with "4.prems" p have "parse_array f (acc @ [v0]) (tl (skip_ws r0)) = Some (Inr (v, r))"
      by (simp add: Let_def)
    from "4.IH"(2) [OF p refl refl refl True this] l0 lt True show ?thesis by simp
  next
    case False
    with "4.prems" p l0 lt show ?thesis by (auto simp: Let_def split: if_splits)
  qed
next
  case (6 f acc s)
  from "6.prems" have s: "\<not> (s = [] \<or> hd s \<noteq> dquote)" by (auto split: if_splits)
  with "6.prems" obtain k r0 where k: "lex_string (tl s) = Inr (k, r0)"
    by (auto split: sum.splits)
  have l0: "length r0 < length s" using lex_string_len [OF k] s by simp
  from "6.prems" s k have c: "\<not> (skip_ws r0 = [] \<or> hd (skip_ws r0) \<noteq> CHR '':'')"
    by (auto simp: Let_def split: if_splits)
  have l1: "length (tl (skip_ws r0)) < length r0" using c length_tl_skip_ws by blast
  from "6.prems" s k c obtain v0 r2 where p: "parse_value f (tl (skip_ws r0)) = Some (Inr (v0, r2))"
    by (auto simp: Let_def split: option.splits sum.splits)
  have l2: "length r2 < length (tl (skip_ws r0))" by (rule "6.IH"(1) [OF s k refl refl c p])
  have lt: "skip_ws r2 \<noteq> [] \<Longrightarrow> length (tl (skip_ws r2)) < length r2" by (rule length_tl_skip_ws)
  show ?case
  proof (cases "skip_ws r2 \<noteq> [] \<and> hd (skip_ws r2) = CHR '',''")
    case True
    with "6.prems" s k c p have "parse_object f (acc @ [(k, v0)]) (skip_ws (tl (skip_ws r2))) = Some (Inr (v, r))"
      by (simp add: Let_def)
    from "6.IH"(2) [OF s k refl refl c p refl refl refl True this] l0 l1 l2 lt True
      length_skip_ws [of "tl (skip_ws r2)"] show ?thesis by simp
  next
    case False
    with "6.prems" s k c p l0 l1 l2 lt show ?thesis by (auto simp: Let_def split: if_splits)
  qed
qed simp_all

lemma parse_enough:
  "2 * length s < f \<Longrightarrow> parse_value f s \<noteq> None"
  "2 * length s + 1 < f \<Longrightarrow> parse_array f acc s \<noteq> None"
  "2 * length s + 1 < f \<Longrightarrow> parse_object f acc' s \<noteq> None"
proof (induction f s and f acc s and f acc' s rule: parse_value_parse_array_parse_object.induct)
  case (2 f s)
  show ?case
  proof (cases "skip_ws s")
    case Nil
    then show ?thesis by simp
  next
    case (Cons c cs)
    have lcs: "length cs < length s" using length_tl_skip_ws [of s] Cons by simp
    have lr: "length (skip_ws cs) \<le> length cs" by (rule length_skip_ws)
    consider (arr) "c = CHR ''[''" | (obj) "c \<noteq> CHR ''[''" "c = CHR ''{''"
      | (other) "c \<noteq> CHR ''[''" "c \<noteq> CHR ''{''" by blast
    then show ?thesis
    proof cases
      case arr
      show ?thesis
      proof (cases "skip_ws cs \<noteq> [] \<and> hd (skip_ws cs) = CHR '']''")
        case True
        with Cons arr show ?thesis by (simp add: Let_def)
      next
        case False
        have "2 * length cs + 1 < f" using lcs "2.prems" by simp
        from "2.IH"(1) [OF Cons arr refl False this] Cons arr False show ?thesis by (simp add: Let_def)
      qed
    next
      case obj
      show ?thesis
      proof (cases "skip_ws cs \<noteq> [] \<and> hd (skip_ws cs) = CHR ''}''")
        case True
        with Cons obj show ?thesis by (simp add: Let_def)
      next
        case False
        have "2 * length (skip_ws cs) + 1 < f" using lcs lr "2.prems" by simp
        from "2.IH"(2) [OF Cons obj refl False this] Cons obj False show ?thesis by (simp add: Let_def)
      qed
    next
      case other
      with Cons show ?thesis by (simp add: Let_def)
    qed
  qed
next
  case (4 f acc s)
  have v: "parse_value f s \<noteq> None" using "4.IH"(1) "4.prems" by simp
  show ?case
  proof (cases "parse_value f s")
    case None
    with v show ?thesis by simp
  next
    case (Some x)
    show ?thesis
    proof (cases x)
      case (Inl e)
      with Some show ?thesis by simp
    next
      case (Inr p)
      obtain v0 r0 where p: "p = (v0, r0)" by (cases p)
      have pv: "parse_value f s = Some (Inr (v0, r0))" using Some Inr p by simp
      have l0: "length r0 < length s" by (rule parse_len(1) [OF pv])
      show ?thesis
      proof (cases "skip_ws r0 \<noteq> [] \<and> hd (skip_ws r0) = CHR '',''")
        case True
        have "2 * length (tl (skip_ws r0)) + 1 < f"
          using l0 length_tl_skip_ws [of r0] True "4.prems" by simp
        from "4.IH"(2) [OF pv refl refl refl True this] pv True show ?thesis by (simp add: Let_def)
      next
        case False
        with pv show ?thesis by (auto simp: Let_def)
      qed
    qed
  qed
next
  case (6 f acc s)
  show ?case
  proof (cases "s = [] \<or> hd s \<noteq> dquote")
    case True
    then show ?thesis by auto
  next
    case s: False
    show ?thesis
    proof (cases "lex_string (tl s)")
      case (Inl e)
      with s show ?thesis by simp
    next
      case (Inr q)
      obtain k r0 where q: "q = (k, r0)" by (cases q)
      have k: "lex_string (tl s) = Inr (k, r0)" using Inr q by simp
      have l0: "length r0 < length s" using lex_string_len [OF k] s by simp
      show ?thesis
      proof (cases "skip_ws r0 = [] \<or> hd (skip_ws r0) \<noteq> CHR '':''")
        case True
        with s k show ?thesis by (simp add: Let_def)
      next
        case c: False
        have l1: "length (tl (skip_ws r0)) < length r0" using c length_tl_skip_ws by blast
        have "2 * length (tl (skip_ws r0)) < f" using l0 l1 "6.prems" by simp
        then have v: "parse_value f (tl (skip_ws r0)) \<noteq> None" by (rule "6.IH"(1) [OF s k refl refl c])
        show ?thesis
        proof (cases "parse_value f (tl (skip_ws r0))")
          case None
          with v show ?thesis by simp
        next
          case (Some x)
          show ?thesis
          proof (cases x)
            case (Inl e)
            with Some s k c show ?thesis by (simp add: Let_def)
          next
            case (Inr p)
            obtain v0 r2 where p: "p = (v0, r2)" by (cases p)
            have pv: "parse_value f (tl (skip_ws r0)) = Some (Inr (v0, r2))" using Some Inr p by simp
            have l2: "length r2 < length (tl (skip_ws r0))" by (rule parse_len(1) [OF pv])
            show ?thesis
            proof (cases "skip_ws r2 \<noteq> [] \<and> hd (skip_ws r2) = CHR '',''")
              case True
              have "2 * length (skip_ws (tl (skip_ws r2))) + 1 < f"
                using l0 l1 l2 length_tl_skip_ws [of r2] True length_skip_ws [of "tl (skip_ws r2)"] "6.prems"
                by simp
              from "6.IH"(2) [OF s k refl refl c pv refl refl refl True this] s k c pv True
              show ?thesis by (simp add: Let_def)
            next
              case False
              with s k c pv show ?thesis by (auto simp: Let_def)
            qed
          qed
        qed
      qed
    qed
  qed
qed simp_all

subsection \<open>Reading back what the encoder writes\<close>

declare nat_str.simps [simp del]

lemma digit_table: "\<forall>d\<in>set [0..<10]. digit_val (digit_char d) = Some d \<and> (0 < d \<longrightarrow> digit_char d \<noteq> CHR ''0'')"
  by code_simp

lemma hex_table: "\<forall>d\<in>set [0..<16]. hex_val (hex_digit d) = Some d"
  by code_simp

lemma digit_val_char: "d < 10 \<Longrightarrow> digit_val (digit_char d) = Some d"
  using digit_table by simp

lemma hex_val_digit: "d < 16 \<Longrightarrow> hex_val (hex_digit d) = Some d"
  using hex_table by simp

lemma is_digit_iff: "is_digit c \<longleftrightarrow> c \<in> set ''0123456789''"
  by (simp add: is_digit_def digit_val_def map_of_zip_is_None)

lemma is_digit_char: "d < 10 \<Longrightarrow> is_digit (digit_char d)"
  by (simp add: is_digit_def digit_val_char)

lemma nat_str_ne: "nat_str n \<noteq> []"
  by (subst nat_str.simps) simp

lemma nat_str_digits: "list_all is_digit (nat_str n)"
proof (induction n rule: nat_str.induct)
  case (1 n)
  then show ?case
    by (subst nat_str.simps) (simp add: is_digit_char)
qed

lemma digits_val_nat_str: "digits_val (nat_str n) = n"
proof (induction n rule: nat_str.induct)
  case (1 n)
  then show ?case
    by (subst nat_str.simps) (simp add: digits_val_def digit_val_char)
qed

lemma nat_str_hd: "0 < n \<Longrightarrow> hd (nat_str n) \<noteq> CHR ''0''"
proof (induction n rule: nat_str.induct)
  case (1 n)
  show ?case
  proof (cases "n < 10")
    case True
    with "1.prems" digit_table show ?thesis by (subst nat_str.simps) simp
  next
    case False
    with "1.IH" nat_str_ne [of "n div 10"] show ?thesis by (subst nat_str.simps) simp
  qed
qed

lemma nat_str_0: "nat_str 0 = ''0''"
  by (subst nat_str.simps) (simp add: digit_char_def)

lemma delim_not_digit: "delim r \<Longrightarrow> r = [] \<or> \<not> is_digit (hd r)"
  by (auto simp: delim_def is_ws_def is_digit_iff)

lemma lex_nat_str: "delim r \<Longrightarrow> lex_nat (nat_str n @ r) = Some (n, r)"
proof -
  assume d: "delim r"
  obtain c cs where ccs: "nat_str n = c # cs" using nat_str_ne by (cases "nat_str n") auto
  have dig: "is_digit c" "list_all is_digit cs" using nat_str_digits [of n] ccs by simp_all
  have tw: "takeWhile is_digit (cs @ r) = cs" "dropWhile is_digit (cs @ r) = r"
    using dig(2) delim_not_digit [OF d] by (auto simp: takeWhile_append2 dropWhile_append2 list_all_iff
      takeWhile_eq_Nil_iff dropWhile_eq_self_iff)
  show ?thesis
  proof (cases "n = 0")
    case True
    then show ?thesis by (simp add: nat_str_0 lex_nat_def)
  next
    case False
    then have "c \<noteq> CHR ''0''" using nat_str_hd [of n] ccs by simp
    moreover have "digits_val (c # cs) = n" using digits_val_nat_str [of n] ccs by simp
    ultimately show ?thesis using ccs dig tw by (simp add: lex_nat_def)
  qed
qed

lemma delim_float_tail: "delim r \<Longrightarrow> \<not> float_tail r"
  by (auto simp: delim_def float_tail_def is_ws_def split: list.splits)

lemma lex_number_int_str: "delim r \<Longrightarrow> lex_number (int_str i @ r) = Inr (i, r)"
proof -
  assume d: "delim r"
  have hd: "hd (nat_str n @ r) \<noteq> CHR ''-''" for n
    using nat_str_ne [of n] nat_str_digits [of n]
    by (cases "nat_str n") (auto simp: is_digit_iff)
  show ?thesis
  proof (cases "i < 0")
    case True
    then show ?thesis
      using lex_nat_str [OF d, of "nat (- i)"] delim_float_tail [OF d]
      by (simp add: lex_number_def int_str_def)
  next
    case False
    then show ?thesis
      using lex_nat_str [OF d, of "nat i"] delim_float_tail [OF d] hd [of "nat i"] nat_str_ne [of "nat i"]
      by (simp add: lex_number_def int_str_def)
  qed
qed

lemma lex_string_escape_char:
  "lex_string (json_escape_char c @ rest) = map_sum id (\<lambda>(t, r). (c # t, r)) (lex_string rest)"
proof -
  consider "c = bslash" | "c = dquote" | "c = CHR 0x08" | "c = CHR 0x0C" | "c = CHR 0x0A"
    | "c = CHR 0x0D" | "c = CHR 0x09"
    | (ctl) "of_char c < (32::nat)" "c \<notin> {bslash, dquote, CHR 0x08, CHR 0x0C, CHR 0x0A, CHR 0x0D, CHR 0x09}"
    | (plain) "\<not> of_char c < (32::nat)" "c \<notin> {bslash, dquote}"
    by fastforce
  then show ?thesis
  proof cases
    case ctl
    have h: "of_char c div 16 < (16::nat)" "of_char c mod 16 < (16::nat)" using ctl(1) by simp_all
    have "escape_char (CHR ''u'' # CHR ''0'' # CHR ''0'' # hex_digit (of_char c div 16) # hex_digit (of_char c mod 16) # rest) =
        Some (c, rest)"
      using ctl(1) hex_val_digit [OF h(1)] hex_val_digit [OF h(2)] hex_val_digit [of 0]
      by (simp add: escape_char_def hex_digit_def)
    with ctl show ?thesis by (simp add: json_escape_char_def)
  next
    case plain
    then have "c \<notin> {CHR 0x08, CHR 0x0C, CHR 0x0A, CHR 0x0D, CHR 0x09}" by auto
    with plain show ?thesis by (simp add: json_escape_char_def)
  qed (simp_all add: json_escape_char_def escape_char_def)
qed

lemma lex_string_json_str: "lex_string (tl (json_str s) @ r) = Inr (s, r)"
proof -
  have "lex_string (concat (map json_escape_char s) @ dquote # r) = Inr (s, r)"
    by (induction s) (simp_all add: lex_string_escape_char)
  then show ?thesis by (simp add: json_str_def)
qed

subsection \<open>Reading back a whole value\<close>

text \<open>The characters a printed value can start with.\<close>

lemma int_str_start: "\<exists>c cs. int_str i = c # cs \<and> c \<in> set ''-0123456789''"
proof -
  have "\<exists>c cs. nat_str n = c # cs \<and> c \<in> set ''-0123456789''" for n
    using nat_str_ne [of n] nat_str_digits [of n] by (cases "nat_str n") (auto simp: is_digit_iff)
  then show ?thesis by (auto simp: int_str_def)
qed

lemma json_dump_start: "json_dump l v \<noteq> [] \<and> hd (json_dump l v) \<in> set (dquote # ''nft-0123456789[{'')"
proof (cases v)
  case (JNum i)
  then show ?thesis using int_str_start [of i] by auto
qed (simp_all add: json_str_def)

lemma json_dump_start_not_ws: "json_dump l v = c # cs \<Longrightarrow> \<not> is_ws c \<and> c \<noteq> CHR '']'' \<and> c \<noteq> CHR ''}''"
  using json_dump_start [of l v] by (auto simp: is_ws_def)

lemma nl_indent_ws: "list_all is_ws (nl_indent l)"
  by (simp add: nl_indent_def is_ws_def list_all_iff)

lemma delim_close: "list_all is_ws w \<Longrightarrow> c = CHR '','' \<or> c = CHR '']'' \<or> c = CHR ''}'' \<Longrightarrow> delim (w @ c # r)"
  by (cases w) (auto simp: delim_def)

lemma skip_ws_close: "list_all is_ws w \<Longrightarrow> \<not> is_ws c \<Longrightarrow> skip_ws (w @ c # r) = c # r"
  by (simp add: skip_ws_ws skip_ws_Cons)

lemma join_Cons: "join sep (x # xs) = x @ (if xs = [] then [] else sep @ join sep xs)"
  by (cases xs) simp_all

lemma json_str_Cons: "json_str k @ r = dquote # (tl (json_str k) @ r)"
  by (simp add: json_str_def)

lemma parse_dump_items:
  assumes IH: "\<And>v w r f. v \<in> set vs \<Longrightarrow> list_all is_ws w \<Longrightarrow> delim r \<Longrightarrow> 2 * length (json_dump l v) < f \<Longrightarrow>
      parse_value f (w @ json_dump l v @ r) = Some (Inr (v, r))"
    and ne: "vs \<noteq> []" and w0: "list_all is_ws w0" and w': "list_all is_ws w'"
  shows "list_all is_ws w \<Longrightarrow> 2 * length (join (CHR '','' # w0) (map (json_dump l) vs)) + 1 < g \<Longrightarrow>
    parse_array g acc (w @ join (CHR '','' # w0) (map (json_dump l) vs) @ w' @ CHR '']'' # r) = Some (Inr (JList (acc @ vs), r))"
  using IH ne
proof (induction vs arbitrary: acc g w)
  case Nil
  then show ?case by simp
next
  case (Cons v vs)
  obtain g' where g: "g = Suc g'" using Cons.prems(2) by (cases g) auto
  show ?case
  proof (cases "vs = []")
    case True
    have "parse_value g' (w @ json_dump l v @ w' @ CHR '']'' # r) = Some (Inr (v, w' @ CHR '']'' # r))"
      using Cons.prems True g by (intro Cons.prems(3)) (simp_all add: delim_close w')
    with True g w' show ?thesis by (simp add: skip_ws_close is_ws_def)
  next
    case False
    let ?rest = "join (CHR '','' # w0) (map (json_dump l) vs) @ w' @ CHR '']'' # r"
    have "parse_value g' (w @ json_dump l v @ CHR '','' # w0 @ ?rest) = Some (Inr (v, CHR '','' # w0 @ ?rest))"
      using Cons.prems False g by (intro Cons.prems(3)) (simp_all add: delim_def join_Cons)
    moreover have "parse_array g' (acc @ [v]) (w0 @ ?rest) = Some (Inr (JList ((acc @ [v]) @ vs), r))"
      using Cons.prems False w0 g by (intro Cons.IH) (simp_all add: join_Cons)
    ultimately show ?thesis using False g by (simp add: join_Cons skip_ws_Cons is_ws_def)
  qed
qed

lemma parse_dump_members:
  assumes IH: "\<And>k v w r f. (k, v) \<in> set kvs \<Longrightarrow> list_all is_ws w \<Longrightarrow> delim r \<Longrightarrow> 2 * length (json_dump l v) < f \<Longrightarrow>
      parse_value f (w @ json_dump l v @ r) = Some (Inr (v, r))"
    and ne: "kvs \<noteq> []" and w0: "list_all is_ws w0" and w': "list_all is_ws w'"
  shows "2 * length (join (CHR '','' # w0) (map (\<lambda>(k, v). json_str k @ '': '' @ json_dump l v) kvs)) + 1 < g \<Longrightarrow>
    parse_object g acc (join (CHR '','' # w0) (map (\<lambda>(k, v). json_str k @ '': '' @ json_dump l v) kvs) @ w' @ CHR ''}'' # r) =
      Some (Inr (JObj (acc @ kvs), r))"
  using IH ne
proof (induction kvs arbitrary: acc g)
  case Nil
  then show ?case by simp
next
  case (Cons kv kvs)
  obtain k v where kv: "kv = (k, v)" by (cases kv)
  obtain g' where g: "g = Suc g'" using Cons.prems(1) by (cases g) auto
  let ?m = "\<lambda>(k, v). json_str k @ '': '' @ json_dump l v"
  let ?rest = "(if kvs = [] then [] else CHR '','' # w0 @ join (CHR '','' # w0) (map ?m kvs)) @ w' @ CHR ''}'' # r"
  have sp: "is_ws CHR '' ''" "\<not> is_ws CHR '':''" "\<not> is_ws CHR '',''" "\<not> is_ws CHR ''}''" by (simp_all add: is_ws_def)
  have dr: "delim ?rest"
    using delim_close [OF w', of "CHR ''}''" r] by (simp add: delim_def)
  have pv: "parse_value g' ('' '' @ json_dump l v @ ?rest) = Some (Inr (v, ?rest))"
    using Cons.prems g kv dr by (intro Cons.prems(2) [of k]) (simp_all add: join_Cons sp)
  have txt_eq: "join (CHR '','' # w0) (map ?m (kv # kvs)) @ w' @ CHR ''}'' # r =
      dquote # (tl (json_str k) @ CHR '':'' # CHR '' '' # json_dump l v @ ?rest)"
    using kv by (simp add: join_Cons json_str_Cons)
  show ?case
  proof (cases "kvs = []")
    case True
    show ?thesis unfolding txt_eq
      using pv g True w' sp kv by (simp add: lex_string_json_str skip_ws_Cons skip_ws_close)
  next
    case False
    have "parse_object g' (acc @ [(k, v)]) (join (CHR '','' # w0) (map ?m kvs) @ w' @ CHR ''}'' # r) =
        Some (Inr (JObj ((acc @ [(k, v)]) @ kvs), r))"
    proof (rule Cons.IH)
      show "2 * length (join (CHR '','' # w0) (map ?m kvs)) + 1 < g'"
        using Cons.prems(1) False g kv by (simp add: join_Cons)
      show "(k', v') \<in> set kvs \<Longrightarrow> list_all is_ws w \<Longrightarrow> delim r' \<Longrightarrow> 2 * length (json_dump l v') < f' \<Longrightarrow>
          parse_value f' (w @ json_dump l v' @ r') = Some (Inr (v', r'))" for k' v' w r' f'
        using Cons.prems(2) [of k' v' w r' f'] by simp
    qed (rule False)
    moreover have "skip_ws (w0 @ join (CHR '','' # w0) (map ?m kvs) @ w' @ CHR ''}'' # r) =
        join (CHR '','' # w0) (map ?m kvs) @ w' @ CHR ''}'' # r"
    proof -
      obtain kk vv kvs' where "kvs = (kk, vv) # kvs'" using False by (metis list.exhaust surj_pair)
      then show ?thesis by (simp add: w0 skip_ws_ws join_Cons json_str_Cons skip_ws_Cons is_ws_def)
    qed
    ultimately show ?thesis unfolding txt_eq using pv g False sp kv
      by (simp add: lex_string_json_str skip_ws_Cons)
  qed
qed

lemma parse_value_ws: "list_all is_ws w \<Longrightarrow> parse_value f (w @ s) = parse_value f s"
  by (cases f) (simp_all add: skip_ws_ws)

lemma skip_ws_dump: "skip_ws (json_dump l v @ r) = json_dump l v @ r"
proof -
  obtain c cs where "json_dump l v = c # cs" using json_dump_start [of l v] by (cases "json_dump l v") auto
  then show ?thesis using json_dump_start_not_ws [of l v c cs] by (simp add: skip_ws_Cons)
qed

lemma join_dump_start:
  assumes "vs \<noteq> []"
  shows "\<exists>c cs. join sep (map (json_dump l) vs) @ t = c # cs \<and> \<not> is_ws c \<and> c \<noteq> CHR '']''"
proof -
  obtain v vs' where vs: "vs = v # vs'" using assms by (cases vs) auto
  obtain c cs where "json_dump l v = c # cs" using json_dump_start [of l v] by (cases "json_dump l v") auto
  then show ?thesis using json_dump_start_not_ws [of l v c cs] vs by (simp add: join_Cons)
qed

lemma join_members_start:
  assumes "kvs \<noteq> []"
  shows "\<exists>cs. join sep (map (\<lambda>(k, v). json_str k @ '': '' @ json_dump l v) kvs) @ t = dquote # cs"
proof -
  obtain k v kvs' where "kvs = (k, v) # kvs'" using assms by (metis list.exhaust surj_pair)
  then show ?thesis by (simp add: join_Cons json_str_def)
qed

lemma parse_dump0:
  "delim r \<Longrightarrow> 2 * length (json_dump l v) < f \<Longrightarrow> parse_value f (json_dump l v @ r) = Some (Inr (v, r))"
proof (induction v arbitrary: l r f)
  case JNull
  obtain f' where "f = Suc f'" using JNull.prems(2) by (cases f) auto
  then show ?case by (simp add: parse_value_ws skip_ws_Cons is_ws_def)
next
  case (JBool b)
  obtain f' where "f = Suc f'" using JBool.prems(2) by (cases f) auto
  then show ?case by (cases b) (simp_all add: parse_value_ws skip_ws_Cons is_ws_def)
next
  case (JNum i)
  obtain f' where f: "f = Suc f'" using JNum.prems(2) by (cases f) auto
  obtain c cs where ics: "int_str i = c # cs" "c \<in> set ''-0123456789''" using int_str_start [of i] by blast
  have "c \<noteq> CHR ''['' \<and> c \<noteq> CHR ''{'' \<and> c \<noteq> dquote \<and> c \<noteq> CHR ''n'' \<and> c \<noteq> CHR ''t'' \<and> c \<noteq> CHR ''f'' \<and> \<not> is_ws c"
    using ics(2) by (auto simp: is_ws_def)
  then show ?case using lex_number_int_str [OF JNum.prems(1), of i] ics(1) f
    by (simp add: parse_value_ws skip_ws_Cons)
next
  case (JStr s)
  obtain f' where "f = Suc f'" using JStr.prems(2) by (cases f) auto
  then show ?case
    by (simp add: parse_value_ws json_str_Cons skip_ws_Cons is_ws_def lex_string_json_str)
next
  case (JList vs)
  obtain f' where f: "f = Suc f'" using JList.prems(2) by (cases f) auto
  show ?case
  proof (cases "vs = []")
    case True
    with f show ?thesis by (simp add: parse_value_ws skip_ws_Cons is_ws_def)
  next
    case False
    let ?J = "join (CHR '','' # nl_indent (Suc l)) (map (json_dump (Suc l)) vs)"
    have IH: "x \<in> set vs \<Longrightarrow> list_all is_ws w' \<Longrightarrow> delim r' \<Longrightarrow> 2 * length (json_dump (Suc l) x) < f'' \<Longrightarrow>
        parse_value f'' (w' @ json_dump (Suc l) x @ r') = Some (Inr (x, r'))" for x w' r' f''
      by (simp add: parse_value_ws JList.IH)
    have fuel: "2 * length ?J + 1 < f'" using JList.prems(2) f False by simp
    have items: "parse_array f' [] (nl_indent (Suc l) @ ?J @ nl_indent l @ CHR '']'' # r) = Some (Inr (JList ([] @ vs), r))"
      by (rule parse_dump_items [OF IH False nl_indent_ws nl_indent_ws nl_indent_ws fuel])
    obtain c cs where ccs: "?J @ nl_indent l @ CHR '']'' # r = c # cs" "\<not> is_ws c" "c \<noteq> CHR '']''"
      using join_dump_start [OF False] by blast
    have "skip_ws (nl_indent (Suc l) @ ?J @ nl_indent l @ CHR '']'' # r) = c # cs"
      using ccs by (simp add: skip_ws_ws nl_indent_ws skip_ws_Cons)
    moreover have "\<not> is_ws CHR ''[''" by (simp add: is_ws_def)
    ultimately show ?thesis using items ccs f False
      by (simp add: skip_ws_Cons Let_def)
  qed
next
  case (JObj kvs)
  obtain f' where f: "f = Suc f'" using JObj.prems(2) by (cases f) auto
  show ?case
  proof (cases "kvs = []")
    case True
    with f show ?thesis by (simp add: parse_value_ws skip_ws_Cons is_ws_def)
  next
    case False
    let ?M = "join (CHR '','' # nl_indent (Suc l)) (map (\<lambda>(k, v). json_str k @ '': '' @ json_dump (Suc l) v) kvs)"
    have IH: "(k, x) \<in> set kvs \<Longrightarrow> list_all is_ws w' \<Longrightarrow> delim r' \<Longrightarrow> 2 * length (json_dump (Suc l) x) < f'' \<Longrightarrow>
        parse_value f'' (w' @ json_dump (Suc l) x @ r') = Some (Inr (x, r'))" for k x w' r' f''
      using JObj.IH [of "(k, x)" x] by (simp add: parse_value_ws)
    have fuel: "2 * length ?M + 1 < f'" using JObj.prems(2) f False by simp
    have members: "parse_object f' [] (?M @ nl_indent l @ CHR ''}'' # r) = Some (Inr (JObj ([] @ kvs), r))"
      by (rule parse_dump_members [OF IH False nl_indent_ws nl_indent_ws fuel])
    obtain cs where ccs: "?M @ nl_indent l @ CHR ''}'' # r = dquote # cs"
      using join_members_start [OF False] by blast
    have "skip_ws (nl_indent (Suc l) @ ?M @ nl_indent l @ CHR ''}'' # r) = ?M @ nl_indent l @ CHR ''}'' # r"
      using ccs by (simp add: skip_ws_ws nl_indent_ws skip_ws_Cons is_ws_def)
    moreover have "\<not> is_ws CHR ''{''" by (simp add: is_ws_def)
    ultimately show ?thesis using members ccs f False
      by (simp add: skip_ws_Cons Let_def)
  qed
qed

lemma parse_dump:
  "list_all is_ws w \<Longrightarrow> delim r \<Longrightarrow> 2 * length (json_dump l v) < f \<Longrightarrow>
    parse_value f (w @ json_dump l v @ r) = Some (Inr (v, r))"
  by (simp add: parse_value_ws parse_dump0)

lemma json_load_dump: "json_load (json_dump 0 v) = Inr v"
  using parse_dump0 [of "[]" 0 v "2 * length (json_dump 0 v) + 2"] by (simp add: json_load_def delim_def)

subsection \<open>More fuel does not change the answer\<close>

lemma parse_mono:
  "(\<forall>s g. parse_value f s \<noteq> None \<longrightarrow> f \<le> g \<longrightarrow> parse_value g s = parse_value f s) \<and>
   (\<forall>acc s g. parse_array f acc s \<noteq> None \<longrightarrow> f \<le> g \<longrightarrow> parse_array g acc s = parse_array f acc s) \<and>
   (\<forall>acc s g. parse_object f acc s \<noteq> None \<longrightarrow> f \<le> g \<longrightarrow> parse_object g acc s = parse_object f acc s)"
proof (induction f)
  case 0
  then show ?case by simp
next
  case (Suc f)
  show ?case
  proof (intro conjI allI impI)
    fix s g assume a: "parse_value (Suc f) s \<noteq> None" "Suc f \<le> g"
    then obtain g' where g: "g = Suc g'" "f \<le> g'" by (cases g) auto
    have pa: "parse_array f acc s \<noteq> None \<Longrightarrow> parse_array g' acc s = parse_array f acc s"
      and po: "parse_object f kacc s \<noteq> None \<Longrightarrow> parse_object g' kacc s = parse_object f kacc s" for acc kacc s
      using Suc.IH g(2) by blast+
    show "parse_value g s = parse_value (Suc f) s"
      using a(1) by (auto simp: g(1) Let_def pa po split: list.splits)
  next
    fix acc s g assume a: "parse_array (Suc f) acc s \<noteq> None" "Suc f \<le> g"
    then obtain g' where g: "g = Suc g'" "f \<le> g'" by (cases g) auto
    have pa: "parse_array f acc s \<noteq> None \<Longrightarrow> parse_array g' acc s = parse_array f acc s"
      and pv: "parse_value f s \<noteq> None \<Longrightarrow> parse_value g' s = parse_value f s" for acc s
      using Suc.IH g(2) by blast+
    show "parse_array g acc s = parse_array (Suc f) acc s"
      using a(1) by (auto simp: g(1) Let_def pa pv split: option.splits sum.splits)
  next
    fix acc s g assume a: "parse_object (Suc f) acc s \<noteq> None" "Suc f \<le> g"
    then obtain g' where g: "g = Suc g'" "f \<le> g'" by (cases g) auto
    have po: "parse_object f acc s \<noteq> None \<Longrightarrow> parse_object g' acc s = parse_object f acc s"
      and pv: "parse_value f s \<noteq> None \<Longrightarrow> parse_value g' s = parse_value f s" for acc s
      using Suc.IH g(2) by blast+
    show "parse_object g acc s = parse_object (Suc f) acc s"
      using a(1) by (auto simp: g(1) Let_def pv po split: option.splits sum.splits)
  qed
qed

subsection \<open>Reading back a verb document\<close>

lemma those_map_Some: "(\<And>x. x \<in> set xs \<Longrightarrow> g x = Some (h x)) \<Longrightarrow> those (map g xs) = Some (map h xs)"
  by (induction xs) auto

lemma read_strs_json: "read_strs (strs_json xs) = Some xs"
  by (simp add: read_strs_def strs_json_def those_map_Some read_str_def)

lemma read_mood_json: "read_mood (mood_json m) = Some m"
proof -
  have "those (map (\<lambda>(t, v). map_option (Pair t) (read_strs v)) (map (\<lambda>(t, fs). (t, strs_json fs)) m)) = Some m"
    by (induction m) (auto simp: read_strs_json)
  then show ?thesis by (simp add: read_mood_def mood_json_def)
qed

lemma read_doc_json: "read_doc (doc_json d) = Some d"
  by (simp add: read_doc_def doc_json_def get_field_def get_key_def read_pair_def pair_json_def read_str_def
      read_strs_json read_mood_json)

end
