(* ===== verification/Deck_Files.thy ===== *)
theory Deck_Files
  imports Json
begin

text \<open>
  The deck directory as the scripts leave it on disk: every verb file holds the
  text \<open>json.dump(data, f, ensure_ascii=False, indent=2)\<close> wrote, and
  \<^verbatim>\<open>index.json\<close> the text of the last merge, read back with
  \<open>json.load\<close> by the next run. \<open>run_script_fs\<close> is the tail of a script
  over these texts; \<open>abs_deck\<close> reads a directory back into the deck of
  \<open>Deck_Writer\<close>, and the refinement lemma says that the value-level run
  \<open>run_script\<close> is exactly what the text-level run does, seen through
  \<open>abs_deck\<close>.
\<close>

record deck_fs =
  doc_files :: "pystr \<rightharpoonup> pystr"
  index_text :: "pystr option"

text \<open>\<open>new_files = [build_json(v) for v in VERBS]\<close>, each document written as
  text before the next verb is built; the first exception ends the loop.\<close>

fun build_all_fs :: "('v \<Rightarrow> py_error + (pystr \<times> verb_doc)) \<Rightarrow> 'v list \<Rightarrow> (pystr \<rightharpoonup> pystr) \<Rightarrow>
    (pystr \<rightharpoonup> pystr) \<times> (py_error + pystr list)" where
  "build_all_fs b [] fs = (fs, Inr [])"
| "build_all_fs b (v # vs) fs =
     (case b v of
        Inl e \<Rightarrow> (fs, Inl e)
      | Inr (n, d) \<Rightarrow>
          (let (fs', r) = build_all_fs b vs (fs(n \<mapsto> doc_text d)) in (fs', map_sum id (Cons n) r)))"

text \<open>The script tail: build every verb, then \<open>json.load\<close> the index (or
  \<open>FileNotFoundError\<close>), merge, and \<open>json.dump\<close> the merged list.\<close>

definition run_script_fs :: "('v \<Rightarrow> py_error + (pystr \<times> verb_doc)) \<Rightarrow> 'v list \<Rightarrow> deck_fs \<Rightarrow> deck_fs \<times> py_error option" where
  "run_script_fs b vs s =
     (let (fs', r) = build_all_fs b vs (doc_files s) in
      case r of
        Inl e \<Rightarrow> (s\<lparr>doc_files := fs'\<rparr>, Some e)
      | Inr new_files \<Rightarrow>
          (case merge_index (read_index (index_text s)) new_files of
             Inl e \<Rightarrow> (s\<lparr>doc_files := fs'\<rparr>, Some e)
           | Inr files \<Rightarrow> (s\<lparr>doc_files := fs', index_text := Some (write_index files)\<rparr>, None)))"

text \<open>Reading a directory back: a verb file counts as the document it
  decodes to, \<^verbatim>\<open>index.json\<close> as what \<open>json.load\<close> makes of it.\<close>

definition read_doc_text :: "pystr \<Rightarrow> verb_doc option" where
  "read_doc_text t = (case json_load t of Inr j \<Rightarrow> read_doc j | Inl _ \<Rightarrow> None)"

definition read_docs :: "(pystr \<rightharpoonup> pystr) \<Rightarrow> (pystr \<rightharpoonup> verb_doc)" where
  "read_docs fs n = Option.bind (fs n) read_doc_text"

definition abs_deck :: "deck_fs \<Rightarrow> deck" where
  "abs_deck s = \<lparr>docs = read_docs (doc_files s), index = read_index (index_text s)\<rparr>"

section \<open>Lemmas\<close>

lemma read_doc_text_doc_text [simp]: "read_doc_text (doc_text d) = Some d"
  by (simp add: read_doc_text_def doc_text_def json_load_dump read_doc_json)

lemma read_docs_upd [simp]: "read_docs (fs(n \<mapsto> doc_text d)) = (read_docs fs)(n \<mapsto> d)"
  by (rule ext) (simp add: read_docs_def)

lemma read_index_write [simp]: "read_index (Some (write_index files)) = Parsed (index_doc files)"
  by (simp add: read_index_def write_index_def json_load_dump)

lemma build_all_fs_refines:
  "build_all b vs (read_docs fs) = map_prod read_docs id (build_all_fs b vs fs)"
proof (induction vs arbitrary: fs)
  case Nil
  then show ?case by simp
next
  case (Cons v vs)
  show ?case
  proof (cases "b v")
    case (Inl e)
    then show ?thesis by simp
  next
    case (Inr p)
    obtain n d where p: "p = (n, d)" by (cases p)
    have "build_all b vs ((read_docs fs)(n \<mapsto> d)) = map_prod read_docs id (build_all_fs b vs (fs(n \<mapsto> doc_text d)))"
      using Cons.IH [of "fs(n \<mapsto> doc_text d)"] unfolding read_docs_upd .
    then show ?thesis using Inr p by (cases "build_all_fs b vs (fs(n \<mapsto> doc_text d))") simp
  qed
qed

lemma build_all_fs_ok:
  "list_all (\<lambda>v. b v = Inr (nm v, dc v)) vs \<Longrightarrow>
   build_all_fs b vs fs = (fold (\<lambda>v m. m(nm v \<mapsto> doc_text (dc v))) vs fs, Inr (map nm vs))"
  by (induction vs arbitrary: fs) auto

lemma run_script_fs_abs: "run_script b vs (abs_deck s) = map_prod abs_deck id (run_script_fs b vs s)"
proof -
  obtain fs' r where fs: "build_all_fs b vs (doc_files s) = (fs', r)" by (cases "build_all_fs b vs (doc_files s)")
  have ds: "build_all b vs (read_docs (doc_files s)) = (read_docs fs', r)"
    using build_all_fs_refines [of b vs "doc_files s"] fs by simp
  show ?thesis
    using ds fs
    by (simp add: run_script_def run_script_fs_def abs_deck_def split: sum.splits)
qed

text \<open>Running a script again on the directory a successful run left rewrites
  every file with the same text.\<close>

lemma run_script_fs_rerun_gen:
  assumes ok: "list_all (\<lambda>v. b v = Inr (nm v, dc v)) vs" and d: "distinct (map nm vs)"
    and r: "run_script_fs b vs s = (s', None)"
  shows "run_script_fs b vs s' = (s', None)"
proof -
  let ?W = "fold (\<lambda>v m. m(nm v \<mapsto> doc_text (dc v))) vs"
  obtain fs where m: "merge_index (read_index (index_text s)) (map nm vs) = Inr fs"
    and s': "s' = s\<lparr>doc_files := ?W (doc_files s), index_text := Some (write_index fs)\<rparr>"
    using r by (auto simp: run_script_fs_def build_all_fs_ok [OF ok] split: sum.splits)
  have "merge_index (Parsed (index_doc fs)) (map nm vs @ []) = fromkeys_loop fs (map JStr [])"
    by (rule merge_index_reread [OF m]) (rule d)
  then have "merge_index (Parsed (index_doc fs)) (map nm vs) = Inr fs" by simp
  then show ?thesis using s' by (simp add: run_script_fs_def build_all_fs_ok [OF ok] fold_upd_idem)
qed

end
