(* ===== verification/Slug.thy ===== *)
theory Slug
  imports Prelude
begin

text \<open>
  \<open>ascii_name\<close> of \<^verbatim>\<open>src/Create2ndGroupVerbs.py\<close> (lines 30-32), the
  file-name slug the specification describes for the Dataset Writer:
  \<^verbatim>\<open>"".join(c for c in unicodedata.normalize("NFKD", s) if not unicodedata.combining(c))
    .replace("\u2019","").replace("'","").replace(" ", "_").lower()\<close>
  The scripts never call it: every file name is the literal \<open>fr_ascii\<close> of a
  table. Text is the single-byte encoding of the prelude, which has no
  combining character, so the decomposition followed by the filter is one table
  \<open>nfkd_table\<close>: the characters whose NFKD form differs from themselves, each
  with that form less its combining marks (the values Python's \<open>unicodedata\<close>
  gives). Four characters decompose into code points outside the encoding
  (the micro sign into Greek mu, the fractions into U+2044); they are not in the table
  and stay unchanged, the one departure of the model from Python.
\<close>

section \<open>Unicode tables\<close>

definition nfkd_table :: "(char \<times> pystr) list" where
  "nfkd_table = [
    (CHR 0x85, ''...''), (CHR 0x8A, ''S''), (CHR 0x8E, ''Z''), (CHR 0x98, '' ''), (CHR 0x99, ''TM''),
    (CHR 0x9A, ''s''), (CHR 0x9E, ''z''), (CHR 0x9F, ''Y''), (CHR 0xA0, '' ''), (CHR 0xA8, '' ''),
    (CHR 0xAA, ''a''), (CHR 0xAF, '' ''), (CHR 0xB2, ''2''), (CHR 0xB3, ''3''), (CHR 0xB4, '' ''),
    (CHR 0xB8, '' ''), (CHR 0xB9, ''1''), (CHR 0xBA, ''o''), (CHR 0xC0, ''A''), (CHR 0xC1, ''A''),
    (CHR 0xC2, ''A''), (CHR 0xC3, ''A''), (CHR 0xC4, ''A''), (CHR 0xC5, ''A''), (CHR 0xC7, ''C''),
    (CHR 0xC8, ''E''), (CHR 0xC9, ''E''), (CHR 0xCA, ''E''), (CHR 0xCB, ''E''), (CHR 0xCC, ''I''),
    (CHR 0xCD, ''I''), (CHR 0xCE, ''I''), (CHR 0xCF, ''I''), (CHR 0xD1, ''N''), (CHR 0xD2, ''O''),
    (CHR 0xD3, ''O''), (CHR 0xD4, ''O''), (CHR 0xD5, ''O''), (CHR 0xD6, ''O''), (CHR 0xD9, ''U''),
    (CHR 0xDA, ''U''), (CHR 0xDB, ''U''), (CHR 0xDC, ''U''), (CHR 0xDD, ''Y''), (CHR 0xE0, ''a''),
    (CHR 0xE1, ''a''), (CHR 0xE2, ''a''), (CHR 0xE3, ''a''), (CHR 0xE4, ''a''), (CHR 0xE5, ''a''),
    (CHR 0xE7, ''c''), (CHR 0xE8, ''e''), (CHR 0xE9, ''e''), (CHR 0xEA, ''e''), (CHR 0xEB, ''e''),
    (CHR 0xEC, ''i''), (CHR 0xED, ''i''), (CHR 0xEE, ''i''), (CHR 0xEF, ''i''), (CHR 0xF1, ''n''),
    (CHR 0xF2, ''o''), (CHR 0xF3, ''o''), (CHR 0xF4, ''o''), (CHR 0xF5, ''o''), (CHR 0xF6, ''o''),
    (CHR 0xF9, ''u''), (CHR 0xFA, ''u''), (CHR 0xFB, ''u''), (CHR 0xFC, ''u''), (CHR 0xFD, ''y''),
    (CHR 0xFF, ''y'')]"

declare nfkd_table_def [table_defs]

text \<open>NFKD with the combining marks dropped, for one character. Every ASCII
  character is its own decomposition.\<close>

definition nfkd_strip :: "char \<Rightarrow> pystr" where
  "nfkd_strip c = (case map_of nfkd_table c of Some s \<Rightarrow> s | None \<Rightarrow> [c])"

text \<open>\<open>str.lower\<close> on the characters of the encoding that have a small
  letter: the ASCII and Latin-1 capitals (not the multiplication sign) and the
  four capitals of the 0x80-0x9F block.\<close>

definition lower_table :: "(char \<times> char) list" where
  "lower_table = [
    (CHR ''A'', CHR ''a''), (CHR ''B'', CHR ''b''), (CHR ''C'', CHR ''c''), (CHR ''D'', CHR ''d''), (CHR ''E'', CHR ''e''),
    (CHR ''F'', CHR ''f''), (CHR ''G'', CHR ''g''), (CHR ''H'', CHR ''h''), (CHR ''I'', CHR ''i''), (CHR ''J'', CHR ''j''),
    (CHR ''K'', CHR ''k''), (CHR ''L'', CHR ''l''), (CHR ''M'', CHR ''m''), (CHR ''N'', CHR ''n''), (CHR ''O'', CHR ''o''),
    (CHR ''P'', CHR ''p''), (CHR ''Q'', CHR ''q''), (CHR ''R'', CHR ''r''), (CHR ''S'', CHR ''s''), (CHR ''T'', CHR ''t''),
    (CHR ''U'', CHR ''u''), (CHR ''V'', CHR ''v''), (CHR ''W'', CHR ''w''), (CHR ''X'', CHR ''x''), (CHR ''Y'', CHR ''y''),
    (CHR ''Z'', CHR ''z''), (CHR 0x8A, CHR 0x9A), (CHR 0x8C, CHR 0x9C), (CHR 0x8E, CHR 0x9E), (CHR 0x9F, CHR 0xFF),
    (CHR 0xC0, CHR 0xE0), (CHR 0xC1, CHR 0xE1), (CHR 0xC2, CHR 0xE2), (CHR 0xC3, CHR 0xE3), (CHR 0xC4, CHR 0xE4),
    (CHR 0xC5, CHR 0xE5), (CHR 0xC6, CHR 0xE6), (CHR 0xC7, CHR 0xE7), (CHR 0xC8, CHR 0xE8), (CHR 0xC9, CHR 0xE9),
    (CHR 0xCA, CHR 0xEA), (CHR 0xCB, CHR 0xEB), (CHR 0xCC, CHR 0xEC), (CHR 0xCD, CHR 0xED), (CHR 0xCE, CHR 0xEE),
    (CHR 0xCF, CHR 0xEF), (CHR 0xD0, CHR 0xF0), (CHR 0xD1, CHR 0xF1), (CHR 0xD2, CHR 0xF2), (CHR 0xD3, CHR 0xF3),
    (CHR 0xD4, CHR 0xF4), (CHR 0xD5, CHR 0xF5), (CHR 0xD6, CHR 0xF6), (CHR 0xD8, CHR 0xF8), (CHR 0xD9, CHR 0xF9),
    (CHR 0xDA, CHR 0xFA), (CHR 0xDB, CHR 0xFB), (CHR 0xDC, CHR 0xFC), (CHR 0xDD, CHR 0xFD), (CHR 0xDE, CHR 0xFE)]"

declare lower_table_def [table_defs]

definition py_lower :: "char \<Rightarrow> char" where
  "py_lower c = (case map_of lower_table c of Some d \<Rightarrow> d | None \<Rightarrow> c)"

text \<open>The right single quotation mark U+2019.\<close>

abbreviation rsquo :: char where "rsquo \<equiv> CHR 0x92"

definition ascii_name :: "pystr \<Rightarrow> pystr" where
  "ascii_name s =
     (let s1 = concat (map nfkd_strip s);
          s2 = filter (\<lambda>c. c \<noteq> rsquo) s1;
          s3 = filter (\<lambda>c. c \<noteq> CHR 0x27) s2;
          s4 = map (\<lambda>c. if c = CHR '' '' then CHR ''_'' else c) s3
      in map py_lower s4)"

section \<open>Lemmas\<close>

lemma ascii_name_append: "ascii_name (xs @ ys) = ascii_name xs @ ascii_name ys"
  by (simp add: ascii_name_def)

lemma ascii_name_Cons: "ascii_name (c # s) = ascii_name [c] @ ascii_name s"
  using ascii_name_append [of "[c]" s] by simp

text \<open>Each character the slug produces is its own slug: checked on the 256
  characters of the encoding.\<close>

lemma slug_chars_stable:
  "list_all (\<lambda>c. list_all (\<lambda>d. ascii_name [d] = [d]) (ascii_name [c])) enum_class.enum"
  by code_simp

text \<open>What holds of the slug of every character holds of every character of
  every slug.\<close>

lemma ascii_name_chars:
  assumes all: "list_all (\<lambda>c. list_all P (ascii_name [c])) enum_class.enum"
  shows "d \<in> set (ascii_name s) \<Longrightarrow> P d"
proof (induction s)
  case Nil
  then show ?case by (simp add: ascii_name_def)
next
  case (Cons c s)
  have "c \<in> set (enum_class.enum :: char list)" by (simp add: enum_UNIV)
  then have "\<forall>d\<in>set (ascii_name [c]). P d" using all by (simp add: list_all_iff)
  with Cons show ?case by (auto simp: ascii_name_Cons [of c s])
qed

lemma ascii_name_fixed: "d \<in> set (ascii_name s) \<Longrightarrow> ascii_name [d] = [d]"
  by (rule ascii_name_chars [OF slug_chars_stable])

text \<open>The characters a slug can contain: no space, no apostrophe, no capital
  letter, nothing NFKD would decompose; checked on the 256 characters.\<close>

lemma slug_chars_clean:
  "list_all (\<lambda>c. list_all (\<lambda>d. d \<noteq> CHR '' '' \<and> d \<noteq> CHR 0x27 \<and> d \<noteq> rsquo \<and> py_lower d = d \<and> nfkd_strip d = [d])
     (ascii_name [c])) enum_class.enum"
  by code_simp

lemma ascii_name_id: "\<forall>d\<in>set s. ascii_name [d] = [d] \<Longrightarrow> ascii_name s = s"
proof (induction s)
  case Nil
  then show ?case by (simp add: ascii_name_def)
next
  case (Cons c s)
  then show ?case by (simp add: ascii_name_Cons [of c s])
qed

text \<open>A slug is its own slug.\<close>

lemma ascii_name_idem: "ascii_name (ascii_name s) = ascii_name s"
  using ascii_name_fixed [of _ s] by (blast intro: ascii_name_id)


section \<open>Properties\<close>

text \<open>Claim C30. \<open>ascii_name\<close> meets the naming rule of the specification on
  every string: its result contains no space (turned into underscores), no
  apostrophe of either kind, no capital letter and no character with a
  compatibility decomposition (diacritics stripped), and normalising a slug
  again leaves it unchanged.\<close>

theorem ascii_name_contract:
  "list_all (\<lambda>d. d \<noteq> CHR '' '' \<and> d \<noteq> CHR 0x27 \<and> d \<noteq> rsquo \<and> py_lower d = d \<and> nfkd_strip d = [d]) (ascii_name s) \<and>
   ascii_name (ascii_name s) = ascii_name s"
  using ascii_name_chars [OF slug_chars_clean] ascii_name_idem by (auto simp: list_all_iff)

end
