(* ===== verification/Spec2Isabelle.thy ===== *)
theory Spec2Isabelle
  imports Ere_Verbs Ire_Verbs Irregular_Verbs Deck_Files Slug
begin

text \<open>
  \<^bold>\<open>A verification development of the Italian verb deck generator.\<close>

  The program is three scripts under \<^verbatim>\<open>src/\<close>, one per verb class, each
  a copy of the same engine with its own rule tables:
  \<^verbatim>\<open>Create2ndGroupVerbs.py\<close> (25 verbs in \<open>-ere\<close>),
  \<^verbatim>\<open>Create3rdGroupVerbs.py\<close> (20 verbs in \<open>-ire\<close>, some with the \<open>-isc-\<close>
  augment) and \<^verbatim>\<open>CreateIrregularVerbs.py\<close> (37 irregular verbs). Each
  script builds one JSON document per verb (\<open>build_json\<close>), writes it to
  \<^verbatim>\<open>decks/fr-it/<name>.json\<close>, then merges the file names into
  \<^verbatim>\<open>decks/fr-it/index.json\<close>. \<^verbatim>\<open>serve.py\<close> only serves the directory.

  \<^bold>\<open>Theories.\<close>
  \<^item> \<open>Prelude\<close>: Python text as Isabelle \<open>string\<close> in the single-byte
    Windows-1252 encoding (every code point the scripts use has one byte there,
    so slicing by code point is \<open>take\<close>/\<open>drop\<close>); the Python exceptions as
    the datatype \<open>py_error\<close> and statements that may raise as \<open>py_error + 'a\<close>
    sequenced by \<open>py_bind\<close>; \<open>s[:-n]\<close> (\<open>drop_last\<close>), \<open>endswith\<close>
    (\<open>ends_with\<close>), \<open>in\<close> on strings (\<open>contains\<close>, proved equal to
    \<open>sublist\<close>), dictionary literals as association lists read with \<open>map_of\<close>
    (\<open>d[k]\<close> is \<open>dict_get\<close> and raises \<open>KeyError\<close>, \<open>d.get(k, x)\<close> is
    \<open>dict_get_default\<close>, \<open>d[k] = v\<close> is \<open>dict_set\<close>).
  \<^item> \<open>Composer\<close>: the pronoun lists, the auxiliary tables \<open>aux_pres\<close> \<dots>
    \<open>aux_cong_impf\<close> and \<open>compose\<close> of the first two scripts (lines 27-28
    and 142-161 of the \<open>-ere\<close> script), \<open>compose_irr\<close> of the irregular
    script, and \<open>compose_by_slot\<close>, the agreement rule of the specification
    (plural participle exactly in slots 3-5 with \<open>essere\<close>). Its lemmas
    decide where the substring heuristic of \<open>compose\<close> agrees with that
    rule (C1) and where not (C2).
  \<^item> \<open>Verb_Record\<close>: the persisted document as the record \<open>verb_doc\<close>,
    one field per top-level key, moods as association lists in the literal's
    order; \<open>well_shaped\<close> (every mood and tense present, six forms per
    personal tense) and the participle predicates.
  \<^item> \<open>Ere_Verbs\<close>, \<open>Ire_Verbs\<close>, \<open>Irregular_Verbs\<close>: each script's tables
    (the irregular tables generated from the source literals), one definition
    per generator, the document \<open>data_*\<close> and \<open>build_json_*\<close> with its
    dictionary lookups in source order. The \<open>-ire\<close> and irregular scripts
    carry their own copies of the auxiliary tables (and the \<open>-ire\<close> one of
    \<open>compose\<close>); they are definitions of their own (\<open>aux_pres_ire\<close> \<dots>
    \<open>compose_ire\<close>, \<open>aux_present\<close> \<dots> \<open>aux_cong_impf_irr\<close>) that
    \<open>data_ire\<close> and \<open>data_irr\<close> call, and this theory proves every copy
    equal to the \<open>-ere\<close> one (C3). The lemmas prove every document
    well-shaped (C4, C9, C12), that \<open>build_json\<close> succeeds exactly on the
    script's verb list and raises \<open>KeyError(v)\<close> elsewhere (C5, C10, C11,
    C13, C14), the unmodified participle with \<open>avere\<close> and the example
    \<open>scrivere\<close> (C6), the \<open>-isc-\<close> slots and the example \<open>finire\<close>
    (C8), and the defects the model exposes for every verb they concern: with
    \<open>essere\<close> the agreement rule fails in three compound tenses (C7), and the
    \<open>voi\<close> form of the imperfect subjunctive ends in \<open>sste\<close> (C15).
  \<^item> \<open>Deck_Writer\<close>: the tail of every script. JSON values as the datatype
    \<open>json\<close> with Python's truthiness, hashability and \<open>True == 1\<close>; the
    index file as \<open>Missing | Unparsable | Parsed j\<close>; \<open>dict.fromkeys\<close> as
    \<open>fromkeys_loop\<close>; the index merge \<open>merge_index\<close>; the deck as the record
    \<open>deck\<close> (a map from file name to document, and the index file); a run as
    \<open>run_script\<close> over any builder, so the three scripts share one proof. The
    lemmas give idempotence of the merge and of a run (C16, C18), the effect
    of one more verb on the merge and on a whole run, the specification's
    added-verb test (C17, C19), the error paths (C20), and the invariant \<open>index_ok\<close> (distinct names,
    each a document of the deck) that a run preserves.
  \<^item> \<open>Json\<close>: the bytes behind the deck. \<open>json_dump\<close> is what
    \<open>json.dump(obj, f, ensure_ascii=False, indent=2)\<close> writes (the escapes of
    \<open>ESCAPE_DCT\<close>, items on their own lines indented by two spaces per level,
    \<open>[]\<close> and \<open>{}\<close> for empty containers); \<open>parse_value\<close>,
    \<open>parse_array\<close>, \<open>parse_object\<close> are the recursive descent of
    \<open>json.load\<close>, with fuel; \<open>read_index\<close> is the \<open>try\<close> around it
    (lines 229-235 of the \<open>-ere\<close> script) and \<open>doc_json\<close>/\<open>doc_text\<close>
    the value and text of each verb file. The lemmas prove that reading back
    what was written gives the value, the index \<open>Parsed (index_doc files)\<close>
    that the merge model assumes, and each verb's record (\<open>json_load_dump\<close>,
    \<open>read_doc_json\<close>), and that the decoder always answers, with the same
    answer, once its fuel exceeds twice the length of the text
    (\<open>parse_enough\<close>, \<open>parse_mono\<close>). These are facts about the model
    of the library, used by the claims on directories below.
  \<^item> \<open>Deck_Files\<close>: the directory as text, the record \<open>deck_fs\<close>
    (verb file name to file text, and the text of \<^verbatim>\<open>index.json\<close>),
    the script tail \<open>run_script_fs\<close> that writes \<open>doc_text\<close> for every
    verb and \<open>json.load\<close>s, merges and \<open>json.dump\<close>s the index, and the
    abstraction \<open>abs_deck\<close> that reads a directory back. The lemma
    \<open>run_script_fs_abs\<close> says that \<open>run_script\<close> of \<open>Deck_Writer\<close> is
    this text-level run seen through \<open>abs_deck\<close>, for every directory; the
    claims about directories in this theory rest on it.
  \<^item> \<open>Slug\<close>: \<open>ascii_name\<close> (lines 30-32 of the \<open>-ere\<close> script), the slug
    the specification names files by, as the composition the source writes:
    NFKD without combining marks (\<open>nfkd_table\<close>), removal of the two
    apostrophes, space to underscore, \<open>lower()\<close> (\<open>lower_table\<close>). The
    tables are Python's \<open>unicodedata\<close> values on the single-byte encoding.
    On every string the slug meets the specification's identifier rule (no
    space, apostrophe, capital or decomposable character) and is idempotent
    (C30).
  \<^item> This theory: the three runs \<open>run_ere\<close>, \<open>run_ire\<close>, \<open>run_irr\<close>
    (\<open>run\<close> over the datatype \<open>script\<close>), their file lists
    \<open>new_files\<close>, and the step relation \<open>deck_step\<close>: from the empty
    directory \<open>init_deck\<close>, any script may run at any time. By rule induction,
    every reachable deck has a well-formed index and well-shaped documents
    (C23), an index of at most the 81 names the scripts write (C24); every run
    on it succeeds and lists its files (C25), re-running a script changes
    nothing (C26), and running the three scripts always reaches a complete
    deck (C27). The \<open>-ire\<close> and irregular scripts both write
    \<open>finir.json\<close>, so the deck depends on the order of the runs (C28); the
    three scripts in order give an index of 81 names (C29).
    The same runs over the directory as text, \<open>run_fs\<close> from the empty
    directory \<open>init_fs\<close> with the step relation \<open>deck_fs_step\<close>, refine
    the deck model: every directory they can produce reads back to a reachable
    deck, so the invariants above hold of the files (C21), and on every such
    directory a second run rewrites every file with the same bytes (C22).

  \<^bold>\<open>Modelling choices.\<close> Every loop of the scripts is over a fixed list
  and is a structural recursion (\<open>map\<close>, \<open>fold\<close>, \<open>fun\<close>), so every
  definition of the scripts is total and executable. The one loop that is not
  structural is the JSON decoder's recursion into nested values; it carries
  fuel, one unit per call, and \<open>json_load\<close> gives it \<open>2 * length s + 2\<close>.
  That is enough because each nested call either consumes at least one
  character or is preceded by one that did (\<open>parse_len\<close>), so a call with
  fuel above twice the remaining length never runs out (\<open>parse_enough\<close>),
  and more fuel never changes the answer (\<open>parse_mono\<close>). Exceptions are
  values. The deck is stored as the values the scripts write (documents, the
  index value); \<open>Json\<close> shows that these are exactly what the next
  \<open>json.load\<close> reads from the text. JSON numbers are integers; a number
  with a fraction or an exponent, \<open>NaN\<close>, \<open>Infinity\<close> and a
  \<open>\u\<close> escape of a code point the single-byte encoding has no
  character for (the C1 controls U+0080-U+009F, and everything above U+00FF
  but the 27 characters of \<open>cp1252_high\<close>) are decoding errors in the
  model (floats and characters outside the encoding; none occurs in a file the
  scripts write). A \<open>\u\<close> escape the encoding does represent, such as
  \<open>\u2014\<close> for the em dash, decodes to that character. The claims about whole tables are proved by lemmas over the
  table's keys and rows (\<open>ere_tables_wf\<close>, \<open>irr_keys\<close>), not by
  evaluating all documents.

  \<^bold>\<open>Not modelled.\<close> \<^verbatim>\<open>serve.py\<close> (an HTTP server, no program logic);
  the four characters whose NFKD form leaves the single-byte encoding (the
  micro sign and three fractions), which \<open>ascii_name\<close> keeps unchanged
  where Python would decompose them; the \<open>print\<close> calls at the
  end of each script; concurrent runs (the scripts are run one at a time);
  the pronoun lists of the \<open>-ire\<close> and irregular scripts (lines 27-28 and
  26-27), the same literals as those of \<open>Composer\<close>, which every generator
  of the model uses; \<open>os.makedirs\<close> beyond the empty directory
  \<open>init_fs\<close> it leaves on a first run; file-system failures during a
  write, which propagate uncaught.
\<close>

section \<open>The three scripts on one deck\<close>

datatype script = Ere | Ire | Irr

text \<open>The file name \<open>build_json(v)\<close> returns for a verb of \<open>VERBS\<close>:
  \<open>fr_ascii + ".json"\<close> with \<open>fr_ascii\<close> from \<open>FR_MAP[v]\<close>.\<close>

definition fr_file :: "(pystr \<times> pystr \<times> pystr) list \<Rightarrow> pystr \<Rightarrow> pystr" where
  "fr_file tbl v = (case map_of tbl v of Some (_, f) \<Rightarrow> f @ ''.json'' | None \<Rightarrow> [])"

definition run_ere :: "deck \<Rightarrow> deck \<times> py_error option" where
  "run_ere = run_script (\<lambda>(v, d, f, a). build_json_ere v d f a) SPEC_ere"

definition run_ire :: "deck \<Rightarrow> deck \<times> py_error option" where
  "run_ire = run_script build_json_ire VERBS_ire"

definition run_irr :: "deck \<Rightarrow> deck \<times> py_error option" where
  "run_irr = run_script build_json_irr VERBS_irr"

fun run :: "script \<Rightarrow> deck \<Rightarrow> deck \<times> py_error option" where
  "run Ere = run_ere"
| "run Ire = run_ire"
| "run Irr = run_irr"

fun new_files :: "script \<Rightarrow> pystr list" where
  "new_files Ere = map (\<lambda>(_, _, f, _). f @ ''.json'') SPEC_ere"
| "new_files Ire = map (fr_file FR_MAP_ire) VERBS_ire"
| "new_files Irr = map (fr_file FR_MAP_irr) VERBS_irr"

text \<open>Every file name the three scripts write.\<close>

definition all_files :: "pystr list" where
  "all_files = new_files Ere @ new_files Ire @ new_files Irr"

definition init_deck :: deck where
  "init_deck = \<lparr>docs = Map.empty, index = Missing\<rparr>"

inductive deck_step :: "deck \<Rightarrow> deck \<Rightarrow> bool" where
  run: "deck_step s (fst (run sc s))"

inductive_cases deck_stepE: "deck_step s t"

text \<open>The same three runs over the directory as text (theory
  \<open>Deck_Files\<close>), from the directory with no file.\<close>

fun run_fs :: "script \<Rightarrow> deck_fs \<Rightarrow> deck_fs \<times> py_error option" where
  "run_fs Ere = run_script_fs (\<lambda>(v, d, f, a). build_json_ere v d f a) SPEC_ere"
| "run_fs Ire = run_script_fs build_json_ire VERBS_ire"
| "run_fs Irr = run_script_fs build_json_irr VERBS_irr"

definition init_fs :: deck_fs where
  "init_fs = \<lparr>doc_files = Map.empty, index_text = None\<rparr>"

inductive deck_fs_step :: "deck_fs \<Rightarrow> deck_fs \<Rightarrow> bool" where
  run: "deck_fs_step s (fst (run_fs sc s))"

section \<open>Lemmas\<close>

lemma ere_builds:
  "\<exists>dc. list_all (\<lambda>x. (\<lambda>(v, d, f, a). build_json_ere v d f a) x = Inr ((\<lambda>(_, _, f, _). f @ ''.json'') x, dc x) \<and>
     well_shaped (dc x)) SPEC_ere"
proof (rule build_all_choice, rule ballI)
  fix x assume x: "x \<in> set SPEC_ere"
  obtain v d f a where xe: "x = (v, d, f, a)" by (cases x) auto
  have "v \<in> fst ` set SPEC_ere" using x xe by force
  then have "v \<in> fst ` set PP_ere" using ere_tables_wf by (metis set_map)
  then obtain doc where b: "build_json_ere v d f a = Inr (f @ ''.json'', doc)"
    using build_json_ere_Inr_iff by blast
  then have "well_shaped doc" by (auto simp: build_json_ere_Inr data_ere_shape)
  with b xe show "\<exists>doc. (\<lambda>(v, d, f, a). build_json_ere v d f a) x = Inr ((\<lambda>(_, _, f, _). f @ ''.json'') x, doc) \<and>
     well_shaped doc" by auto
qed

lemma ire_builds:
  "\<exists>dc. list_all (\<lambda>v. build_json_ire v = Inr (fr_file FR_MAP_ire v, dc v) \<and> well_shaped (dc v)) VERBS_ire"
proof (rule build_all_choice, rule ballI)
  fix v assume v: "v \<in> set VERBS_ire"
  then have "v \<in> fst ` set FR_MAP_ire" by (simp only: ire_keys)
  from map_of_key_Some [OF this] obtain d f where df: "map_of FR_MAP_ire v = Some (d, f)" by auto
  from build_json_ire_succeeds [OF v df] obtain a pp where
    "build_json_ire v = Inr (f @ ''.json'', data_ire v d a pp)" by blast
  then show "\<exists>doc. build_json_ire v = Inr (fr_file FR_MAP_ire v, doc) \<and> well_shaped doc"
    using df data_ire_shape by (auto simp: fr_file_def)
qed

lemma irr_builds:
  "\<exists>dc. list_all (\<lambda>v. build_json_irr v = Inr (fr_file FR_MAP_irr v, dc v) \<and> well_shaped (dc v)) VERBS_irr"
proof (rule build_all_choice, rule ballI)
  fix v assume v: "v \<in> set VERBS_irr"
  then have "v \<in> fst ` set FR_MAP_irr" by (simp only: irr_keys)
  from map_of_key_Some [OF this] obtain d f where df: "map_of FR_MAP_irr v = Some (d, f)" by auto
  from build_json_irr_succeeds [OF v df] df
  show "\<exists>doc. build_json_irr v = Inr (fr_file FR_MAP_irr v, doc) \<and> well_shaped doc"
    by (simp add: fr_file_def)
qed

lemma new_files_distinct: "distinct (new_files sc)"
  by (cases sc) (simp_all add: table_defs fr_file_def dict_set_def)

lemma run_good_generic:
  assumes ok: "list_all (\<lambda>v. b v = Inr (nm v, dc v) \<and> well_shaped (dc v)) vs" and d: "distinct (map nm vs)"
    and i: "index_ok s"
  shows "\<exists>ds fs. run_script b vs s = (s\<lparr>docs := ds, index := Parsed (index_doc fs)\<rparr>, None) \<and>
    index_ok (fst (run_script b vs s)) \<and> set fs = set (index_files (index s)) \<union> set (map JStr (map nm vs)) \<and>
    (\<forall>n d. ds n = Some d \<longrightarrow> docs s n = Some d \<or> well_shaped d) \<and> list_all (\<lambda>n. ds n \<noteq> None) (map nm vs) \<and>
    (\<forall>n. docs s n \<noteq> None \<longrightarrow> ds n \<noteq> None)"
proof -
  obtain fs where
    "run_script b vs s = (s\<lparr>docs := write_docs nm dc vs (docs s), index := Parsed (index_doc fs)\<rparr>, None)"
    "index_ok (fst (run_script b vs s))" "set fs = set (index_files (index s)) \<union> set (map JStr (map nm vs))"
    "\<forall>n d. write_docs nm dc vs (docs s) n = Some d \<longrightarrow> docs s n = Some d \<or> well_shaped d"
    using run_script_good [OF ok d i] by blast
  moreover have "\<forall>v\<in>set vs. write_docs nm dc vs (docs s) (nm v) \<noteq> None"
    by (intro ballI write_docs_names)
  then have "list_all (\<lambda>n. write_docs nm dc vs (docs s) n \<noteq> None) (map nm vs)"
    by (simp add: list_all_iff)
  moreover have "\<forall>n. docs s n \<noteq> None \<longrightarrow> write_docs nm dc vs (docs s) n \<noteq> None"
    by (intro allI impI write_docs_dom)
  ultimately show ?thesis by blast
qed

lemma run_good:
  assumes i: "index_ok s"
  shows "\<exists>ds fs. run sc s = (s\<lparr>docs := ds, index := Parsed (index_doc fs)\<rparr>, None) \<and>
    index_ok (fst (run sc s)) \<and> set fs = set (index_files (index s)) \<union> set (map JStr (new_files sc)) \<and>
    (\<forall>n d. ds n = Some d \<longrightarrow> docs s n = Some d \<or> well_shaped d) \<and> list_all (\<lambda>n. ds n \<noteq> None) (new_files sc) \<and>
    (\<forall>n. docs s n \<noteq> None \<longrightarrow> ds n \<noteq> None)"
proof (cases sc)
  case Ere
  obtain dc where "list_all (\<lambda>x. (\<lambda>(v, d, f, a). build_json_ere v d f a) x = Inr ((\<lambda>(_, _, f, _). f @ ''.json'') x, dc x) \<and>
     well_shaped (dc x)) SPEC_ere" using ere_builds ..
  from run_good_generic [OF this _ i] new_files_distinct [of Ere] Ere show ?thesis by (simp add: run_ere_def)
next
  case Ire
  obtain dc where "list_all (\<lambda>v. build_json_ire v = Inr (fr_file FR_MAP_ire v, dc v) \<and> well_shaped (dc v)) VERBS_ire"
    using ire_builds ..
  from run_good_generic [OF this _ i] new_files_distinct [of Ire] Ire show ?thesis by (simp add: run_ire_def)
next
  case Irr
  obtain dc where "list_all (\<lambda>v. build_json_irr v = Inr (fr_file FR_MAP_irr v, dc v) \<and> well_shaped (dc v)) VERBS_irr"
    using irr_builds ..
  from run_good_generic [OF this _ i] new_files_distinct [of Irr] Irr show ?thesis by (simp add: run_irr_def)
qed

lemma new_files_all: "set (new_files sc) \<subseteq> set all_files"
  by (cases sc) (auto simp: all_files_def)

lemma index_files_written [simp]: "index_files (Parsed (index_doc fs)) = fs"
  by (simp add: index_files_def)

lemma reachable_inv:
  "deck_step\<^sup>*\<^sup>* init_deck s \<Longrightarrow> index_ok s \<and> (\<forall>n d. docs s n = Some d \<longrightarrow> well_shaped d) \<and>
     set (index_files (index s)) \<subseteq> set (map JStr all_files)"
proof (induction rule: rtranclp_induct)
  case base
  then show ?case by (simp add: init_deck_def index_ok_def index_files_def)
next
  case (step s t)
  from step.hyps(2) obtain sc where t: "t = fst (run sc s)" by (rule deck_stepE)
  from run_good [OF step.IH [THEN conjunct1], of sc] obtain ds fs where
    r: "run sc s = (s\<lparr>docs := ds, index := Parsed (index_doc fs)\<rparr>, None)" and
    i: "index_ok (fst (run sc s))" and w: "\<forall>n d. ds n = Some d \<longrightarrow> docs s n = Some d \<or> well_shaped d" and
    f: "set fs = set (index_files (index s)) \<union> set (map JStr (new_files sc))"
    by blast
  have "set fs \<subseteq> set (map JStr all_files)" using f step.IH new_files_all [of sc] by auto
  moreover have "well_shaped d" if "ds n = Some d" for n d
  proof -
    from w that have "docs s n = Some d \<or> well_shaped d" by blast
    then show ?thesis using step.IH by blast
  qed
  ultimately show ?case using t r i by simp
qed

lemma reachable_step: "deck_step\<^sup>*\<^sup>* init_deck (fst (run sc init_deck))"
  by (rule r_into_rtranclp) (rule deck_step.run)

lemma run_index:
  "merge_index (index s) (new_files sc) = Inr fs \<Longrightarrow> index (fst (run sc s)) = Parsed (index_doc fs)"
proof (cases sc)
  case Ere
  obtain dc where "list_all (\<lambda>x. (\<lambda>(v, d, f, a). build_json_ere v d f a) x = Inr ((\<lambda>(_, _, f, _). f @ ''.json'') x, dc x) \<and>
     well_shaped (dc x)) SPEC_ere" using ere_builds ..
  from run_script_ok [OF builds_ok [OF this]] Ere show "merge_index (index s) (new_files sc) = Inr fs \<Longrightarrow> ?thesis"
    by (simp add: run_ere_def)
next
  case Ire
  obtain dc where "list_all (\<lambda>v. build_json_ire v = Inr (fr_file FR_MAP_ire v, dc v) \<and> well_shaped (dc v)) VERBS_ire"
    using ire_builds ..
  from run_script_ok [OF builds_ok [OF this]] Ire show "merge_index (index s) (new_files sc) = Inr fs \<Longrightarrow> ?thesis"
    by (simp add: run_ire_def)
next
  case Irr
  obtain dc where "list_all (\<lambda>v. build_json_irr v = Inr (fr_file FR_MAP_irr v, dc v) \<and> well_shaped (dc v)) VERBS_irr"
    using irr_builds ..
  from run_script_ok [OF builds_ok [OF this]] Irr show "merge_index (index s) (new_files sc) = Inr fs \<Longrightarrow> ?thesis"
    by (simp add: run_irr_def)
qed

lemma finire_ire_doc:
  "docs (fst (run Ire s)) ''finir.json'' = Some (data_ire ''finire'' ''finir'' ''avere'' ''finito'')"
proof -
  obtain dc where "list_all (\<lambda>v. build_json_ire v = Inr (fr_file FR_MAP_ire v, dc v) \<and> well_shaped (dc v)) VERBS_ire"
    using ire_builds ..
  note ok = builds_ok [OF this]
  have d: "distinct (map (fr_file FR_MAP_ire) VERBS_ire)" using new_files_distinct [of Ire] by simp
  have v: "''finire'' \<in> set VERBS_ire" by (simp add: table_defs)
  have b: "build_json_ire ''finire'' = Inr (''finir.json'', data_ire ''finire'' ''finir'' ''avere'' ''finito'')"
    by (simp add: build_json_ire_def dict_get_def table_defs)
  have "docs (fst (run_script build_json_ire VERBS_ire s)) ''finir.json'' =
      Some (data_ire ''finire'' ''finir'' ''avere'' ''finito'')"
    by (rule docs_run_at [where b = build_json_ire and nm = "fr_file FR_MAP_ire" and v = "''finire''", OF ok d v b])
  then show ?thesis by (simp add: run_ire_def)
qed

lemma finire_irr_doc:
  "\<exists>doc. docs (fst (run Irr s)) ''finir.json'' = Some doc \<and>
     tense_row (Indicativo doc) ''Imperfetto'' = imperfetto_irr ''finire''"
proof -
  obtain dc where "list_all (\<lambda>v. build_json_irr v = Inr (fr_file FR_MAP_irr v, dc v) \<and> well_shaped (dc v)) VERBS_irr"
    using irr_builds ..
  note ok = builds_ok [OF this]
  have d: "distinct (map (fr_file FR_MAP_irr) VERBS_irr)" using new_files_distinct [of Irr] by simp
  have v: "''finire'' \<in> set VERBS_irr" by (simp add: table_defs)
  have df: "map_of FR_MAP_irr ''finire'' = Some (''finir'', ''finir'')" by (simp add: table_defs)
  obtain doc where b: "build_json_irr ''finire'' = Inr (''finir.json'', doc)"
    using build_json_irr_succeeds [OF v df] by auto
  then obtain d a pp where "data_irr ''finire'' d a pp = Inr doc" by (auto simp: build_json_irr_Inr)
  then have "tense_row (Indicativo doc) ''Imperfetto'' = imperfetto_irr ''finire''" by (rule data_irr_imperfetto)
  moreover have "docs (fst (run_script build_json_irr VERBS_irr s)) ''finir.json'' = Some doc"
    by (rule docs_run_at [where b = build_json_irr and nm = "fr_file FR_MAP_irr" and v = "''finire''", OF ok d v b])
  ultimately show ?thesis by (simp add: run_irr_def)
qed

lemma all_files_first_occ: "length (first_occ all_files) = 81"
  by (simp add: all_files_def table_defs fr_file_def dict_set_def first_occ_def)

lemma run_fs_abs: "run sc (abs_deck t) = map_prod abs_deck id (run_fs sc t)"
  by (cases sc) (simp_all add: run_ere_def run_ire_def run_irr_def run_script_fs_abs)

lemma abs_init_fs: "abs_deck init_fs = init_deck"
  by (simp add: abs_deck_def init_fs_def init_deck_def read_docs_def read_index_def fun_eq_iff)

lemma reachable_fs_abs: "deck_fs_step\<^sup>*\<^sup>* init_fs t \<Longrightarrow> deck_step\<^sup>*\<^sup>* init_deck (abs_deck t)"
proof (induction rule: rtranclp_induct)
  case base
  then show ?case by (simp add: abs_init_fs)
next
  case (step y z)
  from step.hyps(2) obtain sc where z: "z = fst (run_fs sc y)" by (cases rule: deck_fs_step.cases)
  have "abs_deck z = fst (run sc (abs_deck y))" using run_fs_abs [of sc y] z by (cases "run_fs sc y") simp
  then have "deck_step (abs_deck y) (abs_deck z)" by (simp add: deck_step.run)
  with step.IH show ?case by (rule rtranclp.rtrancl_into_rtrancl)
qed

lemma run_fs_rerun:
  assumes r: "run_fs sc t = (t', None)"
  shows "run_fs sc t' = (t', None)"
proof (cases sc)
  case Ere
  obtain dc where "list_all (\<lambda>x. (\<lambda>(v, d, f, a). build_json_ere v d f a) x = Inr ((\<lambda>(_, _, f, _). f @ ''.json'') x, dc x) \<and>
     well_shaped (dc x)) SPEC_ere" using ere_builds ..
  from run_script_fs_rerun_gen [OF builds_ok [OF this] _ ] new_files_distinct [of Ere] r Ere show ?thesis by simp
next
  case Ire
  obtain dc where "list_all (\<lambda>v. build_json_ire v = Inr (fr_file FR_MAP_ire v, dc v) \<and> well_shaped (dc v)) VERBS_ire"
    using ire_builds ..
  from run_script_fs_rerun_gen [OF builds_ok [OF this] _ ] new_files_distinct [of Ire] r Ire show ?thesis by simp
next
  case Irr
  obtain dc where "list_all (\<lambda>v. build_json_irr v = Inr (fr_file FR_MAP_irr v, dc v) \<and> well_shaped (dc v)) VERBS_irr"
    using irr_builds ..
  from run_script_fs_rerun_gen [OF builds_ok [OF this] _ ] new_files_distinct [of Irr] r Irr show ?thesis by simp
qed

text \<open>Claim C23. Every deck the three scripts can produce, run in any order
  and any number of times from an empty directory, is well formed: the index is
  absent or lists distinct file names each of which is a document of the
  directory, and every document has the shape the specification promises.\<close>

theorem reachable_deck_ok:
  "deck_step\<^sup>*\<^sup>* init_deck s \<Longrightarrow> index_ok s \<and> (docs s n = Some d \<longrightarrow> well_shaped d)"
  using reachable_inv by blast

theorem reachable_deck_ok_witness:
  "index_ok (fst (run Ire init_deck)) \<and> well_shaped (data_ire ''finire'' ''finir'' ''avere'' ''finito'')"
  using reachable_deck_ok [OF reachable_step, of Ire "''finir.json''" "data_ire ''finire'' ''finir'' ''avere'' ''finito''"]
    finire_ire_doc [of init_deck] by blast

text \<open>Claim C24. The index of such a deck names only files the scripts write,
  so it never lists more than the 81 distinct names of the three scripts.\<close>

theorem reachable_index_bound:
  "deck_step\<^sup>*\<^sup>* init_deck s \<Longrightarrow>
   set (index_files (index s)) \<subseteq> set (map JStr all_files) \<and> length (index_files (index s)) \<le> 81"
proof -
  assume r: "deck_step\<^sup>*\<^sup>* init_deck s"
  then have i: "index_ok s" and sub: "set (index_files (index s)) \<subseteq> set (map JStr all_files)"
    using reachable_inv by blast+
  have "distinct (index_files (index s))"
    using i by (auto simp: index_ok_def index_files_def str_files_def split: index_file.splits sum.splits)
  then have "length (index_files (index s)) = card (set (index_files (index s)))" by (simp add: distinct_card)
  also have "\<dots> \<le> card (set (map JStr all_files))" using sub by (intro card_mono) simp_all
  also have "\<dots> = length (first_occ all_files)"
    by (simp add: first_occ_def length_remdups_card_conv card_image inj_on_def)
  finally show ?thesis using sub all_files_first_occ by simp
qed

theorem reachable_index_bound_witness:
  "set (index_files (index init_deck)) \<subseteq> set (map JStr all_files) \<and> length (index_files (index init_deck)) \<le> 81"
  using reachable_index_bound [OF rtranclp.rtrancl_refl] .

text \<open>Claim C25. On such a deck, each script runs to the end without an
  exception, writes a document for each of its file names, and leaves an index
  that lists all of them.\<close>

theorem reachable_run_ok:
  "deck_step\<^sup>*\<^sup>* init_deck s \<Longrightarrow>
   \<exists>fs. snd (run sc s) = None \<and> index (fst (run sc s)) = Parsed (index_doc fs) \<and>
     set (map JStr (new_files sc)) \<subseteq> set fs \<and> list_all (\<lambda>n. docs (fst (run sc s)) n \<noteq> None) (new_files sc)"
proof -
  assume "deck_step\<^sup>*\<^sup>* init_deck s"
  then have "index_ok s" using reachable_inv by blast
  from run_good [OF this, of sc] show ?thesis by auto
qed

theorem reachable_run_ok_witness:
  "\<exists>fs. snd (run Irr init_deck) = None \<and> index (fst (run Irr init_deck)) = Parsed (index_doc fs) \<and>
     set (map JStr (new_files Irr)) \<subseteq> set fs \<and> list_all (\<lambda>n. docs (fst (run Irr init_deck)) n \<noteq> None) (new_files Irr)"
  using reachable_run_ok [OF rtranclp.rtrancl_refl] .

text \<open>Claim C26. Running a script a second time on the deck it produced
  changes nothing, on every deck the scripts can produce.\<close>

theorem reachable_rerun:
  "deck_step\<^sup>*\<^sup>* init_deck s \<Longrightarrow> run sc (fst (run sc s)) = (fst (run sc s), None)"
proof -
  assume "deck_step\<^sup>*\<^sup>* init_deck s"
  then have i: "index_ok s" using reachable_inv by blast
  show ?thesis
  proof (cases sc)
    case Ere
    obtain dc where "list_all (\<lambda>x. (\<lambda>(v, d, f, a). build_json_ere v d f a) x = Inr ((\<lambda>(_, _, f, _). f @ ''.json'') x, dc x) \<and>
       well_shaped (dc x)) SPEC_ere" using ere_builds ..
    from run_script_rerun [OF builds_ok [OF this] _ i] new_files_distinct [of Ere] Ere show ?thesis
      by (simp add: run_ere_def)
  next
    case Ire
    obtain dc where "list_all (\<lambda>v. build_json_ire v = Inr (fr_file FR_MAP_ire v, dc v) \<and> well_shaped (dc v)) VERBS_ire"
      using ire_builds ..
    from run_script_rerun [OF builds_ok [OF this] _ i] new_files_distinct [of Ire] Ire show ?thesis
      by (simp add: run_ire_def)
  next
    case Irr
    obtain dc where "list_all (\<lambda>v. build_json_irr v = Inr (fr_file FR_MAP_irr v, dc v) \<and> well_shaped (dc v)) VERBS_irr"
      using irr_builds ..
    from run_script_rerun [OF builds_ok [OF this] _ i] new_files_distinct [of Irr] Irr show ?thesis
      by (simp add: run_irr_def)
  qed
qed

theorem reachable_rerun_witness:
  "run Ere (fst (run Ere init_deck)) = (fst (run Ere init_deck), None)"
  using reachable_rerun [OF rtranclp.rtrancl_refl] .

text \<open>Claim C27. From every deck the scripts can produce, running the three
  scripts once more reaches a complete deck: its index lists exactly the file
  names of the three scripts and each of them is a document of the directory.\<close>

theorem eventually_complete:
  "deck_step\<^sup>*\<^sup>* init_deck s \<Longrightarrow>
   \<exists>t. deck_step\<^sup>*\<^sup>* s t \<and> set (index_files (index t)) = set (map JStr all_files) \<and>
     list_all (\<lambda>n. docs t n \<noteq> None) all_files"
proof -
  assume r0: "deck_step\<^sup>*\<^sup>* init_deck s"
  let ?s1 = "fst (run Ere s)" let ?s2 = "fst (run Ire ?s1)" let ?s3 = "fst (run Irr ?s2)"
  have st: "deck_step\<^sup>*\<^sup>* s ?s3"
    by (meson deck_step.run rtranclp.rtrancl_into_rtrancl r_into_rtranclp)
  have i0: "index_ok s" using r0 reachable_inv by blast
  from run_good [OF i0, of Ere] obtain ds1 fs1 where
    r1: "run Ere s = (s\<lparr>docs := ds1, index := Parsed (index_doc fs1)\<rparr>, None)" and i1: "index_ok ?s1" and
    f1: "set fs1 = set (index_files (index s)) \<union> set (map JStr (new_files Ere))" and
    n1: "list_all (\<lambda>n. ds1 n \<noteq> None) (new_files Ere)" by blast
  from run_good [OF i1, of Ire] obtain ds2 fs2 where
    r2: "run Ire ?s1 = (?s1\<lparr>docs := ds2, index := Parsed (index_doc fs2)\<rparr>, None)" and i2: "index_ok ?s2" and
    f2: "set fs2 = set (index_files (index ?s1)) \<union> set (map JStr (new_files Ire))" and
    n2: "list_all (\<lambda>n. ds2 n \<noteq> None) (new_files Ire)" and k2: "\<forall>n. docs ?s1 n \<noteq> None \<longrightarrow> ds2 n \<noteq> None"
    by blast
  from run_good [OF i2, of Irr] obtain ds3 fs3 where
    r3: "run Irr ?s2 = (?s2\<lparr>docs := ds3, index := Parsed (index_doc fs3)\<rparr>, None)" and
    f3: "set fs3 = set (index_files (index ?s2)) \<union> set (map JStr (new_files Irr))" and
    n3: "list_all (\<lambda>n. ds3 n \<noteq> None) (new_files Irr)" and k3: "\<forall>n. docs ?s2 n \<noteq> None \<longrightarrow> ds3 n \<noteq> None"
    by blast
  have e1: "index_files (index ?s1) = fs1" "docs ?s1 = ds1" using r1 by simp_all
  have e2: "index_files (index ?s2) = fs2" "docs ?s2 = ds2" using r2 by simp_all
  have e3: "index_files (index ?s3) = fs3" "docs ?s3 = ds3" using r3 by simp_all
  have ua: "set (map JStr all_files) =
      set (map JStr (new_files Ere)) \<union> set (map JStr (new_files Ire)) \<union> set (map JStr (new_files Irr))"
    by (simp only: all_files_def map_append set_append Un_assoc)
  have "set (map JStr all_files) \<subseteq> set (index_files (index ?s3))"
    unfolding ua e3 f3 e2 f2 e1 f1 by blast
  moreover have "set (index_files (index ?s3)) \<subseteq> set (map JStr all_files)"
    using reachable_inv [OF rtranclp_trans [OF r0 st]] by blast
  moreover have "list_all (\<lambda>n. docs ?s3 n \<noteq> None) all_files"
    using e1 e2 e3 n1 n2 n3 k2 k3 by (auto simp del: new_files.simps simp: all_files_def list_all_iff)
  ultimately show ?thesis using st by blast
qed

theorem eventually_complete_witness:
  "\<exists>t. deck_step\<^sup>*\<^sup>* init_deck t \<and> set (index_files (index t)) = set (map JStr all_files) \<and>
     list_all (\<lambda>n. docs t n \<noteq> None) all_files"
  using eventually_complete [OF rtranclp.rtrancl_refl] .

text \<open>Claim C28. The \<open>-ire\<close> script and the irregular script both write
  \<open>finir.json\<close>, with different documents: which one the deck keeps depends on
  the order the scripts were run in (the irregular one has the imperfect
  \<open>io finvo\<close>, the \<open>-ire\<close> one \<open>io finivo\<close>).\<close>

theorem finir_last_writer_wins:
  "(\<exists>d. docs (fst (run Irr (fst (run Ire s)))) ''finir.json'' = Some d \<and>
        tense_row (Indicativo d) ''Imperfetto'' ! 0 = ''io finvo'') \<and>
   (\<exists>d. docs (fst (run Ire (fst (run Irr s)))) ''finir.json'' = Some d \<and>
        tense_row (Indicativo d) ''Imperfetto'' ! 0 = ''io finivo'')"
proof
  have "imperfetto_irr ''finire'' ! 0 = ''io finvo''"
    by (simp add: imperfetto_irr_def forms_defs table_defs py_eval)
  then show "\<exists>d. docs (fst (run Irr (fst (run Ire s)))) ''finir.json'' = Some d \<and>
        tense_row (Indicativo d) ''Imperfetto'' ! 0 = ''io finvo''"
    using finire_irr_doc [of "fst (run Ire s)"] by auto
  have "tense_row (Indicativo (data_ire ''finire'' ''finir'' ''avere'' ''finito'')) ''Imperfetto'' ! 0 = ''io finivo''"
    by (simp add: data_ire_def Let_def tense_row_def imperfetto_ire_def forms_defs stem_def table_defs py_eval)
  then show "\<exists>d. docs (fst (run Ire (fst (run Irr s)))) ''finir.json'' = Some d \<and>
        tense_row (Indicativo d) ''Imperfetto'' ! 0 = ''io finivo''"
    using finire_ire_doc [of "fst (run Irr s)"] by auto
qed

text \<open>Claim C29. Running the three scripts once each, in the order of the
  repository's history, from an empty directory gives an index of 81 files: the
  file names of the three scripts in order, \<open>finir.json\<close> once.\<close>

theorem pipeline_index:
  "index (fst (run Irr (fst (run Ire (fst (run Ere init_deck)))))) =
     Parsed (index_doc (map JStr (first_occ (new_files Ere @ new_files Ire @ new_files Irr)))) \<and>
   length (first_occ (new_files Ere @ new_files Ire @ new_files Irr)) = 81"
proof
  have "index (fst (run Ere init_deck)) = Parsed (index_doc (map JStr (new_files Ere)))"
    by (rule run_index) (simp add: init_deck_def merge_index_def)
  then have "index (fst (run Ire (fst (run Ere init_deck)))) =
      Parsed (index_doc (map JStr (first_occ (new_files Ere @ new_files Ire))))"
    by (intro run_index) (simp only: merge_index_strings)
  then show "index (fst (run Irr (fst (run Ire (fst (run Ere init_deck)))))) =
     Parsed (index_doc (map JStr (first_occ (new_files Ere @ new_files Ire @ new_files Irr))))"
    by (intro run_index) (simp only: merge_index_strings first_occ_append_first_occ append_assoc)
  show "length (first_occ (new_files Ere @ new_files Ire @ new_files Irr)) = 81"
    using all_files_first_occ by (simp add: all_files_def)
qed

text \<open>Claim C3. Each script carries its own copy of the shared engine, and
  the copies agree: the auxiliary tables of the \<open>-ire\<close> script and of the
  irregular script (two under other names) are those of the \<open>-ere\<close> script,
  the \<open>-ire\<close> script's \<open>compose\<close> is the same function, the irregular
  script's reformulated loop computes the same forms on every input, and its
  two present subjunctives are one function.\<close>

theorem script_copies_agree:
  "compose_ire = compose \<and> compose_irr = compose \<and>
   aux_pres_ire = aux_pres \<and> aux_impf_ire = aux_impf \<and> aux_rem_ire = aux_rem \<and> aux_fut_ire = aux_fut \<and>
   aux_cond_ire = aux_cond \<and> aux_cong_pres_ire = aux_cong_pres \<and> aux_cong_impf_ire = aux_cong_impf \<and>
   aux_present = aux_pres \<and> aux_imperf = aux_impf \<and> aux_rem_irr = aux_rem \<and> aux_fut_irr = aux_fut \<and>
   aux_cond_irr = aux_cond \<and> aux_cong_pres_irr = aux_cong_pres \<and> aux_cong_impf_irr = aux_cong_impf \<and>
   congiuntivo_presente_irr = congiuntivo_presente_full"
  by (simp add: fun_eq_iff compose_irr_compose)

text \<open>Claim C21. The text-level runs refine the deck model: every directory
  the scripts can produce from an empty one, read back through
  \<open>abs_deck\<close>, is a deck the value-level runs can produce, so its index is
  well formed (distinct names, each a file that decodes to a document) and
  every verb file decodes to a well-shaped document.\<close>

theorem reachable_fs_refines:
  "deck_fs_step\<^sup>*\<^sup>* init_fs t \<Longrightarrow>
   deck_step\<^sup>*\<^sup>* init_deck (abs_deck t) \<and> index_ok (abs_deck t) \<and>
   (\<forall>n d. docs (abs_deck t) n = Some d \<longrightarrow> well_shaped d)"
  using reachable_fs_abs reachable_inv by blast

theorem reachable_fs_refines_witness:
  "deck_step\<^sup>*\<^sup>* init_deck (abs_deck (fst (run_fs Ire init_fs))) \<and> index_ok (abs_deck (fst (run_fs Ire init_fs))) \<and>
   docs (abs_deck (fst (run_fs Ire init_fs))) ''finir.json'' = Some (data_ire ''finire'' ''finir'' ''avere'' ''finito'') \<and>
   well_shaped (data_ire ''finire'' ''finir'' ''avere'' ''finito'')"
proof -
  have a: "abs_deck (fst (run_fs Ire init_fs)) = fst (run Ire init_deck)"
    using run_fs_abs [of Ire init_fs] abs_init_fs by (cases "run_fs Ire init_fs") simp
  have d: "docs (abs_deck (fst (run_fs Ire init_fs))) ''finir.json'' = Some (data_ire ''finire'' ''finir'' ''avere'' ''finito'')"
    unfolding a by (rule finire_ire_doc)
  show ?thesis
    using reachable_fs_refines [OF r_into_rtranclp [where r = deck_fs_step, OF deck_fs_step.run [of init_fs Ire]]] d
    by blast
qed

text \<open>Claim C22. Regenerating is byte-for-byte idempotent: on every directory
  the scripts can produce, each script runs without an exception, and running
  it again rewrites every verb file and \<^verbatim>\<open>index.json\<close> with the same
  text.\<close>

theorem reachable_fs_rerun:
  "deck_fs_step\<^sup>*\<^sup>* init_fs t \<Longrightarrow>
   snd (run_fs sc t) = None \<and> run_fs sc (fst (run_fs sc t)) = (fst (run_fs sc t), None)"
proof -
  assume "deck_fs_step\<^sup>*\<^sup>* init_fs t"
  then have "index_ok (abs_deck t)" using reachable_fs_abs reachable_inv by blast
  then obtain ds fs where "run sc (abs_deck t) = ((abs_deck t)\<lparr>docs := ds, index := Parsed (index_doc fs)\<rparr>, None)"
    using run_good by blast
  then have n: "snd (run_fs sc t) = None" using run_fs_abs [of sc t] by (cases "run_fs sc t") simp
  then have "run_fs sc t = (fst (run_fs sc t), None)" by (cases "run_fs sc t") simp
  with n show ?thesis using run_fs_rerun by blast
qed

theorem reachable_fs_rerun_witness:
  "snd (run_fs Ere init_fs) = None \<and> run_fs Ere (fst (run_fs Ere init_fs)) = (fst (run_fs Ere init_fs), None)"
  using reachable_fs_rerun [OF rtranclp.rtrancl_refl] .

end
